theory Spec2Isabelle
  imports Complex_Main "HOL-Library.Sublist"
begin

section \<open>Python values, errors and statements\<close>

text \<open>
  The analyzer (\<^verbatim>\<open>scripts/hoh_local_analyzer.py\<close>) works on what \<^verbatim>\<open>json.loads\<close>
  returns: \<^verbatim>\<open>None\<close>, booleans, integers, floats, strings, lists and dictionaries.
  A dictionary is an association list read with \<open>map_of\<close>; a Python string is a
  list of characters. The non-finite floats that \<^verbatim>\<open>json.loads\<close> accepts are not
  represented.
\<close>

datatype json =
    JNull
  | JBool bool
  | JInt int
  | JFloat real
  | JStr string
  | JArr "json list"
  | JObj "(string \<times> json) list"

text \<open>
  The exceptions the two methods can raise: \<^verbatim>\<open>AttributeError\<close> (a method such as
  \<^verbatim>\<open>.get\<close>, \<^verbatim>\<open>.endswith\<close> or \<^verbatim>\<open>.replace\<close> on a value that has none),
  \<^verbatim>\<open>TypeError\<close> (iterating a value that is not iterable, hashing a list or a
  dictionary), \<^verbatim>\<open>KeyError\<close>, and the \<^verbatim>\<open>Exception("No HeroPush message found! ...")\<close>
  of \<^verbatim>\<open>build_master_tables\<close>.
\<close>

datatype error = AttributeError | TypeError | KeyError | NoHeroPush

text \<open>
  A statement takes the object's state and returns the state it leaves behind, with the
  exception it raised, if any: the state of a raising statement is the state at the
  raise, as the caller of the method finds it.
\<close>

type_synonym 's stmt = "'s \<Rightarrow> error option \<times> 's"

definition seq :: "'s stmt \<Rightarrow> 's stmt \<Rightarrow> 's stmt" where
  "seq f g s = (case f s of (None, s') \<Rightarrow> g s' | (Some e, s') \<Rightarrow> (Some e, s'))"

definition attempt :: "error + 'a \<Rightarrow> ('a \<Rightarrow> 's stmt) \<Rightarrow> 's stmt" where
  "attempt r k s = (case r of Inl e \<Rightarrow> (Some e, s) | Inr v \<Rightarrow> k v s)"

fun for_each :: "('a \<Rightarrow> 's stmt) \<Rightarrow> 'a list \<Rightarrow> 's stmt" where
  "for_each body [] s = (None, s)"
| "for_each body (x # xs) s =
     (case body x s of (None, s') \<Rightarrow> for_each body xs s' | (Some e, s') \<Rightarrow> (Some e, s'))"

subsection \<open>Truthiness, equality, hashing\<close>

fun truthy :: "json \<Rightarrow> bool" where
  "truthy JNull = False"
| "truthy (JBool b) = b"
| "truthy (JInt i) = (i \<noteq> 0)"
| "truthy (JFloat r) = (r \<noteq> 0)"
| "truthy (JStr s) = (s \<noteq> [])"
| "truthy (JArr xs) = (xs \<noteq> [])"
| "truthy (JObj kvs) = (kvs \<noteq> [])"

fun hashable :: "json \<Rightarrow> bool" where
  "hashable (JArr xs) = False"
| "hashable (JObj kvs) = False"
| "hashable v = True"

fun num_val :: "json \<Rightarrow> real option" where
  "num_val (JBool b) = Some (if b then 1 else 0)"
| "num_val (JInt i) = Some (real_of_int i)"
| "num_val (JFloat r) = Some r"
| "num_val v = None"

text \<open>Python's \<^verbatim>\<open>==\<close> on hashable values: booleans and numbers compare by value.\<close>

definition py_eq :: "json \<Rightarrow> json \<Rightarrow> bool" where
  "py_eq a b =
     (case (num_val a, num_val b) of
        (Some x, Some y) \<Rightarrow> x = y
      | (None, None) \<Rightarrow> a = b
      | _ \<Rightarrow> False)"

text \<open>\<^verbatim>\<open>x in hero_set\<close>: the set is kept as the list of its elements.\<close>

definition py_in :: "json \<Rightarrow> json list \<Rightarrow> error + bool" where
  "py_in x xs = (if hashable x then Inr (list_ex (py_eq x) xs) else Inl TypeError)"

subsection \<open>Dictionaries, iteration, string methods\<close>

definition dict_get :: "(string \<times> json) list \<Rightarrow> string \<Rightarrow> json \<Rightarrow> json" where
  "dict_get kvs k d = (case map_of kvs k of None \<Rightarrow> d | Some v \<Rightarrow> v)"

text \<open>\<^verbatim>\<open>v.get\<close> exists on dictionaries only.\<close>

definition as_dict :: "json \<Rightarrow> error + (string \<times> json) list" where
  "as_dict v = (case v of JObj kvs \<Rightarrow> Inr kvs | _ \<Rightarrow> Inl AttributeError)"

definition py_get :: "json \<Rightarrow> string \<Rightarrow> json \<Rightarrow> error + json" where
  "py_get v k d = (case as_dict v of Inl e \<Rightarrow> Inl e | Inr kvs \<Rightarrow> Inr (dict_get kvs k d))"

definition py_getitem :: "json \<Rightarrow> string \<Rightarrow> error + json" where
  "py_getitem v k =
     (case v of
        JObj kvs \<Rightarrow> (case map_of kvs k of None \<Rightarrow> Inl KeyError | Some x \<Rightarrow> Inr x)
      | _ \<Rightarrow> Inl TypeError)"

fun dict_keys :: "(string \<times> json) list \<Rightarrow> string list" where
  "dict_keys [] = []"
| "dict_keys ((k, v) # kvs) = k # removeAll k (dict_keys kvs)"

text \<open>
  \<^verbatim>\<open>for x in v\<close>: a list gives its elements, a string its characters, a dictionary
  its keys; anything else raises \<^verbatim>\<open>TypeError\<close>.
\<close>

definition py_iter :: "json \<Rightarrow> error + json list" where
  "py_iter v =
     (case v of
        JArr xs \<Rightarrow> Inr xs
      | JStr s \<Rightarrow> Inr (map (\<lambda>c. JStr [c]) s)
      | JObj kvs \<Rightarrow> Inr (map JStr (dict_keys kvs))
      | _ \<Rightarrow> Inl TypeError)"

definition for_in :: "json \<Rightarrow> (json \<Rightarrow> 's stmt) \<Rightarrow> 's stmt" where
  "for_in v body s = (case py_iter v of Inl e \<Rightarrow> (Some e, s) | Inr xs \<Rightarrow> for_each body xs s)"

text \<open>
  \<^verbatim>\<open>s.replace(old, new)\<close>: every occurrence of \<open>old\<close>, found from left to right
  without overlap, becomes \<open>new\<close>.
\<close>

fun replace :: "'a list \<Rightarrow> 'a list \<Rightarrow> 'a list \<Rightarrow> 'a list" where
  "replace old new [] = (if old = [] then new else [])"
| "replace old new (c # cs) =
     (if old = [] then new @ c # replace old new cs
      else if prefix old (c # cs) then new @ replace old new (drop (length old - 1) cs)
      else c # replace old new cs)"

definition py_replace :: "json \<Rightarrow> string \<Rightarrow> string \<Rightarrow> error + string" where
  "py_replace v old new = (case v of JStr s \<Rightarrow> Inr (replace old new s) | _ \<Rightarrow> Inl AttributeError)"

section \<open>The analyzer object\<close>

text \<open>
  The fields of \<^verbatim>\<open>HoHLocalAnalyzer\<close> that the classifier and the builder read and
  write: the message stream, the seven raw buckets and the eight tables of the entity
  model. \<^verbatim>\<open>None\<close> in a singleton bucket is \<open>JNull\<close>. The two dictionaries
  \<^verbatim>\<open>equipment\<close> and \<^verbatim>\<open>relics\<close> keep their keys in insertion order.
\<close>

record analyzer =
  messages :: "json list"
  raw_playerdto :: json
  raw_heropush :: json
  raw_equipment_lists :: "json list"
  raw_relic_lists :: "json list"
  raw_cities :: "json list"
  raw_alliance_members :: json
  raw_alliance_cities :: "json list"
  player_info :: json
  heroes :: "json list"
  decks :: "json list"
  equipment :: "(string \<times> json list) list"
  relics :: "(string \<times> json list) list"
  cities :: "json list"
  alliance_members :: "json list"
  alliance_cities :: "json list"

text \<open>The object as \<^verbatim>\<open>__init__\<close> leaves it (the raw buckets do not exist yet).\<close>

definition init_analyzer :: "json list \<Rightarrow> analyzer" where
  "init_analyzer msgs =
     \<lparr> messages = msgs,
       raw_playerdto = JNull, raw_heropush = JNull, raw_equipment_lists = [],
       raw_relic_lists = [], raw_cities = [], raw_alliance_members = JNull,
       raw_alliance_cities = [],
       player_info = JObj [], heroes = [], decks = [], equipment = [], relics = [],
       cities = [], alliance_members = [], alliance_cities = [] \<rparr>"

section \<open>The message classifier\<close>

text \<open>
  The body of the loop of \<^verbatim>\<open>classify_startup_messages\<close>: \<^verbatim>\<open>msg.get("@type", "")\<close>,
  then the chain of \<^verbatim>\<open>dto_type.endswith(...)\<close> tests in the order of the source, each
  branch ending in \<^verbatim>\<open>continue\<close>. The first \<^verbatim>\<open>endswith\<close> raises when the
  discriminator is not a string.
\<close>

definition classify_message :: "json \<Rightarrow> analyzer stmt" where
  "classify_message msg s =
     (case msg of
        JObj kvs \<Rightarrow>
          (case dict_get kvs ''@type'' (JStr []) of
             JStr dto_type \<Rightarrow>
               if suffix ''PlayerDTO'' dto_type then
                 (None, s\<lparr>raw_playerdto := msg\<rparr>)
               else if suffix ''HeroPush'' dto_type then
                 (None, s\<lparr>raw_heropush := msg\<rparr>)
               else if suffix ''AllEquipmentUnitDataDTO'' dto_type then
                 (case map_of kvs ''allEquipment'' of
                    Some v \<Rightarrow> (None, s\<lparr>raw_equipment_lists := raw_equipment_lists s @ [v]\<rparr>)
                  | None \<Rightarrow> (None, s))
               else if suffix ''RelicUnitDataDTO'' dto_type then
                 (None, s\<lparr>raw_relic_lists := raw_relic_lists s @ [msg]\<rparr>)
               else if suffix ''CityDTO'' dto_type then
                 (None, s\<lparr>raw_cities := raw_cities s @ [msg]\<rparr>)
               else if suffix ''AllianceMembersResponse'' dto_type then
                 (None, s\<lparr>raw_alliance_members := msg\<rparr>)
               else if suffix ''AllianceCityDTO'' dto_type then
                 (None, s\<lparr>raw_alliance_cities := raw_alliance_cities s @ [msg]\<rparr>)
               else (None, s)
           | _ \<Rightarrow> (Some AttributeError, s))
      | _ \<Rightarrow> (Some AttributeError, s))"

definition classify_startup_messages :: "analyzer stmt" where
  "classify_startup_messages s =
     for_each classify_message (messages s)
       (s\<lparr>raw_playerdto := JNull, raw_heropush := JNull, raw_equipment_lists := [],
          raw_relic_lists := [], raw_cities := [], raw_alliance_members := JNull,
          raw_alliance_cities := []\<rparr>)"

section \<open>The builder of the master tables\<close>

subsection \<open>1. Player profile\<close>

definition build_profile :: "analyzer stmt" where
  "build_profile s =
     (if truthy (raw_playerdto s) then
        attempt (as_dict (raw_playerdto s))
          (\<lambda>p s. (None, s\<lparr>player_info := JObj
             [(''id'', dict_get p ''id'' JNull),
              (''displayName'', dict_get p ''displayName'' JNull),
              (''username'', dict_get p ''username'' JNull),
              (''allianceId'', dict_get p ''allianceId'' JNull)]\<rparr>)) s
      else
        (None, s\<lparr>player_info := JObj
           [(''id'', JNull), (''displayName'', JNull), (''username'', JNull),
            (''allianceId'', JNull)]\<rparr>))"

subsection \<open>2. Heroes\<close>

text \<open>
  One element of \<^verbatim>\<open>unlocked\<close>: the dictionary appended to \<^verbatim>\<open>self.heroes\<close>, or the
  exception raised before anything is appended.
\<close>

definition hero_entry :: "json \<Rightarrow> error + json" where
  "hero_entry h =
     (case as_dict h of
        Inl e \<Rightarrow> Inl e
      | Inr f \<Rightarrow>
          (let hero_id = dict_get f ''heroDefinitionId'' JNull in
           case (if truthy hero_id then
                   (case py_replace hero_id ''hero.'' [] of Inl e \<Rightarrow> Inl e | Inr n \<Rightarrow> Inr (JStr n))
                 else Inr JNull) of
             Inl e \<Rightarrow> Inl e
           | Inr name \<Rightarrow>
               Inr (JObj
                 [(''heroDefinitionId'', hero_id),
                  (''name'', name),
                  (''level'', dict_get f ''level'' JNull),
                  (''ascensionLevel'', dict_get f ''ascensionLevel'' JNull),
                  (''abilityLevel'', dict_get f ''abilityLevel'' JNull),
                  (''awakeningLevel'', dict_get f ''awakeningLevel'' JNull),
                  (''abilityMasteryPoints'', dict_get f ''abilityMasteryPoints'' JNull),
                  (''unlockedAt'', dict_get f ''unlockedAt'' JNull)])))"

definition build_heroes :: "analyzer stmt" where
  "build_heroes s =
     (if \<not> truthy (raw_heropush s) then (Some NoHeroPush, s)
      else
        attempt (py_get (raw_heropush s) ''unlocked'' (JArr []))
          (\<lambda>unlocked. for_in unlocked
             (\<lambda>h. attempt (hero_entry h) (\<lambda>e s. (None, s\<lparr>heroes := heroes s @ [e]\<rparr>))))
          (s\<lparr>heroes := []\<rparr>))"

text \<open>\<^verbatim>\<open>hero_set = {h["heroDefinitionId"] for h in self.heroes}\<close>\<close>

fun hero_set_of :: "json list \<Rightarrow> error + json list" where
  "hero_set_of [] = Inr []"
| "hero_set_of (h # hs) =
     (case py_getitem h ''heroDefinitionId'' of
        Inl e \<Rightarrow> Inl e
      | Inr v \<Rightarrow>
          if hashable v then
            (case hero_set_of hs of Inl e \<Rightarrow> Inl e | Inr vs \<Rightarrow> Inr (v # vs))
          else Inl TypeError)"

subsection \<open>3. Decks\<close>

text \<open>\<^verbatim>\<open>[hid.replace("hero.", "") for hid in ...]\<close>\<close>

fun replace_each :: "json list \<Rightarrow> error + json list" where
  "replace_each [] = Inr []"
| "replace_each (hid # hids) =
     (case py_replace hid ''hero.'' [] of
        Inl e \<Rightarrow> Inl e
      | Inr x \<Rightarrow> (case replace_each hids of Inl e \<Rightarrow> Inl e | Inr xs \<Rightarrow> Inr (JStr x # xs)))"

definition deck_entry :: "json \<Rightarrow> error + json" where
  "deck_entry d =
     (case as_dict d of
        Inl e \<Rightarrow> Inl e
      | Inr f \<Rightarrow>
          (case py_iter (dict_get f ''heroDefinitionId'' (JArr [])) of
             Inl e \<Rightarrow> Inl e
           | Inr hids \<Rightarrow>
               (case replace_each hids of
                  Inl e \<Rightarrow> Inl e
                | Inr names \<Rightarrow>
                    Inr (JObj [(''definitionId'', dict_get f ''definitionId'' JNull),
                               (''heroes'', JArr names)]))))"

definition build_decks :: "analyzer stmt" where
  "build_decks s =
     attempt (py_get (raw_heropush s) ''deck'' (JArr []))
       (\<lambda>deck_list. for_in deck_list
          (\<lambda>d. attempt (deck_entry d) (\<lambda>e s. (None, s\<lparr>decks := decks s @ [e]\<rparr>))))
       (s\<lparr>decks := []\<rparr>)"

subsection \<open>4. Equipment\<close>

text \<open>
  \<^verbatim>\<open>if hero_name not in d: d[hero_name] = []\<close> followed by
  \<^verbatim>\<open>d[hero_name].append(item)\<close>.
\<close>

definition dict_append :: "string \<Rightarrow> json \<Rightarrow> (string \<times> json list) list \<Rightarrow> (string \<times> json list) list" where
  "dict_append k v d =
     (if map_of d k = None then d @ [(k, [v])]
      else map (\<lambda>(k', vs). if k' = k then (k', vs @ [v]) else (k', vs)) d)"

definition equipment_item :: "(string \<times> json) list \<Rightarrow> json" where
  "equipment_item f =
     JObj [(''id'', dict_get f ''id'' JNull),
           (''slot'', dict_get f ''equipmentSlotTypeDefinitionId'' JNull),
           (''set'', dict_get f ''equipmentSetDefinitionId'' JNull),
           (''rarity'', dict_get f ''equipmentRarityDefinitionId'' JNull),
           (''level'', dict_get f ''level'' JNull),
           (''mainAttribute'', dict_get f ''mainAttribute'' JNull),
           (''subAttributes'', dict_get f ''subAttributes'' (JArr []))]"

definition equipment_body :: "json list \<Rightarrow> json \<Rightarrow> analyzer stmt" where
  "equipment_body hero_set eq =
     attempt (as_dict eq)
       (\<lambda>f s.
          let hero_def = dict_get f ''equippedOnHeroDefinitionId'' JNull in
          if truthy hero_def then
            attempt (py_in hero_def hero_set)
              (\<lambda>owned s.
                 if owned then
                   attempt (py_replace hero_def ''hero.'' [])
                     (\<lambda>hero_name s.
                        (None, s\<lparr>equipment := dict_append hero_name (equipment_item f) (equipment s)\<rparr>)) s
                 else (None, s)) s
          else (None, s))"

definition build_equipment :: "json list \<Rightarrow> analyzer stmt" where
  "build_equipment hero_set s =
     for_each (\<lambda>equip_group. for_in equip_group (equipment_body hero_set))
       (raw_equipment_lists s) (s\<lparr>equipment := []\<rparr>)"

subsection \<open>5. Relics\<close>

definition relic_item :: "(string \<times> json) list \<Rightarrow> json" where
  "relic_item f =
     JObj [(''relicDefinitionId'', dict_get f ''relicDefinitionId'' JNull),
           (''level'', dict_get f ''level'' JNull),
           (''age'', dict_get f ''ageDefinitionId'' JNull)]"

definition relic_body :: "json list \<Rightarrow> json \<Rightarrow> analyzer stmt" where
  "relic_body hero_set relic_entry =
     attempt (as_dict relic_entry)
       (\<lambda>f. attempt
          (case map_of f ''supportingUnit'' of
             None \<Rightarrow> Inr JNull
           | Some u \<Rightarrow> py_get u ''definitionId'' JNull)
          (\<lambda>hero_def s.
             if truthy hero_def then
               attempt (py_in hero_def hero_set)
                 (\<lambda>owned s.
                    if owned then
                      attempt (py_replace hero_def ''hero.'' [])
                        (\<lambda>hero_name s.
                           (None, s\<lparr>relics := dict_append hero_name (relic_item f) (relics s)\<rparr>)) s
                    else (None, s)) s
             else (None, s)))"

definition build_relics :: "json list \<Rightarrow> analyzer stmt" where
  "build_relics hero_set s =
     for_each (relic_body hero_set) (raw_relic_lists s) (s\<lparr>relics := []\<rparr>)"

subsection \<open>6. User cities\<close>

definition city_entry :: "(string \<times> json) list \<Rightarrow> json" where
  "city_entry f =
     JObj [(''id'', dict_get f ''id'' JNull),
           (''definitionId'', dict_get f ''definitionId'' JNull),
           (''placedBuildingAmounts'', dict_get f ''placedBuildingAmounts'' (JObj [])),
           (''buildingLimits'', dict_get f ''buildingLimits'' (JObj []))]"

definition build_cities :: "analyzer stmt" where
  "build_cities s =
     attempt
       (if truthy (raw_playerdto s) then py_get (raw_playerdto s) ''unlockedCities'' (JArr [])
        else Inr (JArr []))
       (\<lambda>unlocked_cities. for_in unlocked_cities
          (\<lambda>c. attempt (as_dict c) (\<lambda>f s. (None, s\<lparr>cities := cities s @ [city_entry f]\<rparr>))))
       (s\<lparr>cities := []\<rparr>)"

subsection \<open>7. Alliance members\<close>

definition member_entry :: "(string \<times> json) list \<Rightarrow> json" where
  "member_entry f =
     JObj [(''id'', dict_get f ''playerId'' JNull),
           (''name'', dict_get f ''playerName'' JNull),
           (''level'', dict_get f ''level'' JNull),
           (''power'', dict_get f ''power'' JNull),
           (''age'', dict_get f ''ageDefinitionId'' JNull)]"

definition build_alliance_members :: "analyzer stmt" where
  "build_alliance_members s =
     (if truthy (raw_alliance_members s) then
        attempt (py_get (raw_alliance_members s) ''members'' (JArr []))
          (\<lambda>members. for_in members
             (\<lambda>m. attempt (as_dict m)
                (\<lambda>f s. (None, s\<lparr>alliance_members := alliance_members s @ [member_entry f]\<rparr>))))
          (s\<lparr>alliance_members := []\<rparr>)
      else (None, s\<lparr>alliance_members := []\<rparr>))"

subsection \<open>8. Alliance cities\<close>

definition alliance_city_entry :: "(string \<times> json) list \<Rightarrow> json" where
  "alliance_city_entry f =
     JObj [(''id'', dict_get f ''id'' JNull),
           (''ownerId'', dict_get f ''playerId'' JNull),
           (''definitionId'', dict_get f ''definitionId'' JNull)]"

definition build_alliance_cities :: "analyzer stmt" where
  "build_alliance_cities s =
     for_each
       (\<lambda>ac. attempt (as_dict ac)
          (\<lambda>f s. (None, s\<lparr>alliance_cities := alliance_cities s @ [alliance_city_entry f]\<rparr>)))
       (raw_alliance_cities s) (s\<lparr>alliance_cities := []\<rparr>)"

subsection \<open>The method\<close>

text \<open>
  The eight sections of \<^verbatim>\<open>build_master_tables\<close> in the order of the source. The
  local \<^verbatim>\<open>hero_set\<close> is computed at the end of section 2 and read in sections 4 and 5.
\<close>

definition build_master_tables :: "analyzer stmt" where
  "build_master_tables =
     seq build_profile
       (seq build_heroes
          (\<lambda>s. attempt (hero_set_of (heroes s))
             (\<lambda>hero_set.
                seq build_decks
                  (seq (build_equipment hero_set)
                     (seq (build_relics hero_set)
                        (seq build_cities
                           (seq build_alliance_members build_alliance_cities))))) s))"

text \<open>The entity model: the eight tables the consumers read.\<close>

definition entity_model ::
  "analyzer \<Rightarrow> json \<times> json list \<times> json list \<times> (string \<times> json list) list \<times>
     (string \<times> json list) list \<times> json list \<times> json list \<times> json list" where
  "entity_model s =
     (player_info s, heroes s, decks s, equipment s, relics s, cities s,
      alliance_members s, alliance_cities s)"

section \<open>Vocabulary of the statements\<close>

text \<open>
  A record of kind \<open>suf\<close>: a field mapping whose discriminator \<^verbatim>\<open>@type\<close> is a string
  that ends in \<open>suf\<close>. A well-formed record is a field mapping whose discriminator, when
  present, is a string.
\<close>

definition is_kind :: "string \<Rightarrow> json \<Rightarrow> bool" where
  "is_kind suf m =
     (case m of
        JObj kvs \<Rightarrow> (case dict_get kvs ''@type'' (JStr []) of JStr t \<Rightarrow> suffix suf t | _ \<Rightarrow> False)
      | _ \<Rightarrow> False)"

definition is_record :: "json \<Rightarrow> bool" where
  "is_record m =
     (case m of
        JObj kvs \<Rightarrow> (case dict_get kvs ''@type'' (JStr []) of JStr t \<Rightarrow> True | _ \<Rightarrow> False)
      | _ \<Rightarrow> False)"

definition is_dict :: "json \<Rightarrow> bool" where
  "is_dict v = (case v of JObj kvs \<Rightarrow> True | _ \<Rightarrow> False)"

text \<open>The value of a field of a record, \<open>JNull\<close> when the field is absent.\<close>

definition field :: "json \<Rightarrow> string \<Rightarrow> json" where
  "field v k = (case v of JObj kvs \<Rightarrow> dict_get kvs k JNull | _ \<Rightarrow> JNull)"

definition has_field :: "json \<Rightarrow> string \<Rightarrow> bool" where
  "has_field v k = (case v of JObj kvs \<Rightarrow> map_of kvs k \<noteq> None | _ \<Rightarrow> False)"

text \<open>The last record of a kind in stream order, \<open>JNull\<close> when there is none.\<close>

definition retained :: "string \<Rightarrow> json list \<Rightarrow> json" where
  "retained suf msgs = last (JNull # filter (is_kind suf) msgs)"

text \<open>The profile that shows the four fields of a Player record.\<close>

definition profile_of :: "json \<Rightarrow> json" where
  "profile_of p =
     JObj [(''id'', field p ''id''),
           (''displayName'', field p ''displayName''),
           (''username'', field p ''username''),
           (''allianceId'', field p ''allianceId'')]"

text \<open>The raw buckets and the message stream, which the builder only reads.\<close>

definition raws ::
  "analyzer \<Rightarrow> json list \<times> json \<times> json \<times> json list \<times> json list \<times> json list \<times> json \<times> json list" where
  "raws s = (messages s, raw_playerdto s, raw_heropush s, raw_equipment_lists s, raw_relic_lists s,
     raw_cities s, raw_alliance_members s, raw_alliance_cities s)"

text \<open>The number of raw buckets in which two states differ.\<close>

definition changed_buckets :: "analyzer \<Rightarrow> analyzer \<Rightarrow> nat" where
  "changed_buckets s t =
     (if raw_playerdto s = raw_playerdto t then 0 else 1) +
     (if raw_heropush s = raw_heropush t then 0 else 1) +
     (if raw_equipment_lists s = raw_equipment_lists t then 0 else 1) +
     (if raw_relic_lists s = raw_relic_lists t then 0 else 1) +
     (if raw_cities s = raw_cities t then 0 else 1) +
     (if raw_alliance_members s = raw_alliance_members t then 0 else 1) +
     (if raw_alliance_cities s = raw_alliance_cities t then 0 else 1)"

section \<open>Vocabulary of the builder's statements\<close>

text \<open>
  The elements of a list-valued field: the elements the builder iterates, none when the
  field is absent.
\<close>

definition elements :: "json \<Rightarrow> json list" where
  "elements v = (case py_iter v of Inr xs \<Rightarrow> xs | Inl e \<Rightarrow> [])"

definition fields_of :: "json \<Rightarrow> (string \<times> json) list" where
  "fields_of v = (case v of JObj kvs \<Rightarrow> kvs | _ \<Rightarrow> [])"

text \<open>The hero an equipment entry is equipped on, and the hero a relic supports.\<close>

definition equipped_on :: "json \<Rightarrow> json" where
  "equipped_on e = field e ''equippedOnHeroDefinitionId''"

definition supporting_hero :: "json \<Rightarrow> json" where
  "supporting_hero r = field (field r ''supportingUnit'') ''definitionId''"

text \<open>The identifiers of the heroes of the model: the owned set.\<close>

definition owned_ids :: "json list \<Rightarrow> json list" where
  "owned_ids hs = map (\<lambda>h. field h ''heroDefinitionId'') hs"

text \<open>The display form of a hero identifier, as the Heroes step derives it.\<close>

definition display_id :: "json \<Rightarrow> string" where
  "display_id v = (case v of JStr t \<Rightarrow> replace ''hero.'' [] t | _ \<Rightarrow> [])"

text \<open>
  Follows the words of the specification, "stripping the namespace prefix": the
  identifier without its leading \<^verbatim>\<open>hero.\<close>, unchanged when it does not start with it.
\<close>

definition strip_namespace :: "string \<Rightarrow> string" where
  "strip_namespace i = (if prefix ''hero.'' i then drop (length ''hero.'') i else i)"

text \<open>A multi-valued mapping read at one key: the values filed under it, in order.\<close>

definition grouped :: "(string \<times> json) list \<Rightarrow> string \<Rightarrow> json list option" where
  "grouped kvs k = (case map snd (filter (\<lambda>p. fst p = k) kvs) of [] \<Rightarrow> None | v # vs \<Rightarrow> Some (v # vs))"

text \<open>
  The value of a field of a record, \<open>d\<close> when the field is absent.
\<close>

definition field_or :: "json \<Rightarrow> string \<Rightarrow> json \<Rightarrow> json" where
  "field_or v k d =
     (case v of JObj kvs \<Rightarrow> (case map_of kvs k of None \<Rightarrow> d | Some x \<Rightarrow> x) | _ \<Rightarrow> d)"

text \<open>
  The entries of the entity model, field by field: each field is the value of a field of
  the raw element, null when that field is absent, and the empty list or the empty
  mapping for the three fields that default to one.
\<close>

definition hero_of :: "json \<Rightarrow> json" where
  "hero_of h =
     JObj [(''heroDefinitionId'', field h ''heroDefinitionId''),
           (''name'', if truthy (field h ''heroDefinitionId'')
                      then JStr (display_id (field h ''heroDefinitionId'')) else JNull),
           (''level'', field h ''level''),
           (''ascensionLevel'', field h ''ascensionLevel''),
           (''abilityLevel'', field h ''abilityLevel''),
           (''awakeningLevel'', field h ''awakeningLevel''),
           (''abilityMasteryPoints'', field h ''abilityMasteryPoints''),
           (''unlockedAt'', field h ''unlockedAt'')]"

definition deck_of :: "json \<Rightarrow> json" where
  "deck_of d =
     JObj [(''definitionId'', field d ''definitionId''),
           (''heroes'', JArr (map (\<lambda>h. JStr (display_id h)) (elements (field d ''heroDefinitionId''))))]"

definition equipment_of :: "json \<Rightarrow> json" where
  "equipment_of e =
     JObj [(''id'', field e ''id''),
           (''slot'', field e ''equipmentSlotTypeDefinitionId''),
           (''set'', field e ''equipmentSetDefinitionId''),
           (''rarity'', field e ''equipmentRarityDefinitionId''),
           (''level'', field e ''level''),
           (''mainAttribute'', field e ''mainAttribute''),
           (''subAttributes'', field_or e ''subAttributes'' (JArr []))]"

definition relic_of :: "json \<Rightarrow> json" where
  "relic_of r =
     JObj [(''relicDefinitionId'', field r ''relicDefinitionId''),
           (''level'', field r ''level''),
           (''age'', field r ''ageDefinitionId'')]"

definition city_of :: "json \<Rightarrow> json" where
  "city_of c =
     JObj [(''id'', field c ''id''),
           (''definitionId'', field c ''definitionId''),
           (''placedBuildingAmounts'', field_or c ''placedBuildingAmounts'' (JObj [])),
           (''buildingLimits'', field_or c ''buildingLimits'' (JObj []))]"

definition member_of :: "json \<Rightarrow> json" where
  "member_of m =
     JObj [(''id'', field m ''playerId''),
           (''name'', field m ''playerName''),
           (''level'', field m ''level''),
           (''power'', field m ''power''),
           (''age'', field m ''ageDefinitionId'')]"

definition alliance_city_of :: "json \<Rightarrow> json" where
  "alliance_city_of a =
     JObj [(''id'', field a ''id''),
           (''ownerId'', field a ''playerId''),
           (''definitionId'', field a ''definitionId'')]"

section \<open>Shapes of fields\<close>

definition is_str :: "json \<Rightarrow> bool" where
  "is_str v = (case v of JStr t \<Rightarrow> True | _ \<Rightarrow> False)"

definition is_str_or_null :: "json \<Rightarrow> bool" where
  "is_str_or_null v = (case v of JNull \<Rightarrow> True | JStr t \<Rightarrow> True | _ \<Rightarrow> False)"

text \<open>The field \<open>k\<close> of \<open>v\<close> is absent, or is a list whose elements satisfy \<open>P\<close>.\<close>

definition list_field :: "(json \<Rightarrow> bool) \<Rightarrow> json \<Rightarrow> string \<Rightarrow> bool" where
  "list_field P v k =
     (if has_field v k then (case field v k of JArr xs \<Rightarrow> list_all P xs | _ \<Rightarrow> False) else True)"

definition hero_shaped :: "json \<Rightarrow> bool" where
  "hero_shaped h = (is_dict h \<and> is_str_or_null (field h ''heroDefinitionId''))"

definition deck_shaped :: "json \<Rightarrow> bool" where
  "deck_shaped d = (is_dict d \<and> list_field is_str d ''heroDefinitionId'')"

definition equipment_shaped :: "json \<Rightarrow> bool" where
  "equipment_shaped e = (is_dict e \<and> is_str_or_null (equipped_on e))"

definition relic_shaped :: "json \<Rightarrow> bool" where
  "relic_shaped r =
     (is_dict r \<and>
      (if has_field r ''supportingUnit'' then is_dict (field r ''supportingUnit'') else True) \<and>
      is_str_or_null (supporting_hero r))"

text \<open>
  Buckets whose optional fields, where present, have the shape the builder expects:
  lists of field mappings where it iterates, field mappings where it looks fields up,
  strings or null where it reads a hero identifier.
\<close>

definition well_shaped :: "analyzer \<Rightarrow> bool" where
  "well_shaped s =
     (is_dict (raw_heropush s) \<and>
      list_field hero_shaped (raw_heropush s) ''unlocked'' \<and>
      list_field deck_shaped (raw_heropush s) ''deck'' \<and>
      list_all (\<lambda>g. case g of JArr es \<Rightarrow> list_all equipment_shaped es | _ \<Rightarrow> False)
        (raw_equipment_lists s) \<and>
      list_all relic_shaped (raw_relic_lists s) \<and>
      (if truthy (raw_playerdto s)
       then is_dict (raw_playerdto s) \<and> list_field is_dict (raw_playerdto s) ''unlockedCities''
       else True) \<and>
      (if truthy (raw_alliance_members s)
       then is_dict (raw_alliance_members s) \<and> list_field is_dict (raw_alliance_members s) ''members''
       else True) \<and>
      list_all is_dict (raw_alliance_cities s))"

section \<open>Changes of the raw buckets that the tables do not see\<close>

text \<open>
  A change \<open>u\<close> of the object that leaves the eight tables as they are and commutes with
  every assignment to a table: a change of the raw buckets only.
\<close>

definition model_blind :: "(analyzer \<Rightarrow> analyzer) \<Rightarrow> bool" where
  "model_blind u =
     (\<forall>s. entity_model (u s) = entity_model s \<and>
          (\<forall>v. u (s\<lparr>player_info := v\<rparr>) = (u s)\<lparr>player_info := v\<rparr>) \<and>
          (\<forall>v. u (s\<lparr>heroes := v\<rparr>) = (u s)\<lparr>heroes := v\<rparr>) \<and>
          (\<forall>v. u (s\<lparr>decks := v\<rparr>) = (u s)\<lparr>decks := v\<rparr>) \<and>
          (\<forall>v. u (s\<lparr>equipment := v\<rparr>) = (u s)\<lparr>equipment := v\<rparr>) \<and>
          (\<forall>v. u (s\<lparr>relics := v\<rparr>) = (u s)\<lparr>relics := v\<rparr>) \<and>
          (\<forall>v. u (s\<lparr>cities := v\<rparr>) = (u s)\<lparr>cities := v\<rparr>) \<and>
          (\<forall>v. u (s\<lparr>alliance_members := v\<rparr>) = (u s)\<lparr>alliance_members := v\<rparr>) \<and>
          (\<forall>v. u (s\<lparr>alliance_cities := v\<rparr>) = (u s)\<lparr>alliance_cities := v\<rparr>))"

section \<open>Example streams\<close>

definition alliance_city_record :: json where
  "alliance_city_record =
     JObj [(''@type'', JStr ''type.googleapis.com/AllianceCityDTO''),
           (''id'', JInt 7), (''playerId'', JInt 42), (''definitionId'', JStr ''city.Capital'')]"

definition alliance_city_stream :: "json list" where
  "alliance_city_stream =
     [alliance_city_record,
      JObj [(''@type'', JStr ''type.googleapis.com/HeroPush''), (''unlocked'', JArr [])]]"

definition equipment_stream :: "json list" where
  "equipment_stream =
     [JObj [(''@type'', JStr ''type.googleapis.com/AllEquipmentUnitDataDTO''),
            (''allEquipment'', JArr [JObj [(''id'', JInt 1)]])],
      JObj [(''@type'', JStr ''type.googleapis.com/AllEquipmentUnitDataDTO'')],
      JObj [(''@type'', JStr ''type.googleapis.com/PlayerDTO''), (''id'', JInt 42)],
      JObj [(''@type'', JStr ''type.googleapis.com/AllEquipmentUnitDataDTO''),
            (''allEquipment'', JArr [JObj [(''id'', JInt 2)], JObj [(''id'', JInt 3)]])]]"

definition equipment_without_list_stream :: "json list" where
  "equipment_without_list_stream =
     [JObj [(''@type'', JStr ''type.googleapis.com/AllEquipmentUnitDataDTO'')]]"

definition sample_stream :: "json list" where
  "sample_stream =
     [JObj [(''@type'', JStr ''type.googleapis.com/PlayerDTO''), (''id'', JInt 1),
            (''displayName'', JStr ''Ada'')],
      JObj [(''@type'', JStr ''type.googleapis.com/PlayerDTO''), (''id'', JInt 42),
            (''displayName'', JStr ''Bea''), (''username'', JStr ''bea''), (''allianceId'', JInt 9),
            (''unlockedCities'', JArr [JObj [(''id'', JInt 100), (''definitionId'', JStr ''city.Capital'')]])],
      JObj [(''@type'', JStr ''type.googleapis.com/HeroPush''),
            (''unlocked'', JArr [JObj [(''heroDefinitionId'', JStr ''hero.Boudica''), (''level'', JInt 10)],
                                JObj [(''level'', JInt 3)]]),
            (''deck'', JArr [JObj [(''definitionId'', JStr ''deck.1''),
                                  (''heroDefinitionId'', JArr [JStr ''hero.Boudica'', JStr ''hero.Caesar''])]])],
      JObj [(''@type'', JStr ''type.googleapis.com/AllEquipmentUnitDataDTO''),
            (''allEquipment'', JArr [JObj [(''id'', JInt 1), (''equippedOnHeroDefinitionId'', JStr ''hero.Boudica'')],
                                    JObj [(''id'', JInt 2), (''equippedOnHeroDefinitionId'', JStr ''hero.Caesar'')],
                                    JObj [(''id'', JInt 3)]])],
      JObj [(''@type'', JStr ''type.googleapis.com/RelicUnitDataDTO''),
            (''relicDefinitionId'', JStr ''relic.Aegis''),
            (''supportingUnit'', JObj [(''definitionId'', JStr ''hero.Boudica'')])],
      JObj [(''@type'', JStr ''type.googleapis.com/RelicUnitDataDTO''),
            (''relicDefinitionId'', JStr ''relic.Horn'')],
      JObj [(''@type'', JStr ''type.googleapis.com/CityDTO''), (''id'', JInt 5)],
      JObj [(''@type'', JStr ''type.googleapis.com/AllianceMembersResponse''),
            (''members'', JArr [JObj [(''playerId'', JInt 42), (''playerName'', JStr ''Bea'')]])]]"

definition sample_buckets :: analyzer where
  "sample_buckets = snd (classify_startup_messages (init_analyzer sample_stream))"

text \<open>A hero without identifier, an equipment entry and a relic without hero reference.\<close>

definition null_hero_stream :: "json list" where
  "null_hero_stream =
     [JObj [(''@type'', JStr ''type.googleapis.com/HeroPush''),
            (''unlocked'', JArr [JObj [(''level'', JInt 3)]])],
      JObj [(''@type'', JStr ''type.googleapis.com/AllEquipmentUnitDataDTO''),
            (''allEquipment'', JArr [JObj [(''id'', JInt 1)]])],
      JObj [(''@type'', JStr ''type.googleapis.com/RelicUnitDataDTO''),
            (''relicDefinitionId'', JStr ''relic.Horn'')]]"

definition null_hero_buckets :: analyzer where
  "null_hero_buckets = snd (classify_startup_messages (init_analyzer null_hero_stream))"

text \<open>The equipment entry and the relic of \<open>null_hero_stream\<close>.\<close>

definition unattached_equipment :: json where
  "unattached_equipment = JObj [(''id'', JInt 1)]"

definition unattached_relic :: json where
  "unattached_relic =
     JObj [(''@type'', JStr ''type.googleapis.com/RelicUnitDataDTO''),
           (''relicDefinitionId'', JStr ''relic.Horn'')]"

text \<open>The same hero unlocked twice.\<close>

definition duplicate_hero_stream :: "json list" where
  "duplicate_hero_stream =
     [JObj [(''@type'', JStr ''type.googleapis.com/HeroPush''),
            (''unlocked'', JArr [JObj [(''heroDefinitionId'', JStr ''hero.Boudica''), (''level'', JInt 1)],
                                JObj [(''heroDefinitionId'', JStr ''hero.Boudica''), (''level'', JInt 2)]])]]"

definition duplicate_hero_buckets :: analyzer where
  "duplicate_hero_buckets = snd (classify_startup_messages (init_analyzer duplicate_hero_stream))"

text \<open>A deck whose hero identifier contains \<^verbatim>\<open>hero.\<close> a second time.\<close>

definition nested_prefix_stream :: "json list" where
  "nested_prefix_stream =
     [JObj [(''@type'', JStr ''type.googleapis.com/HeroPush''),
            (''deck'', JArr [JObj [(''definitionId'', JStr ''deck.1''),
                                  (''heroDefinitionId'', JArr [JStr ''hero.Superhero.Ajax''])]])]]"

definition nested_prefix_buckets :: analyzer where
  "nested_prefix_buckets = snd (classify_startup_messages (init_analyzer nested_prefix_stream))"

text \<open>A player without unlocked cities, and two city records.\<close>

definition city_isolation_stream :: "json list" where
  "city_isolation_stream =
     [JObj [(''@type'', JStr ''type.googleapis.com/PlayerDTO''), (''id'', JInt 42),
            (''unlockedCities'', JArr [])],
      JObj [(''@type'', JStr ''type.googleapis.com/HeroPush'')],
      JObj [(''@type'', JStr ''type.googleapis.com/CityDTO''), (''id'', JInt 5)],
      JObj [(''@type'', JStr ''type.googleapis.com/CityDTO''), (''id'', JInt 6)]]"

definition city_isolation_buckets :: analyzer where
  "city_isolation_buckets = snd (classify_startup_messages (init_analyzer city_isolation_stream))"

text \<open>A stream without HeroPush record, and one whose HeroPush record has a null list.\<close>

definition no_heropush_stream :: "json list" where
  "no_heropush_stream =
     [JObj [(''@type'', JStr ''type.googleapis.com/PlayerDTO''), (''id'', JInt 42),
            (''displayName'', JStr ''Bea'')]]"

definition no_heropush_buckets :: analyzer where
  "no_heropush_buckets = snd (classify_startup_messages (init_analyzer no_heropush_stream))"

definition null_unlocked_stream :: "json list" where
  "null_unlocked_stream =
     [JObj [(''@type'', JStr ''type.googleapis.com/HeroPush''), (''unlocked'', JNull)]]"

definition null_unlocked_buckets :: analyzer where
  "null_unlocked_buckets = snd (classify_startup_messages (init_analyzer null_unlocked_stream))"

text \<open>A relic record whose \<^verbatim>\<open>supportingUnit\<close> is null.\<close>

definition null_unit_stream :: "json list" where
  "null_unit_stream =
     [JObj [(''@type'', JStr ''type.googleapis.com/HeroPush'')],
      JObj [(''@type'', JStr ''type.googleapis.com/RelicUnitDataDTO''),
            (''relicDefinitionId'', JStr ''relic.Horn''), (''supportingUnit'', JNull)]]"

definition null_unit_buckets :: analyzer where
  "null_unit_buckets = snd (classify_startup_messages (init_analyzer null_unit_stream))"



text \<open>Records that lack every optional field.\<close>

definition bare_stream :: "json list" where
  "bare_stream =
     [JObj [(''@type'', JStr ''type.googleapis.com/PlayerDTO''),
            (''unlockedCities'', JArr [JObj [(''id'', JInt 100)]])],
      JObj [(''@type'', JStr ''type.googleapis.com/HeroPush''),
            (''unlocked'', JArr [JObj [(''heroDefinitionId'', JStr ''hero.Boudica'')]]),
            (''deck'', JArr [JObj []])],
      JObj [(''@type'', JStr ''type.googleapis.com/AllEquipmentUnitDataDTO''),
            (''allEquipment'', JArr [JObj [(''equippedOnHeroDefinitionId'', JStr ''hero.Boudica'')]])],
      JObj [(''@type'', JStr ''type.googleapis.com/RelicUnitDataDTO''),
            (''supportingUnit'', JObj [(''definitionId'', JStr ''hero.Boudica'')])],
      JObj [(''@type'', JStr ''type.googleapis.com/AllianceMembersResponse''),
            (''members'', JArr [JObj []])]]"

definition bare_buckets :: analyzer where
  "bare_buckets = snd (classify_startup_messages (init_analyzer bare_stream))"

section \<open>Loops and statements\<close>

lemma for_each_append:
  "for_each body (xs @ ys) s =
     (case for_each body xs s of (None, s') \<Rightarrow> for_each body ys s' | (Some e, s') \<Rightarrow> (Some e, s'))"
  by (induction xs arbitrary: s) (auto split: prod.splits option.splits)

lemma seq_None:
  "seq f g s = (None, s'') \<longleftrightarrow> (\<exists>s'. f s = (None, s') \<and> g s' = (None, s''))"
  by (auto simp: seq_def split: prod.splits option.splits)

lemma attempt_None:
  "attempt r k s = (None, s') \<longleftrightarrow> (\<exists>v. r = Inr v \<and> k v s = (None, s'))"
  by (auto simp: attempt_def split: sum.splits)

lemma for_in_None:
  "for_in v body s = (None, s') \<longleftrightarrow> (\<exists>xs. py_iter v = Inr xs \<and> for_each body xs s = (None, s'))"
  by (auto simp: for_in_def split: sum.splits)

lemma for_each_frame:
  assumes "\<And>x s. g (snd (body x s)) = g s"
  shows "g (snd (for_each body xs s)) = g s"
proof (induction xs arbitrary: s)
  case Nil
  show ?case by simp
next
  case (Cons x xs)
  show ?case
  proof (cases "body x s")
    case (Pair r t)
    have t: "g t = g s" using assms [of x s] Pair by simp
    show ?thesis
    proof (cases r)
      case None
      with Pair Cons [of t] t show ?thesis by simp
    next
      case (Some e)
      with Pair t show ?thesis by simp
    qed
  qed
qed

lemma attempt_frame:
  assumes "\<And>v s. g (snd (k v s)) = g s"
  shows "g (snd (attempt r k s)) = g s"
  using assms by (cases r) (simp_all add: attempt_def)

lemma for_in_frame:
  assumes "\<And>x s. g (snd (body x s)) = g s"
  shows "g (snd (for_in v body s)) = g s"
  using for_each_frame [of g body, OF assms] by (cases "py_iter v") (simp_all add: for_in_def)


section \<open>Classification\<close>

lemma kind_excl:
  "\<not> suffix a b \<Longrightarrow> \<not> suffix b a \<Longrightarrow> \<not> (suffix a t \<and> suffix b t)"
  using suffix_same_cases by blast

lemma kinds_exclusive:
  "\<not> (suffix ''PlayerDTO'' t \<and> suffix ''HeroPush'' t)"
  "\<not> (suffix ''PlayerDTO'' t \<and> suffix ''AllEquipmentUnitDataDTO'' t)"
  "\<not> (suffix ''PlayerDTO'' t \<and> suffix ''RelicUnitDataDTO'' t)"
  "\<not> (suffix ''PlayerDTO'' t \<and> suffix ''CityDTO'' t)"
  "\<not> (suffix ''PlayerDTO'' t \<and> suffix ''AllianceMembersResponse'' t)"
  "\<not> (suffix ''HeroPush'' t \<and> suffix ''AllEquipmentUnitDataDTO'' t)"
  "\<not> (suffix ''HeroPush'' t \<and> suffix ''RelicUnitDataDTO'' t)"
  "\<not> (suffix ''HeroPush'' t \<and> suffix ''CityDTO'' t)"
  "\<not> (suffix ''HeroPush'' t \<and> suffix ''AllianceMembersResponse'' t)"
  "\<not> (suffix ''AllEquipmentUnitDataDTO'' t \<and> suffix ''RelicUnitDataDTO'' t)"
  "\<not> (suffix ''AllEquipmentUnitDataDTO'' t \<and> suffix ''CityDTO'' t)"
  "\<not> (suffix ''AllEquipmentUnitDataDTO'' t \<and> suffix ''AllianceMembersResponse'' t)"
  "\<not> (suffix ''RelicUnitDataDTO'' t \<and> suffix ''CityDTO'' t)"
  "\<not> (suffix ''RelicUnitDataDTO'' t \<and> suffix ''AllianceMembersResponse'' t)"
  "\<not> (suffix ''CityDTO'' t \<and> suffix ''AllianceMembersResponse'' t)"
  by (rule kind_excl, simp add: suffix_to_prefix, simp add: suffix_to_prefix)+

text \<open>Every discriminator that ends in \<^verbatim>\<open>AllianceCityDTO\<close> ends in \<^verbatim>\<open>CityDTO\<close>.\<close>

lemma alliance_city_is_city: "suffix ''AllianceCityDTO'' t \<Longrightarrow> suffix ''CityDTO'' t"
proof -
  assume a: "suffix ''AllianceCityDTO'' t"
  have "suffix ''CityDTO'' ''AllianceCityDTO''" by (simp add: suffix_to_prefix)
  then show ?thesis using a suffix_order.trans by blast
qed

text \<open>What one well-formed record does to the buckets.\<close>

lemma classify_message_record:
  assumes "is_record msg"
  shows "classify_message msg s =
     (None, s\<lparr>raw_playerdto := if is_kind ''PlayerDTO'' msg then msg else raw_playerdto s,
          raw_heropush := if is_kind ''HeroPush'' msg then msg else raw_heropush s,
          raw_equipment_lists := raw_equipment_lists s @
            (if is_kind ''AllEquipmentUnitDataDTO'' msg \<and> has_field msg ''allEquipment''
             then [field msg ''allEquipment''] else []),
          raw_relic_lists := raw_relic_lists s @ (if is_kind ''RelicUnitDataDTO'' msg then [msg] else []),
          raw_cities := raw_cities s @ (if is_kind ''CityDTO'' msg then [msg] else []),
          raw_alliance_members :=
            if is_kind ''AllianceMembersResponse'' msg then msg else raw_alliance_members s\<rparr>)"
proof -
  from assms obtain kvs t where m: "msg = JObj kvs" and t: "dict_get kvs ''@type'' (JStr []) = JStr t"
    by (auto simp: is_record_def split: json.splits)
  have acity: "suffix ''AllianceCityDTO'' t \<Longrightarrow> suffix ''CityDTO'' t"
    by (rule alliance_city_is_city)
  have k: "is_kind suf msg = suffix suf t" for suf
    by (simp add: is_kind_def m t)
  have hf: "has_field msg ''allEquipment'' = (map_of kvs ''allEquipment'' \<noteq> None)"
    by (simp add: has_field_def m)
  have f: "map_of kvs ''allEquipment'' = Some v \<Longrightarrow> field msg ''allEquipment'' = v" for v
    by (simp add: field_def m dict_get_def)
  have c: "classify_message msg s =
     (if suffix ''PlayerDTO'' t then (None, s\<lparr>raw_playerdto := msg\<rparr>)
      else if suffix ''HeroPush'' t then (None, s\<lparr>raw_heropush := msg\<rparr>)
      else if suffix ''AllEquipmentUnitDataDTO'' t then
        (case map_of kvs ''allEquipment'' of
           Some v \<Rightarrow> (None, s\<lparr>raw_equipment_lists := raw_equipment_lists s @ [v]\<rparr>)
         | None \<Rightarrow> (None, s))
      else if suffix ''RelicUnitDataDTO'' t then
        (None, s\<lparr>raw_relic_lists := raw_relic_lists s @ [msg]\<rparr>)
      else if suffix ''CityDTO'' t then (None, s\<lparr>raw_cities := raw_cities s @ [msg]\<rparr>)
      else if suffix ''AllianceMembersResponse'' t then (None, s\<lparr>raw_alliance_members := msg\<rparr>)
      else if suffix ''AllianceCityDTO'' t then
        (None, s\<lparr>raw_alliance_cities := raw_alliance_cities s @ [msg]\<rparr>)
      else (None, s))"
    unfolding classify_message_def m by (simp add: t)
  show ?thesis
    unfolding c k hf
    using kinds_exclusive [of t] acity
    by (cases "map_of kvs ''allEquipment''") (auto simp: f)
qed

lemma classify_loop:
  assumes "list_all is_record msgs"
  shows "for_each classify_message msgs s =
     (None, s\<lparr>raw_playerdto := last (raw_playerdto s # filter (is_kind ''PlayerDTO'') msgs),
          raw_heropush := last (raw_heropush s # filter (is_kind ''HeroPush'') msgs),
          raw_equipment_lists := raw_equipment_lists s @
            map (\<lambda>m. field m ''allEquipment'')
              (filter (\<lambda>m. is_kind ''AllEquipmentUnitDataDTO'' m \<and> has_field m ''allEquipment'') msgs),
          raw_relic_lists := raw_relic_lists s @ filter (is_kind ''RelicUnitDataDTO'') msgs,
          raw_cities := raw_cities s @ filter (is_kind ''CityDTO'') msgs,
          raw_alliance_members :=
            last (raw_alliance_members s # filter (is_kind ''AllianceMembersResponse'') msgs)\<rparr>)"
  using assms
proof (induction msgs arbitrary: s)
  case Nil
  show ?case by simp
next
  case (Cons m ms)
  from Cons.prems have m: "is_record m" and ms: "list_all is_record ms" by simp_all
  show ?case
    by (simp add: classify_message_record [OF m] Cons.IH [OF ms])
qed

lemma classify_startup_messages_records:
  assumes "list_all is_record (messages s)"
  shows "classify_startup_messages s =
     (None, s\<lparr>raw_playerdto := retained ''PlayerDTO'' (messages s),
          raw_heropush := retained ''HeroPush'' (messages s),
          raw_equipment_lists :=
            map (\<lambda>m. field m ''allEquipment'')
              (filter (\<lambda>m. is_kind ''AllEquipmentUnitDataDTO'' m \<and> has_field m ''allEquipment'')
                 (messages s)),
          raw_relic_lists := filter (is_kind ''RelicUnitDataDTO'') (messages s),
          raw_cities := filter (is_kind ''CityDTO'') (messages s),
          raw_alliance_members := retained ''AllianceMembersResponse'' (messages s),
          raw_alliance_cities := []\<rparr>)"
  by (simp add: classify_startup_messages_def classify_loop [OF assms] retained_def)

section \<open>C1: alliance city records\<close>

text \<open>
  Whatever the stream, the branch for \<^verbatim>\<open>AllianceCityDTO\<close> is never taken: the test for
  \<^verbatim>\<open>CityDTO\<close> stands before it and holds for every such discriminator.
\<close>

lemma alliance_city_bucket_always_empty:
  assumes "list_all is_record (messages s)"
  shows "raw_alliance_cities (snd (classify_startup_messages s)) = []"
    and "filter (is_kind ''AllianceCityDTO'') (messages s)
           = filter (is_kind ''AllianceCityDTO'') (raw_cities (snd (classify_startup_messages s)))"
proof -
  show "raw_alliance_cities (snd (classify_startup_messages s)) = []"
    by (simp add: classify_startup_messages_records [OF assms])
  have "is_kind ''AllianceCityDTO'' m \<Longrightarrow> is_kind ''CityDTO'' m" for m
    by (auto simp: is_kind_def split: json.splits dest: alliance_city_is_city)
  then have "filter (is_kind ''AllianceCityDTO'') (filter (is_kind ''CityDTO'') ms)
      = filter (is_kind ''AllianceCityDTO'') ms" for ms
    by (induction ms) auto
  then show "filter (is_kind ''AllianceCityDTO'') (messages s)
           = filter (is_kind ''AllianceCityDTO'') (raw_cities (snd (classify_startup_messages s)))"
    by (simp add: classify_startup_messages_records [OF assms])
qed

text \<open>
  Claim C1 says that every record whose discriminator ends in \<^verbatim>\<open>AllianceCityDTO\<close> goes
  to the alliance city bucket and yields one entry of \<^verbatim>\<open>alliance_cities\<close>. On the
  stream of one such record followed by a HeroPush record, the classifier puts the
  record into the \<^verbatim>\<open>CityDTO\<close> bucket, leaves the alliance city bucket empty, and the
  builder, which returns normally, produces no alliance city.
\<close>

theorem alliance_city_lands_in_city_bucket:
  "is_kind ''AllianceCityDTO'' alliance_city_record \<and>
   fst (classify_startup_messages (init_analyzer alliance_city_stream)) = None \<and>
   raw_alliance_cities (snd (classify_startup_messages (init_analyzer alliance_city_stream))) = [] \<and>
   raw_cities (snd (classify_startup_messages (init_analyzer alliance_city_stream))) = [alliance_city_record] \<and>
   fst (build_master_tables (snd (classify_startup_messages (init_analyzer alliance_city_stream)))) = None \<and>
   alliance_cities (snd (build_master_tables (snd (classify_startup_messages (init_analyzer alliance_city_stream))))) = []"
  by code_simp

section \<open>C6: the bucket of equipment lists\<close>

text \<open>
  Claim C6, amended: on a stream of well-formed records the classifier returns, and the
  bucket \<^verbatim>\<open>raw_equipment_lists\<close> holds, in stream order, the \<^verbatim>\<open>allEquipment\<close> value of
  every record whose discriminator ends in \<^verbatim>\<open>AllEquipmentUnitDataDTO\<close> and which has
  an \<^verbatim>\<open>allEquipment\<close> field; a record of the kind without that field contributes
  nothing.
\<close>

theorem equipment_lists_bucket:
  assumes "list_all is_record (messages s)"
  shows "fst (classify_startup_messages s) = None \<and>
         raw_equipment_lists (snd (classify_startup_messages s)) =
           map (\<lambda>m. field m ''allEquipment'')
             (filter (\<lambda>m. is_kind ''AllEquipmentUnitDataDTO'' m \<and> has_field m ''allEquipment'')
                (messages s))"
  by (simp add: classify_startup_messages_records [OF assms])

theorem equipment_lists_bucket_witness:
  "list_all is_record equipment_stream \<and>
   raw_equipment_lists (snd (classify_startup_messages (init_analyzer equipment_stream))) =
     [JArr [JObj [(''id'', JInt 1)]], JArr [JObj [(''id'', JInt 2)], JObj [(''id'', JInt 3)]]]"
proof -
  have m: "messages (init_analyzer equipment_stream) = equipment_stream"
    by (simp add: init_analyzer_def)
  have r: "list_all is_record equipment_stream"
    by code_simp
  have f: "map (\<lambda>m. field m ''allEquipment'')
             (filter (\<lambda>m. is_kind ''AllEquipmentUnitDataDTO'' m \<and> has_field m ''allEquipment'')
                equipment_stream) =
     [JArr [JObj [(''id'', JInt 1)]], JArr [JObj [(''id'', JInt 2)], JObj [(''id'', JInt 3)]]]"
    by code_simp
  from r have "list_all is_record (messages (init_analyzer equipment_stream))"
    by (simp only: m)
  from equipment_lists_bucket [OF this] r show ?thesis
    by (simp only: m f simp_thms)
qed

text \<open>
  Claim C6 as stated fails: the stream of one record of the kind that has no
  \<^verbatim>\<open>allEquipment\<close> field leaves the bucket empty.
\<close>

theorem equipment_record_without_list_counterexample:
  "list_all is_record equipment_without_list_stream \<and>
   length (filter (is_kind ''AllEquipmentUnitDataDTO'') equipment_without_list_stream) = 1 \<and>
   fst (classify_startup_messages (init_analyzer equipment_without_list_stream)) = None \<and>
   length (raw_equipment_lists
     (snd (classify_startup_messages (init_analyzer equipment_without_list_stream)))) = 0"
  by code_simp

section \<open>What each section of the builder leaves untouched\<close>

lemma build_profile_frame:
  assumes "\<And>v s. g (s\<lparr>player_info := v\<rparr>) = g s"
  shows "g (snd (build_profile s)) = g s"
  unfolding build_profile_def
  by (simp add: assms attempt_frame)

lemma build_heroes_frame:
  assumes "\<And>v s. g (s\<lparr>heroes := v\<rparr>) = g s"
  shows "g (snd (build_heroes s)) = g s"
proof -
  have "g (snd (attempt r
          (\<lambda>unlocked. for_in unlocked
             (\<lambda>h. attempt (hero_entry h) (\<lambda>e s. (None, s\<lparr>heroes := heroes s @ [e]\<rparr>))))
          t)) = g t" for r t
    by (intro attempt_frame for_in_frame) (simp add: assms)
  then show ?thesis by (simp add: build_heroes_def assms)
qed

lemma build_decks_frame:
  assumes "\<And>v s. g (s\<lparr>decks := v\<rparr>) = g s"
  shows "g (snd (build_decks s)) = g s"
proof -
  have "g (snd (attempt r
       (\<lambda>deck_list. for_in deck_list
          (\<lambda>d. attempt (deck_entry d) (\<lambda>e s. (None, s\<lparr>decks := decks s @ [e]\<rparr>))))
          t)) = g t" for r t
    by (intro attempt_frame for_in_frame) (simp add: assms)
  then show ?thesis by (simp add: build_decks_def assms)
qed

lemma equipment_body_frame:
  assumes "\<And>v s. g (s\<lparr>equipment := v\<rparr>) = g s"
  shows "g (snd (equipment_body hero_set eq s)) = g s"
  unfolding equipment_body_def
  by (intro attempt_frame) (simp add: Let_def assms attempt_frame)

lemma build_equipment_frame:
  assumes "\<And>v s. g (s\<lparr>equipment := v\<rparr>) = g s"
  shows "g (snd (build_equipment hero_set s)) = g s"
proof -
  have "g (snd (for_each (\<lambda>equip_group. for_in equip_group (equipment_body hero_set)) xs t)) = g t"
    for xs t
    by (intro for_each_frame for_in_frame equipment_body_frame assms)
  then show ?thesis by (simp add: build_equipment_def assms)
qed

lemma relic_body_frame:
  assumes "\<And>v s. g (s\<lparr>relics := v\<rparr>) = g s"
  shows "g (snd (relic_body hero_set r s)) = g s"
  unfolding relic_body_def
  by (intro attempt_frame) (simp add: Let_def assms attempt_frame)

lemma build_relics_frame:
  assumes "\<And>v s. g (s\<lparr>relics := v\<rparr>) = g s"
  shows "g (snd (build_relics hero_set s)) = g s"
proof -
  have "g (snd (for_each (relic_body hero_set) xs t)) = g t" for xs t
    by (intro for_each_frame relic_body_frame assms)
  then show ?thesis by (simp add: build_relics_def assms)
qed

lemma build_cities_frame:
  assumes "\<And>v s. g (s\<lparr>cities := v\<rparr>) = g s"
  shows "g (snd (build_cities s)) = g s"
proof -
  have "g (snd (attempt r
       (\<lambda>unlocked_cities. for_in unlocked_cities
          (\<lambda>c. attempt (as_dict c) (\<lambda>f s. (None, s\<lparr>cities := cities s @ [city_entry f]\<rparr>))))
          t)) = g t" for r t
    by (intro attempt_frame for_in_frame) (simp add: assms)
  then show ?thesis by (simp add: build_cities_def assms)
qed

lemma build_alliance_members_frame:
  assumes "\<And>v s. g (s\<lparr>alliance_members := v\<rparr>) = g s"
  shows "g (snd (build_alliance_members s)) = g s"
proof -
  have "g (snd (attempt r
          (\<lambda>members. for_in members
             (\<lambda>m. attempt (as_dict m)
                (\<lambda>f s. (None, s\<lparr>alliance_members := alliance_members s @ [member_entry f]\<rparr>))))
          t)) = g t" for r t
    by (intro attempt_frame for_in_frame) (simp add: assms)
  then show ?thesis by (simp add: build_alliance_members_def assms)
qed

lemma build_alliance_cities_frame:
  assumes "\<And>v s. g (s\<lparr>alliance_cities := v\<rparr>) = g s"
  shows "g (snd (build_alliance_cities s)) = g s"
proof -
  have "g (snd (for_each
       (\<lambda>ac. attempt (as_dict ac)
          (\<lambda>f s. (None, s\<lparr>alliance_cities := alliance_cities s @ [alliance_city_entry f]\<rparr>)))
       xs t)) = g t" for xs t
    by (intro for_each_frame attempt_frame) (simp add: assms)
  then show ?thesis by (simp add: build_alliance_cities_def assms)
qed

section \<open>What each section of the builder computes when it returns\<close>

lemma attempt_Inr: "attempt (Inr v) k s = k v s"
  by (simp add: attempt_def)

lemma attempt_Inl: "attempt (Inl e) k s = (Some e, s)"
  by (simp add: attempt_def)

lemma collect_loop:
  assumes p: "\<And>e s. get (put e s) = get s @ [h e]"
  shows "for_each (\<lambda>x. attempt (f x) (\<lambda>e s. (None, put e s))) xs s = (None, s')
     \<Longrightarrow> \<exists>es. map f xs = map Inr es \<and> get s' = get s @ map h es"
proof (induction xs arbitrary: s)
  case Nil
  then show ?case by simp
next
  case (Cons x xs)
  from Cons.prems obtain e where e: "f x = Inr e"
    and r: "for_each (\<lambda>x. attempt (f x) (\<lambda>e s. (None, put e s))) xs (put e s) = (None, s')"
    by (cases "f x") (simp_all add: attempt_Inr attempt_Inl)
  from Cons.IH [OF r] obtain es where "map f xs = map Inr es" and "get s' = get (put e s) @ map h es"
    by blast
  with e p show ?case by (intro exI [of _ "e # es"]) simp
qed

lemma as_dict_fields: "map as_dict xs = map Inr es \<Longrightarrow> es = map fields_of xs"
proof (induction xs arbitrary: es)
  case Nil
  then show ?case by simp
next
  case (Cons x xs)
  then show ?case
    by (cases es) (auto simp: as_dict_def fields_of_def split: json.splits)
qed

lemma listed_field:
  assumes "py_get v k (JArr []) = Inr u" and "py_iter u = Inr xs"
  shows "elements (field v k) = xs"
proof -
  from assms(1) obtain kvs where v: "v = JObj kvs" and u: "u = dict_get kvs k (JArr [])"
    by (auto simp: py_get_def as_dict_def split: json.splits)
  show ?thesis
  proof (cases "map_of kvs k")
    case None
    with u assms(2) show ?thesis
      by (simp add: v field_def dict_get_def elements_def py_iter_def)
  next
    case (Some w)
    with u assms(2) show ?thesis
      by (simp add: v field_def dict_get_def elements_def)
  qed
qed

lemma build_heroes_None:
  assumes "build_heroes s = (None, s')"
  shows "truthy (raw_heropush s)"
    and "map hero_entry (elements (field (raw_heropush s) ''unlocked'')) = map Inr (heroes s')"
proof -
  from assms show t: "truthy (raw_heropush s)"
    by (auto simp: build_heroes_def split: if_splits)
  with assms obtain u xs where u: "py_get (raw_heropush s) ''unlocked'' (JArr []) = Inr u"
    and x: "py_iter u = Inr xs"
    and l: "for_each (\<lambda>h. attempt (hero_entry h) (\<lambda>e s. (None, s\<lparr>heroes := heroes s @ [e]\<rparr>))) xs
              (s\<lparr>heroes := []\<rparr>) = (None, s')"
    by (auto simp: build_heroes_def attempt_None for_in_None)
  from collect_loop [of heroes "\<lambda>e s. s\<lparr>heroes := heroes s @ [e]\<rparr>" "\<lambda>e. e", OF _ l]
  obtain es where "map hero_entry xs = map Inr es" and "heroes s' = es" by auto
  with listed_field [OF u x]
  show "map hero_entry (elements (field (raw_heropush s) ''unlocked'')) = map Inr (heroes s')"
    by simp
qed

lemma build_decks_None:
  assumes "build_decks s = (None, s')"
  shows "map deck_entry (elements (field (raw_heropush s) ''deck'')) = map Inr (decks s')"
proof -
  from assms obtain u xs where u: "py_get (raw_heropush s) ''deck'' (JArr []) = Inr u"
    and x: "py_iter u = Inr xs"
    and l: "for_each (\<lambda>d. attempt (deck_entry d) (\<lambda>e s. (None, s\<lparr>decks := decks s @ [e]\<rparr>))) xs
              (s\<lparr>decks := []\<rparr>) = (None, s')"
    by (auto simp: build_decks_def attempt_None for_in_None)
  from collect_loop [of decks "\<lambda>e s. s\<lparr>decks := decks s @ [e]\<rparr>" "\<lambda>e. e", OF _ l]
  obtain es where "map deck_entry xs = map Inr es" and "decks s' = es" by auto
  with listed_field [OF u x] show ?thesis by simp
qed

lemma build_cities_None:
  assumes "build_cities s = (None, s')"
  shows "map as_dict (if truthy (raw_playerdto s) then elements (field (raw_playerdto s) ''unlockedCities'') else [])
           = map Inr (map fields_of (if truthy (raw_playerdto s) then elements (field (raw_playerdto s) ''unlockedCities'') else []))"
    and "cities s' = map (\<lambda>c. city_entry (fields_of c))
           (if truthy (raw_playerdto s) then elements (field (raw_playerdto s) ''unlockedCities'') else [])"
proof -
  let ?cs = "if truthy (raw_playerdto s) then elements (field (raw_playerdto s) ''unlockedCities'') else []"
  from assms obtain u xs where
    u: "(if truthy (raw_playerdto s) then py_get (raw_playerdto s) ''unlockedCities'' (JArr [])
        else Inr (JArr [])) = Inr u"
    and x: "py_iter u = Inr xs"
    and l: "for_each (\<lambda>c. attempt (as_dict c) (\<lambda>f s. (None, s\<lparr>cities := cities s @ [city_entry f]\<rparr>))) xs
              (s\<lparr>cities := []\<rparr>) = (None, s')"
    by (auto simp: build_cities_def attempt_None for_in_None)
  have xs: "xs = ?cs"
  proof (cases "truthy (raw_playerdto s)")
    case True
    with u x listed_field show ?thesis by simp
  next
    case False
    with u x show ?thesis by (auto simp: py_iter_def)
  qed
  from collect_loop [of cities "\<lambda>f s. s\<lparr>cities := cities s @ [city_entry f]\<rparr>" city_entry, OF _ l]
  obtain es where es: "map as_dict xs = map Inr es" and c: "cities s' = map city_entry es" by auto
  from as_dict_fields [OF es] es c
  have "cities s' = map (\<lambda>c. city_entry (fields_of c)) xs
          \<and> map as_dict xs = map Inr (map fields_of xs)"
    by simp
  with xs show "cities s' = map (\<lambda>c. city_entry (fields_of c)) ?cs"
    and "map as_dict ?cs = map Inr (map fields_of ?cs)" by simp_all
qed

lemma build_master_tables_None:
  assumes "build_master_tables s = (None, s')"
  obtains s1 s2 hero_set s3 s4 s5 s6 s7 where
    "build_profile s = (None, s1)" "build_heroes s1 = (None, s2)"
    "hero_set_of (heroes s2) = Inr hero_set" "build_decks s2 = (None, s3)"
    "build_equipment hero_set s3 = (None, s4)" "build_relics hero_set s4 = (None, s5)"
    "build_cities s5 = (None, s6)" "build_alliance_members s6 = (None, s7)"
    "build_alliance_cities s7 = (None, s')"
  using assms unfolding build_master_tables_def seq_None attempt_None by blast

lemma hero_entry_Inr:
  assumes "hero_entry h = Inr e"
  shows "field e ''heroDefinitionId'' = field h ''heroDefinitionId''"
    and "py_getitem e ''heroDefinitionId'' = Inr (field h ''heroDefinitionId'')"
    and "\<not> truthy (field h ''heroDefinitionId'') \<or> (\<exists>t. field h ''heroDefinitionId'' = JStr t)"
    and "field e ''name'' =
           (if truthy (field h ''heroDefinitionId'') then JStr (display_id (field h ''heroDefinitionId''))
            else JNull)"
proof -
  from assms obtain f where h: "h = JObj f"
    by (auto simp: hero_entry_def as_dict_def split: json.splits)
  let ?i = "dict_get f ''heroDefinitionId'' JNull"
  have i: "field h ''heroDefinitionId'' = ?i" by (simp add: h field_def)
  show "\<not> truthy (field h ''heroDefinitionId'') \<or> (\<exists>t. field h ''heroDefinitionId'' = JStr t)"
    using assms unfolding i
    by (cases ?i) (auto simp: hero_entry_def h as_dict_def Let_def py_replace_def split: if_splits)
  show "field e ''heroDefinitionId'' = field h ''heroDefinitionId''"
    using assms unfolding i
    by (auto simp: hero_entry_def h as_dict_def Let_def field_def dict_get_def split: if_splits sum.splits)
  show "py_getitem e ''heroDefinitionId'' = Inr (field h ''heroDefinitionId'')"
    using assms unfolding i
    by (auto simp: hero_entry_def h as_dict_def Let_def py_getitem_def split: if_splits sum.splits)
  show "field e ''name'' =
           (if truthy (field h ''heroDefinitionId'') then JStr (display_id (field h ''heroDefinitionId''))
            else JNull)"
    using assms unfolding i
    by (cases ?i)
       (auto simp: hero_entry_def h as_dict_def Let_def field_def dict_get_def py_replace_def display_id_def
          split: if_splits sum.splits)
qed

lemma hero_entries:
  assumes "map hero_entry hs = map Inr es"
  shows "owned_ids es = owned_ids hs"
    and "hero_set_of es = Inr v \<Longrightarrow> v = owned_ids hs"
    and "\<forall>y \<in> set (owned_ids hs). \<not> truthy y \<or> (\<exists>t. y = JStr t)"
  using assms
proof (induction hs arbitrary: es v)
  case Nil
  { case 1 then show ?case by (simp add: owned_ids_def) }
  { case 2 then show ?case by (simp add: owned_ids_def) }
  { case 3 then show ?case by (simp add: owned_ids_def) }
next
  case (Cons h hs)
  { case 1
    then obtain e es' where es: "es = e # es'" and e: "hero_entry h = Inr e"
      and r: "map hero_entry hs = map Inr es'" by (cases es) auto
    from Cons.IH(1) [OF r] hero_entry_Inr(1) [OF e] show ?case
      by (simp add: es owned_ids_def) }
  { case 2
    from 2(2) obtain e es' where es: "es = e # es'" and e: "hero_entry h = Inr e"
      and r: "map hero_entry hs = map Inr es'" by (cases es) auto
    from 2(1) obtain v' where "hero_set_of es' = Inr v'" and "v = field h ''heroDefinitionId'' # v'"
      by (auto simp: es hero_entry_Inr(2) [OF e] split: if_splits sum.splits)
    with Cons.IH(2) [OF _ r] show ?case by (simp add: owned_ids_def) }
  { case 3
    then obtain e es' where es: "es = e # es'" and e: "hero_entry h = Inr e"
      and r: "map hero_entry hs = map Inr es'" by (cases es) auto
    from Cons.IH(3) [OF r] hero_entry_Inr(3) [OF e] show ?case
      by (simp add: owned_ids_def) }
qed

lemma py_eq_owned:
  assumes "truthy r" and "\<not> truthy y \<or> (\<exists>t. y = JStr t)"
  shows "py_eq r y = (r = y)"
  using assms by (cases r; cases y) (auto simp: py_eq_def)

lemma py_in_owned:
  assumes "truthy r" and "\<forall>y \<in> set hs. \<not> truthy y \<or> (\<exists>t. y = JStr t)"
  shows "list_ex (py_eq r) hs = (r \<in> set hs)"
  using assms py_eq_owned [OF assms(1)] by (auto simp: list_ex_iff)

lemma map_of_dict_append:
  "map_of (dict_append k v d) k' =
     (if k' = k then Some ((case map_of d k of None \<Rightarrow> [] | Some vs \<Rightarrow> vs) @ [v]) else map_of d k')"
proof (cases "map_of d k")
  case None
  then show ?thesis by (auto simp: dict_append_def map_add_def split: option.splits)
next
  case (Some vs)
  have "map_of (map (\<lambda>(k', vs). if k' = k then (k', vs @ [v]) else (k', vs)) d) k' =
     (if k' = k then map_option (\<lambda>vs. vs @ [v]) (map_of d k) else map_of d k')"
    by (induction d) auto
  with Some show ?thesis by (simp add: dict_append_def)
qed

lemma grouped_snoc:
  "grouped (ps @ [(k, v)]) k' =
     (if k' = k then Some ((case grouped ps k of None \<Rightarrow> [] | Some vs \<Rightarrow> vs) @ [v]) else grouped ps k')"
  by (auto simp: grouped_def split: list.splits)

lemma map_of_fold_dict_append:
  "map_of (fold (\<lambda>(k, v). dict_append k v) ps []) = grouped ps"
proof (induction ps rule: rev_induct)
  case Nil
  show ?case by (simp add: grouped_def fun_eq_iff)
next
  case (snoc p ps)
  obtain k v where p: "p = (k, v)" by (cases p)
  show ?case
    unfolding p fun_eq_iff
    by (simp add: map_of_dict_append grouped_snoc snoc.IH)
qed

lemma groups_loop:
  "for_each (\<lambda>g. for_in g body) gs s = (None, s')
     \<Longrightarrow> map py_iter gs = map Inr (map elements gs) \<and>
         for_each body (concat (map elements gs)) s = (None, s')"
proof (induction gs arbitrary: s)
  case Nil
  then show ?case by simp
next
  case (Cons g gs)
  from Cons.prems obtain t where g: "for_in g body s = (None, t)"
    and r: "for_each (\<lambda>g. for_in g body) gs t = (None, s')"
    by (auto split: prod.splits option.splits)
  from g obtain xs where x: "py_iter g = Inr xs" and b: "for_each body xs s = (None, t)"
    by (auto simp: for_in_None)
  from x have e: "elements g = xs" by (simp add: elements_def)
  from Cons.IH [OF r] b x e show ?case by (simp add: for_each_append)
qed

lemma equipment_body_None:
  assumes o: "\<forall>y \<in> set hs. \<not> truthy y \<or> (\<exists>t. y = JStr t)"
    and b: "equipment_body hs e s = (None, s')"
  shows "s' = (if truthy (equipped_on e) \<and> equipped_on e \<in> set hs
               then s\<lparr>equipment := dict_append (display_id (equipped_on e))
                      (equipment_item (fields_of e)) (equipment s)\<rparr>
               else s)"
proof -
  from b obtain f where e: "e = JObj f"
    by (auto simp: equipment_body_def attempt_None as_dict_def split: json.splits)
  let ?r = "dict_get f ''equippedOnHeroDefinitionId'' JNull"
  have r: "equipped_on (JObj f) = ?r" by (simp add: equipped_on_def field_def)
  have f: "fields_of (JObj f) = f" by (simp add: fields_of_def)
  show ?thesis
  proof (cases "truthy ?r")
    case False
    with b show ?thesis
      by (simp add: r equipment_body_def e as_dict_def attempt_Inr Let_def)
  next
    case True
    from True b have b': "attempt (py_in ?r hs)
              (\<lambda>owned s.
                 if owned then
                   attempt (py_replace ?r ''hero.'' [])
                     (\<lambda>hero_name s.
                        (None, s\<lparr>equipment := dict_append hero_name (equipment_item f) (equipment s)\<rparr>)) s
                 else (None, s)) s = (None, s')"
      by (simp add: equipment_body_def e as_dict_def attempt_Inr Let_def)
    then obtain owned where i: "py_in ?r hs = Inr owned" by (auto simp: attempt_None)
    then have ow: "owned = (?r \<in> set hs)"
      using py_in_owned [OF True o] by (auto simp: py_in_def split: if_splits)
    show ?thesis
    proof (cases owned)
      case False
      with b' i ow show ?thesis by (simp add: attempt_Inr r e)
    next
      case True
      with b' i obtain n where n: "py_replace ?r ''hero.'' [] = Inr n"
        and s': "s' = s\<lparr>equipment := dict_append n (equipment_item f) (equipment s)\<rparr>"
        by (auto simp: attempt_Inr attempt_None)
      from n have "n = display_id ?r"
        by (auto simp: py_replace_def display_id_def split: json.splits)
      with s' True ow \<open>truthy ?r\<close> show ?thesis by (simp add: r f e)
    qed
  qed
qed

lemma equipment_loop:
  assumes o: "\<forall>y \<in> set hs. \<not> truthy y \<or> (\<exists>t. y = JStr t)"
  shows "for_each (equipment_body hs) es s = (None, s') \<Longrightarrow>
     equipment s' =
       fold (\<lambda>(k, v). dict_append k v)
         (map (\<lambda>e. (display_id (equipped_on e), equipment_item (fields_of e)))
            (filter (\<lambda>e. truthy (equipped_on e) \<and> equipped_on e \<in> set hs) es))
         (equipment s)"
proof (induction es arbitrary: s)
  case Nil
  then show ?case by simp
next
  case (Cons e es)
  from Cons.prems obtain t where b: "equipment_body hs e s = (None, t)"
    and r: "for_each (equipment_body hs) es t = (None, s')"
    by (auto split: prod.splits option.splits)
  from Cons.IH [OF r] equipment_body_None [OF o b] show ?case by simp
qed

lemma relic_body_None:
  assumes o: "\<forall>y \<in> set hs. \<not> truthy y \<or> (\<exists>t. y = JStr t)"
    and b: "relic_body hs e s = (None, s')"
  shows "s' = (if truthy (supporting_hero e) \<and> supporting_hero e \<in> set hs
               then s\<lparr>relics := dict_append (display_id (supporting_hero e))
                      (relic_item (fields_of e)) (relics s)\<rparr>
               else s)"
proof -
  from b obtain f where e: "e = JObj f"
    by (auto simp: relic_body_def attempt_None as_dict_def split: json.splits)
  from b obtain hd where hd: "(case map_of f ''supportingUnit'' of
             None \<Rightarrow> Inr JNull
           | Some u \<Rightarrow> py_get u ''definitionId'' JNull) = Inr hd"
    and b': "(if truthy hd then
               attempt (py_in hd hs)
                 (\<lambda>owned s.
                    if owned then
                      attempt (py_replace hd ''hero.'' [])
                        (\<lambda>hero_name s.
                           (None, s\<lparr>relics := dict_append hero_name (relic_item f) (relics s)\<rparr>)) s
                    else (None, s)) s
             else (None, s)) = (None, s')"
    by (auto simp: relic_body_def e as_dict_def attempt_Inr attempt_None)
  have r: "supporting_hero (JObj f) = hd"
    using hd
    by (auto simp: supporting_hero_def field_def dict_get_def py_get_def as_dict_def
          split: option.splits json.splits)
  have f: "fields_of (JObj f) = f" by (simp add: fields_of_def)
  show ?thesis
  proof (cases "truthy hd")
    case False
    with b' show ?thesis by (simp add: r e)
  next
    case True
    with b' obtain owned where i: "py_in hd hs = Inr owned" by (auto simp: attempt_None)
    then have ow: "owned = (hd \<in> set hs)"
      using py_in_owned [OF True o] by (auto simp: py_in_def split: if_splits)
    show ?thesis
    proof (cases owned)
      case False
      with b' i ow True show ?thesis by (simp add: attempt_Inr r e)
    next
      case True
      with b' i \<open>truthy hd\<close> obtain n where n: "py_replace hd ''hero.'' [] = Inr n"
        and s': "s' = s\<lparr>relics := dict_append n (relic_item f) (relics s)\<rparr>"
        by (auto simp: attempt_Inr attempt_None)
      from n have "n = display_id hd"
        by (auto simp: py_replace_def display_id_def split: json.splits)
      with s' True ow \<open>truthy hd\<close> show ?thesis by (simp add: r f e)
    qed
  qed
qed

lemma relic_loop:
  assumes o: "\<forall>y \<in> set hs. \<not> truthy y \<or> (\<exists>t. y = JStr t)"
  shows "for_each (relic_body hs) es s = (None, s') \<Longrightarrow>
     relics s' =
       fold (\<lambda>(k, v). dict_append k v)
         (map (\<lambda>e. (display_id (supporting_hero e), relic_item (fields_of e)))
            (filter (\<lambda>e. truthy (supporting_hero e) \<and> supporting_hero e \<in> set hs) es))
         (relics s)"
proof (induction es arbitrary: s)
  case Nil
  then show ?case by simp
next
  case (Cons e es)
  from Cons.prems obtain t where b: "relic_body hs e s = (None, t)"
    and r: "for_each (relic_body hs) es t = (None, s')"
    by (auto split: prod.splits option.splits)
  from Cons.IH [OF r] relic_body_None [OF o b] show ?case by simp
qed

lemma build_equipment_None:
  assumes o: "\<forall>y \<in> set hs. \<not> truthy y \<or> (\<exists>t. y = JStr t)"
    and b: "build_equipment hs s = (None, s')"
  shows "map_of (equipment s') =
     grouped (map (\<lambda>e. (display_id (equipped_on e), equipment_item (fields_of e)))
        (filter (\<lambda>e. truthy (equipped_on e) \<and> equipped_on e \<in> set hs)
           (concat (map elements (raw_equipment_lists s)))))"
proof -
  from b have "for_each (\<lambda>g. for_in g (equipment_body hs)) (raw_equipment_lists s) (s\<lparr>equipment := []\<rparr>)
      = (None, s')"
    by (simp add: build_equipment_def)
  from groups_loop [OF this]
  have "for_each (equipment_body hs) (concat (map elements (raw_equipment_lists s))) (s\<lparr>equipment := []\<rparr>)
      = (None, s')" by simp
  from equipment_loop [OF o this] show ?thesis
    by (simp add: map_of_fold_dict_append)
qed

lemma build_relics_None:
  assumes o: "\<forall>y \<in> set hs. \<not> truthy y \<or> (\<exists>t. y = JStr t)"
    and b: "build_relics hs s = (None, s')"
  shows "map_of (relics s') =
     grouped (map (\<lambda>e. (display_id (supporting_hero e), relic_item (fields_of e)))
        (filter (\<lambda>e. truthy (supporting_hero e) \<and> supporting_hero e \<in> set hs)
           (raw_relic_lists s)))"
proof -
  from b have "for_each (relic_body hs) (raw_relic_lists s) (s\<lparr>relics := []\<rparr>) = (None, s')"
    by (simp add: build_relics_def)
  from relic_loop [OF o this] show ?thesis
    by (simp add: map_of_fold_dict_append)
qed

lemma build_success:
  assumes "build_master_tables s = (None, s')"
  shows "raws s' = raws s"
    and "truthy (raw_heropush s)"
    and "map hero_entry (elements (field (raw_heropush s) ''unlocked'')) = map Inr (heroes s')"
    and "map deck_entry (elements (field (raw_heropush s) ''deck'')) = map Inr (decks s')"
    and "map_of (equipment s') =
     grouped (map (\<lambda>e. (display_id (equipped_on e), equipment_item (fields_of e)))
        (filter (\<lambda>e. truthy (equipped_on e) \<and> equipped_on e \<in> set (owned_ids (heroes s')))
           (concat (map elements (raw_equipment_lists s)))))"
    and "map_of (relics s') =
     grouped (map (\<lambda>e. (display_id (supporting_hero e), relic_item (fields_of e)))
        (filter (\<lambda>e. truthy (supporting_hero e) \<and> supporting_hero e \<in> set (owned_ids (heroes s')))
           (raw_relic_lists s)))"
    and "cities s' = map (\<lambda>c. city_entry (fields_of c))
           (if truthy (raw_playerdto s) then elements (field (raw_playerdto s) ''unlockedCities'') else [])"
proof -
  from assms obtain s1 s2 hero_set s3 s4 s5 s6 s7 where
    st1: "build_profile s = (None, s1)" and st2: "build_heroes s1 = (None, s2)" and
    hs: "hero_set_of (heroes s2) = Inr hero_set" and st3: "build_decks s2 = (None, s3)" and
    st4: "build_equipment hero_set s3 = (None, s4)" and st5: "build_relics hero_set s4 = (None, s5)" and
    st6: "build_cities s5 = (None, s6)" and st7: "build_alliance_members s6 = (None, s7)" and
    st8: "build_alliance_cities s7 = (None, s')"
    by (rule build_master_tables_None)
  have r1: "raws s1 = raws s" using build_profile_frame [of raws s] st1 by (simp add: raws_def)
  have r2: "raws s2 = raws s1" using build_heroes_frame [of raws s1] st2 by (simp add: raws_def)
  have r3: "raws s3 = raws s2" using build_decks_frame [of raws s2] st3 by (simp add: raws_def)
  have r4: "raws s4 = raws s3" using build_equipment_frame [of raws hero_set s3] st4 by (simp add: raws_def)
  have r5: "raws s5 = raws s4" using build_relics_frame [of raws hero_set s4] st5 by (simp add: raws_def)
  have r6: "raws s6 = raws s5" using build_cities_frame [of raws s5] st6 by (simp add: raws_def)
  have r7: "raws s7 = raws s6" using build_alliance_members_frame [of raws s6] st7 by (simp add: raws_def)
  have r8: "raws s' = raws s7" using build_alliance_cities_frame [of raws s7] st8 by (simp add: raws_def)
  show "raws s' = raws s" using r1 r2 r3 r4 r5 r6 r7 r8 by simp
  have h3: "heroes s3 = heroes s2" using build_decks_frame [of heroes s2] st3 by simp
  have h4: "heroes s4 = heroes s3" using build_equipment_frame [of heroes hero_set s3] st4 by simp
  have h5: "heroes s5 = heroes s4" using build_relics_frame [of heroes hero_set s4] st5 by simp
  have h6: "heroes s6 = heroes s5" using build_cities_frame [of heroes s5] st6 by simp
  have h7: "heroes s7 = heroes s6" using build_alliance_members_frame [of heroes s6] st7 by simp
  have h8: "heroes s' = heroes s7" using build_alliance_cities_frame [of heroes s7] st8 by simp
  have h: "heroes s' = heroes s2" using h3 h4 h5 h6 h7 h8 by simp
  have d4: "decks s4 = decks s3" using build_equipment_frame [of decks hero_set s3] st4 by simp
  have d5: "decks s5 = decks s4" using build_relics_frame [of decks hero_set s4] st5 by simp
  have d6: "decks s6 = decks s5" using build_cities_frame [of decks s5] st6 by simp
  have d7: "decks s7 = decks s6" using build_alliance_members_frame [of decks s6] st7 by simp
  have d8: "decks s' = decks s7" using build_alliance_cities_frame [of decks s7] st8 by simp
  have d: "decks s' = decks s3" using d4 d5 d6 d7 d8 by simp
  have e5: "equipment s5 = equipment s4" using build_relics_frame [of equipment hero_set s4] st5 by simp
  have e6: "equipment s6 = equipment s5" using build_cities_frame [of equipment s5] st6 by simp
  have e7: "equipment s7 = equipment s6" using build_alliance_members_frame [of equipment s6] st7 by simp
  have e8: "equipment s' = equipment s7" using build_alliance_cities_frame [of equipment s7] st8 by simp
  have e: "equipment s' = equipment s4" using e5 e6 e7 e8 by simp
  have l6: "relics s6 = relics s5" using build_cities_frame [of relics s5] st6 by simp
  have l7: "relics s7 = relics s6" using build_alliance_members_frame [of relics s6] st7 by simp
  have l8: "relics s' = relics s7" using build_alliance_cities_frame [of relics s7] st8 by simp
  have l: "relics s' = relics s5" using l6 l7 l8 by simp
  have c7: "cities s7 = cities s6" using build_alliance_members_frame [of cities s6] st7 by simp
  have c8: "cities s' = cities s7" using build_alliance_cities_frame [of cities s7] st8 by simp
  have c: "cities s' = cities s6" using c7 c8 by simp
  have hp: "raw_heropush s1 = raw_heropush s" "raw_heropush s2 = raw_heropush s"
    and el: "raw_equipment_lists s3 = raw_equipment_lists s"
    and rl: "raw_relic_lists s4 = raw_relic_lists s"
    and pl: "raw_playerdto s5 = raw_playerdto s"
    using r1 r2 r3 r4 r5 by (simp_all add: raws_def)
  from build_heroes_None [OF st2] hp
  show t: "truthy (raw_heropush s)"
    and he: "map hero_entry (elements (field (raw_heropush s) ''unlocked'')) = map Inr (heroes s')"
    by (simp_all add: h)
  from build_decks_None [OF st3] hp
  show "map deck_entry (elements (field (raw_heropush s) ''deck'')) = map Inr (decks s')"
    by (simp add: d)
  from hs have hs': "hero_set_of (heroes s') = Inr hero_set" by (simp add: h)
  have hset: "hero_set = owned_ids (heroes s')"
    using hero_entries(2) [OF he hs'] hero_entries(1) [OF he] by simp
  have o: "\<forall>y \<in> set (owned_ids (heroes s')). \<not> truthy y \<or> (\<exists>t. y = JStr t)"
    using hero_entries(3) [OF he] hero_entries(1) [OF he] by simp
  from build_equipment_None [OF o] st4 show "map_of (equipment s') =
     grouped (map (\<lambda>e. (display_id (equipped_on e), equipment_item (fields_of e)))
        (filter (\<lambda>e. truthy (equipped_on e) \<and> equipped_on e \<in> set (owned_ids (heroes s')))
           (concat (map elements (raw_equipment_lists s)))))"
    by (simp add: hset e el)
  from build_relics_None [OF o] st5 show "map_of (relics s') =
     grouped (map (\<lambda>e. (display_id (supporting_hero e), relic_item (fields_of e)))
        (filter (\<lambda>e. truthy (supporting_hero e) \<and> supporting_hero e \<in> set (owned_ids (heroes s')))
           (raw_relic_lists s)))"
    by (simp add: hset l rl)
  from build_cities_None(2) [OF st6] show "cities s' = map (\<lambda>c. city_entry (fields_of c))
           (if truthy (raw_playerdto s) then elements (field (raw_playerdto s) ''unlockedCities'') else [])"
    by (simp add: c pl)
qed

section \<open>C3: the join of equipment and relics with the owned heroes\<close>

text \<open>
  Claim C3, amended: when the builder returns, the owned identifiers are those of the
  elements of HeroPush's \<^verbatim>\<open>unlocked\<close> list, and an equipment entry of the flattened
  equipment lists, or a relic record, is in the model if and only if its referenced hero
  identifier (\<^verbatim>\<open>equippedOnHeroDefinitionId\<close>, or \<^verbatim>\<open>definitionId\<close> of the nested
  \<^verbatim>\<open>supportingUnit\<close>) is truthy, that is neither absent, null nor empty, and is one of
  the owned identifiers. The kept entries are filed, in order, under the display form of
  that identifier, which is the \<^verbatim>\<open>name\<close> of the hero that has the identifier.
\<close>

theorem equipment_and_relics_inner_join:
  assumes "build_master_tables s = (None, s')"
  shows "owned_ids (heroes s') = owned_ids (elements (field (raw_heropush s) ''unlocked'')) \<and>
    map_of (equipment s') =
      grouped (map (\<lambda>e. (display_id (equipped_on e), equipment_item (fields_of e)))
        (filter (\<lambda>e. truthy (equipped_on e) \<and> equipped_on e \<in> set (owned_ids (heroes s')))
           (concat (map elements (raw_equipment_lists s))))) \<and>
    map_of (relics s') =
      grouped (map (\<lambda>e. (display_id (supporting_hero e), relic_item (fields_of e)))
        (filter (\<lambda>e. truthy (supporting_hero e) \<and> supporting_hero e \<in> set (owned_ids (heroes s')))
           (raw_relic_lists s))) \<and>
    (\<forall>h \<in> set (heroes s'). truthy (field h ''heroDefinitionId'') \<longrightarrow>
       field h ''name'' = JStr (display_id (field h ''heroDefinitionId'')))"
proof -
  note b = build_success [OF assms]
  have n: "field e ''name'' = JStr (display_id (field e ''heroDefinitionId''))"
    if "e \<in> set es" and "truthy (field e ''heroDefinitionId'')" and "map hero_entry hs = map Inr es"
    for e es hs
    using that
  proof (induction hs arbitrary: es)
    case Nil
    then show ?case by simp
  next
    case (Cons h hs)
    from Cons.prems(3) obtain e' es' where es: "es = e' # es'" and e': "hero_entry h = Inr e'"
      and r: "map hero_entry hs = map Inr es'" by (cases es) auto
    show ?case
    proof (cases "e = e'")
      case True
      with hero_entry_Inr(1,4) [OF e'] Cons.prems(2) show ?thesis by simp
    next
      case False
      with Cons.prems(1) es have "e \<in> set es'" by simp
      from Cons.IH [OF this Cons.prems(2) r] show ?thesis .
    qed
  qed
  from b(3) have "owned_ids (heroes s') = owned_ids (elements (field (raw_heropush s) ''unlocked''))"
    by (rule hero_entries(1))
  with b(5) b(6) n [OF _ _ b(3)] show ?thesis by simp
qed

theorem equipment_and_relics_inner_join_witness:
  "build_master_tables sample_buckets = (None, snd (build_master_tables sample_buckets)) \<and>
   owned_ids (heroes (snd (build_master_tables sample_buckets))) = [JStr ''hero.Boudica'', JNull] \<and>
   map_of (equipment (snd (build_master_tables sample_buckets))) ''Boudica'' =
     Some [JObj [(''id'', JInt 1), (''slot'', JNull), (''set'', JNull), (''rarity'', JNull),
                 (''level'', JNull), (''mainAttribute'', JNull), (''subAttributes'', JArr [])]] \<and>
   map_of (equipment (snd (build_master_tables sample_buckets))) ''Caesar'' = None \<and>
   map_of (relics (snd (build_master_tables sample_buckets))) ''Boudica'' =
     Some [JObj [(''relicDefinitionId'', JStr ''relic.Aegis''), (''level'', JNull), (''age'', JNull)]]"
proof -
  have "fst (build_master_tables sample_buckets) = None" by code_simp
  then have p: "build_master_tables sample_buckets = (None, snd (build_master_tables sample_buckets))"
    by (simp add: prod_eq_iff)
  have o: "owned_ids (elements (field (raw_heropush sample_buckets) ''unlocked'')) =
      [JStr ''hero.Boudica'', JNull]" by code_simp
  have e: "concat (map elements (raw_equipment_lists sample_buckets)) =
      [JObj [(''id'', JInt 1), (''equippedOnHeroDefinitionId'', JStr ''hero.Boudica'')],
       JObj [(''id'', JInt 2), (''equippedOnHeroDefinitionId'', JStr ''hero.Caesar'')],
       JObj [(''id'', JInt 3)]]" by code_simp
  have r: "raw_relic_lists sample_buckets =
      [JObj [(''@type'', JStr ''type.googleapis.com/RelicUnitDataDTO''),
            (''relicDefinitionId'', JStr ''relic.Aegis''),
            (''supportingUnit'', JObj [(''definitionId'', JStr ''hero.Boudica'')])],
      JObj [(''@type'', JStr ''type.googleapis.com/RelicUnitDataDTO''),
            (''relicDefinitionId'', JStr ''relic.Horn'')]]" by code_simp
  from equipment_and_relics_inner_join [OF p] p show ?thesis
    unfolding o e r
    by (simp add: grouped_def equipped_on_def supporting_hero_def field_def dict_get_def
          display_id_def equipment_item_def relic_item_def fields_of_def)
qed

text \<open>
  Claim C3 as stated fails: a hero without identifier puts \<open>JNull\<close> into the owned set;
  the equipment entry and the relic that reference no hero then reference a member of
  the owned set, and neither is in the model.
\<close>

theorem null_reference_in_owned_set_counterexample:
  "fst (build_master_tables null_hero_buckets) = None \<and>
   concat (map elements (raw_equipment_lists null_hero_buckets)) = [JObj [(''id'', JInt 1)]] \<and>
   equipped_on (JObj [(''id'', JInt 1)])
     \<in> set (owned_ids (heroes (snd (build_master_tables null_hero_buckets)))) \<and>
   equipment (snd (build_master_tables null_hero_buckets)) = [] \<and>
   list_all (\<lambda>r. supporting_hero r \<in> set (owned_ids (heroes (snd (build_master_tables null_hero_buckets)))))
     (raw_relic_lists null_hero_buckets) \<and>
   length (raw_relic_lists null_hero_buckets) = 1 \<and>
   relics (snd (build_master_tables null_hero_buckets)) = []"
  by code_simp

section \<open>C5: one hero per element of the unlocked list\<close>

text \<open>
  Claim C5, amended: when the builder returns, the heroes collection has one entry for
  each element of HeroPush's \<^verbatim>\<open>unlocked\<close> list, in order and with the identifier of
  that element; nothing is merged, so the identifiers of the model are pairwise distinct
  exactly when those of the list are.
\<close>

theorem heroes_one_per_unlocked_element:
  assumes "build_master_tables s = (None, s')"
  shows "length (heroes s') = length (elements (field (raw_heropush s) ''unlocked'')) \<and>
    owned_ids (heroes s') = owned_ids (elements (field (raw_heropush s) ''unlocked'')) \<and>
    (distinct (owned_ids (heroes s')) \<longleftrightarrow>
       distinct (owned_ids (elements (field (raw_heropush s) ''unlocked''))))"
proof -
  note b = build_success(3) [OF assms]
  from b have "length (map hero_entry (elements (field (raw_heropush s) ''unlocked'')))
      = length (map Inr (heroes s') :: (error + json) list)" by simp
  then have l: "length (heroes s') = length (elements (field (raw_heropush s) ''unlocked''))"
    by simp
  from b have "owned_ids (heroes s') = owned_ids (elements (field (raw_heropush s) ''unlocked''))"
    by (rule hero_entries(1))
  with l show ?thesis by simp
qed

theorem heroes_one_per_unlocked_element_witness:
  "build_master_tables duplicate_hero_buckets = (None, snd (build_master_tables duplicate_hero_buckets)) \<and>
   length (heroes (snd (build_master_tables duplicate_hero_buckets))) = 2 \<and>
   owned_ids (heroes (snd (build_master_tables duplicate_hero_buckets))) =
     [JStr ''hero.Boudica'', JStr ''hero.Boudica'']"
proof -
  have "fst (build_master_tables duplicate_hero_buckets) = None" by code_simp
  then have p: "build_master_tables duplicate_hero_buckets =
      (None, snd (build_master_tables duplicate_hero_buckets))"
    by (simp add: prod_eq_iff)
  have u: "elements (field (raw_heropush duplicate_hero_buckets) ''unlocked'') =
      [JObj [(''heroDefinitionId'', JStr ''hero.Boudica''), (''level'', JInt 1)],
       JObj [(''heroDefinitionId'', JStr ''hero.Boudica''), (''level'', JInt 2)]]" by code_simp
  from heroes_one_per_unlocked_element [OF p] p show ?thesis
    unfolding u by (simp add: owned_ids_def field_def dict_get_def)
qed

text \<open>
  Claim C5 as stated fails: a HeroPush record that lists the same hero twice gives two
  heroes with the same identifier.
\<close>

theorem duplicate_hero_counterexample:
  "fst (build_master_tables duplicate_hero_buckets) = None \<and>
   length (heroes (snd (build_master_tables duplicate_hero_buckets))) = 2 \<and>
   \<not> distinct (owned_ids (heroes (snd (build_master_tables duplicate_hero_buckets))))"
  by code_simp

section \<open>C8: decks\<close>

lemma replace_each_Inr:
  "replace_each hids = Inr names \<Longrightarrow> names = map (\<lambda>h. JStr (display_id h)) hids"
proof (induction hids arbitrary: names)
  case Nil
  then show ?case by simp
next
  case (Cons h hids)
  then show ?case
    by (auto simp: py_replace_def display_id_def split: sum.splits json.splits)
qed

lemma deck_entry_Inr:
  assumes "deck_entry d = Inr e"
  shows "e = JObj [(''definitionId'', field d ''definitionId''),
                   (''heroes'', JArr (map (\<lambda>h. JStr (display_id h)) (elements (field d ''heroDefinitionId''))))]"
proof -
  from assms obtain f where d: "d = JObj f"
    by (auto simp: deck_entry_def as_dict_def split: json.splits)
  from assms obtain hids names where
    i: "py_iter (dict_get f ''heroDefinitionId'' (JArr [])) = Inr hids"
    and n: "replace_each hids = Inr names"
    and e: "e = JObj [(''definitionId'', dict_get f ''definitionId'' JNull), (''heroes'', JArr names)]"
    by (auto simp: deck_entry_def d as_dict_def split: sum.splits)
  have "py_get d ''heroDefinitionId'' (JArr []) = Inr (dict_get f ''heroDefinitionId'' (JArr []))"
    by (simp add: py_get_def d as_dict_def)
  from listed_field [OF this i] have "elements (field d ''heroDefinitionId'') = hids" .
  with replace_each_Inr [OF n] e show ?thesis by (simp add: d field_def)
qed

lemma replace_no_occurrence:
  assumes "old \<noteq> []" and "\<not> sublist old x"
  shows "replace old [] x = x"
  using assms(2)
proof (induction x)
  case Nil
  with assms(1) show ?case by simp
next
  case (Cons c cs)
  from Cons.prems have "\<not> prefix old (c # cs)" and "\<not> sublist old cs"
    by (auto simp: sublist_Cons_right)
  with Cons.IH assms(1) show ?case by simp
qed

lemma replace_prefix_once:
  assumes "old \<noteq> []" and "\<not> sublist old x"
  shows "replace old [] (old @ x) = x"
proof -
  from assms(1) obtain c cs where o: "old = c # cs" by (cases old) auto
  have "replace old [] (old @ x) = replace old [] (drop (length old - 1) (cs @ x))"
    by (simp add: o)
  also have "\<dots> = replace old [] x" by (simp add: o)
  finally show ?thesis using replace_no_occurrence [OF assms] by simp
qed

text \<open>
  Claim C8, amended: when the builder returns, there is one deck for each element of
  HeroPush's \<^verbatim>\<open>deck\<close> list, in order, and its hero list is the element's list of hero
  identifiers, in order, each in display form, whether the hero is owned or not. The
  display form removes every occurrence of \<^verbatim>\<open>hero.\<close> from the identifier: for an
  identifier \<^verbatim>\<open>hero.\<close>\<open>x\<close> where \<open>x\<close> has no occurrence of \<^verbatim>\<open>hero.\<close> that is the
  identifier without its prefix, and such an \<open>x\<close> itself is left as it is.
\<close>

theorem decks_pass_through:
  assumes "build_master_tables s = (None, s')"
  shows "decks s' =
      map (\<lambda>d. JObj [(''definitionId'', field d ''definitionId''),
                     (''heroes'', JArr (map (\<lambda>h. JStr (display_id h))
                                          (elements (field d ''heroDefinitionId''))))])
        (elements (field (raw_heropush s) ''deck'')) \<and>
    (\<forall>x. \<not> sublist ''hero.'' x \<longrightarrow>
       display_id (JStr (''hero.'' @ x)) = x \<and> display_id (JStr x) = x)"
proof -
  note b = build_success(4) [OF assms]
  have "map deck_entry ds = map Inr es \<Longrightarrow>
      es = map (\<lambda>d. JObj [(''definitionId'', field d ''definitionId''),
                     (''heroes'', JArr (map (\<lambda>h. JStr (display_id h))
                                          (elements (field d ''heroDefinitionId''))))]) ds" for ds es
  proof (induction ds arbitrary: es)
    case Nil
    then show ?case by simp
  next
    case (Cons d ds)
    from Cons.prems obtain e es' where es: "es = e # es'" and e: "deck_entry d = Inr e"
      and r: "map deck_entry ds = map Inr es'" by (cases es) auto
    from Cons.IH [OF r] deck_entry_Inr [OF e] es show ?case by simp
  qed
  from this [OF b] replace_prefix_once [of "''hero.''"] replace_no_occurrence [of "''hero.''"]
  show ?thesis by (simp add: display_id_def)
qed

theorem decks_pass_through_witness:
  "build_master_tables sample_buckets = (None, snd (build_master_tables sample_buckets)) \<and>
   owned_ids (heroes (snd (build_master_tables sample_buckets))) = [JStr ''hero.Boudica'', JNull] \<and>
   decks (snd (build_master_tables sample_buckets)) =
     [JObj [(''definitionId'', JStr ''deck.1''), (''heroes'', JArr [JStr ''Boudica'', JStr ''Caesar''])]] \<and>
   \<not> sublist ''hero.'' ''Caesar'' \<and> display_id (JStr (''hero.'' @ ''Caesar'')) = ''Caesar''"
proof -
  have "fst (build_master_tables sample_buckets) = None" by code_simp
  then have p: "build_master_tables sample_buckets = (None, snd (build_master_tables sample_buckets))"
    by (simp add: prod_eq_iff)
  have o: "owned_ids (heroes (snd (build_master_tables sample_buckets))) = [JStr ''hero.Boudica'', JNull]"
    by code_simp
  have d: "elements (field (raw_heropush sample_buckets) ''deck'') =
      [JObj [(''definitionId'', JStr ''deck.1''),
             (''heroDefinitionId'', JArr [JStr ''hero.Boudica'', JStr ''hero.Caesar''])]]"
    by code_simp
  have n: "\<not> sublist ''hero.'' ''Caesar''" by code_simp
  from decks_pass_through [OF p] have
    1: "decks (snd (build_master_tables sample_buckets)) =
      map (\<lambda>d. JObj [(''definitionId'', field d ''definitionId''),
                     (''heroes'', JArr (map (\<lambda>h. JStr (display_id h))
                                          (elements (field d ''heroDefinitionId''))))])
        (elements (field (raw_heropush sample_buckets) ''deck''))"
    and 2: "\<not> sublist ''hero.'' ''Caesar'' \<longrightarrow> display_id (JStr (''hero.'' @ ''Caesar'')) = ''Caesar''"
    by blast+
  have "decks (snd (build_master_tables sample_buckets)) =
     [JObj [(''definitionId'', JStr ''deck.1''), (''heroes'', JArr [JStr ''Boudica'', JStr ''Caesar''])]]"
    unfolding 1 d
    by (simp add: field_def dict_get_def elements_def py_iter_def display_id_def)
  with p o n 2 show ?thesis by simp
qed

text \<open>
  Claim C8 as stated fails: the identifier \<^verbatim>\<open>hero.Superhero.Ajax\<close> without its
  namespace prefix is \<^verbatim>\<open>Superhero.Ajax\<close>, and the deck shows \<^verbatim>\<open>SuperAjax\<close>.
\<close>

theorem deck_identifier_not_prefix_stripped_counterexample:
  "fst (build_master_tables nested_prefix_buckets) = None \<and>
   elements (field (raw_heropush nested_prefix_buckets) ''deck'') =
     [JObj [(''definitionId'', JStr ''deck.1''),
            (''heroDefinitionId'', JArr [JStr ''hero.Superhero.Ajax''])]] \<and>
   strip_namespace ''hero.Superhero.Ajax'' = ''Superhero.Ajax'' \<and>
   decks (snd (build_master_tables nested_prefix_buckets)) =
     [JObj [(''definitionId'', JStr ''deck.1''), (''heroes'', JArr [JStr ''SuperAjax''])]]"
  by code_simp

section \<open>The builder under a change of the raw buckets\<close>

lemma model_blindD:
  assumes "model_blind u"
  shows "player_info (u s) = player_info s" "heroes (u s) = heroes s" "decks (u s) = decks s"
    "equipment (u s) = equipment s" "relics (u s) = relics s" "cities (u s) = cities s"
    "alliance_members (u s) = alliance_members s" "alliance_cities (u s) = alliance_cities s"
    "u (s\<lparr>player_info := p\<rparr>) = (u s)\<lparr>player_info := p\<rparr>"
    "u (s\<lparr>heroes := v\<rparr>) = (u s)\<lparr>heroes := v\<rparr>"
    "u (s\<lparr>decks := v\<rparr>) = (u s)\<lparr>decks := v\<rparr>"
    "u (s\<lparr>equipment := w\<rparr>) = (u s)\<lparr>equipment := w\<rparr>"
    "u (s\<lparr>relics := w\<rparr>) = (u s)\<lparr>relics := w\<rparr>"
    "u (s\<lparr>cities := v\<rparr>) = (u s)\<lparr>cities := v\<rparr>"
    "u (s\<lparr>alliance_members := v\<rparr>) = (u s)\<lparr>alliance_members := v\<rparr>"
    "u (s\<lparr>alliance_cities := v\<rparr>) = (u s)\<lparr>alliance_cities := v\<rparr>"
  using assms by (simp_all add: model_blind_def entity_model_def)

lemma for_each_commute:
  assumes "\<And>x s. body x (u s) = apsnd u (body x s)"
  shows "for_each body xs (u s) = apsnd u (for_each body xs s)"
proof (induction xs arbitrary: s)
  case Nil
  show ?case by simp
next
  case (Cons x xs)
  show ?case
  proof (cases "body x s")
    case (Pair r t)
    with assms [of x s] have "body x (u s) = (r, u t)" by simp
    with Pair Cons [of t] show ?thesis by (cases r) simp_all
  qed
qed

lemma attempt_commute:
  assumes "\<And>v s. k v (u s) = apsnd u (k v s)"
  shows "attempt r k (u s) = apsnd u (attempt r k s)"
  using assms by (cases r) (simp_all add: attempt_def)

lemma for_in_commute:
  assumes "\<And>x s. body x (u s) = apsnd u (body x s)"
  shows "for_in v body (u s) = apsnd u (for_in v body s)"
  using for_each_commute [of body u, OF assms] by (cases "py_iter v") (simp_all add: for_in_def)

lemma seq_commute:
  assumes "\<And>s. f (u s) = apsnd u (f s)" and "\<And>s. g (u s) = apsnd u (g s)"
  shows "seq f g (u s) = apsnd u (seq f g s)"
proof (cases "f s")
  case (Pair r t)
  with assms(1) [of s] have "f (u s) = (r, u t)" by simp
  with Pair assms(2) [of t] show ?thesis by (cases r) (simp_all add: seq_def)
qed

lemma build_profile_commute:
  assumes "model_blind u" and "\<And>s. raw_playerdto (u s) = raw_playerdto s"
  shows "build_profile (u s) = apsnd u (build_profile s)"
proof -
  note mb = model_blindD [OF assms(1)]
  have "attempt r (\<lambda>p s. (None, s\<lparr>player_info := JObj
             [(''id'', dict_get p ''id'' JNull),
              (''displayName'', dict_get p ''displayName'' JNull),
              (''username'', dict_get p ''username'' JNull),
              (''allianceId'', dict_get p ''allianceId'' JNull)]\<rparr>)) (u t)
      = apsnd u (attempt r (\<lambda>p s. (None, s\<lparr>player_info := JObj
             [(''id'', dict_get p ''id'' JNull),
              (''displayName'', dict_get p ''displayName'' JNull),
              (''username'', dict_get p ''username'' JNull),
              (''allianceId'', dict_get p ''allianceId'' JNull)]\<rparr>)) t)" for r t
    by (intro attempt_commute) (simp add: mb)
  then show ?thesis by (simp add: build_profile_def assms(2) mb)
qed

lemma build_heroes_commute:
  assumes "model_blind u" and "\<And>s. raw_heropush (u s) = raw_heropush s"
  shows "build_heroes (u s) = apsnd u (build_heroes s)"
proof -
  note mb = model_blindD [OF assms(1)]
  have "attempt r
          (\<lambda>unlocked. for_in unlocked
             (\<lambda>h. attempt (hero_entry h) (\<lambda>e s. (None, s\<lparr>heroes := heroes s @ [e]\<rparr>))))
          (u t) = apsnd u (attempt r
          (\<lambda>unlocked. for_in unlocked
             (\<lambda>h. attempt (hero_entry h) (\<lambda>e s. (None, s\<lparr>heroes := heroes s @ [e]\<rparr>))))
          t)" for r t
    by (intro attempt_commute for_in_commute) (simp add: mb)
  from this [of _ "s\<lparr>heroes := []\<rparr>"] show ?thesis
    by (simp add: build_heroes_def assms(2) mb)
qed

lemma build_decks_commute:
  assumes "model_blind u" and "\<And>s. raw_heropush (u s) = raw_heropush s"
  shows "build_decks (u s) = apsnd u (build_decks s)"
proof -
  note mb = model_blindD [OF assms(1)]
  have "attempt r
       (\<lambda>deck_list. for_in deck_list
          (\<lambda>d. attempt (deck_entry d) (\<lambda>e s. (None, s\<lparr>decks := decks s @ [e]\<rparr>))))
          (u t) = apsnd u (attempt r
       (\<lambda>deck_list. for_in deck_list
          (\<lambda>d. attempt (deck_entry d) (\<lambda>e s. (None, s\<lparr>decks := decks s @ [e]\<rparr>))))
          t)" for r t
    by (intro attempt_commute for_in_commute) (simp add: mb)
  from this [of _ "s\<lparr>decks := []\<rparr>"] show ?thesis
    by (simp add: build_decks_def assms(2) mb)
qed

lemma equipment_body_commute:
  assumes "model_blind u"
  shows "equipment_body hs e (u s) = apsnd u (equipment_body hs e s)"
proof -
  note mb = model_blindD [OF assms(1)]
  show ?thesis
    unfolding equipment_body_def
    by (intro attempt_commute) (simp add: Let_def mb attempt_commute)
qed

lemma equipment_groups_commute:
  assumes "model_blind u"
  shows "for_each (\<lambda>g. for_in g (equipment_body hs)) gs (u s)
     = apsnd u (for_each (\<lambda>g. for_in g (equipment_body hs)) gs s)"
  by (intro for_each_commute for_in_commute equipment_body_commute assms)

lemma build_equipment_commute:
  assumes "model_blind u" and "\<And>s. raw_equipment_lists (u s) = raw_equipment_lists s"
  shows "build_equipment hs (u s) = apsnd u (build_equipment hs s)"
  using equipment_groups_commute [OF assms(1), of hs _ "s\<lparr>equipment := []\<rparr>"]
  by (simp add: build_equipment_def assms(2) model_blindD [OF assms(1)])

lemma relic_body_commute:
  assumes "model_blind u"
  shows "relic_body hs e (u s) = apsnd u (relic_body hs e s)"
proof -
  note mb = model_blindD [OF assms(1)]
  show ?thesis
    unfolding relic_body_def
    by (intro attempt_commute) (simp add: Let_def mb attempt_commute)
qed

lemma relic_loop_commute:
  assumes "model_blind u"
  shows "for_each (relic_body hs) rs (u s) = apsnd u (for_each (relic_body hs) rs s)"
  by (intro for_each_commute relic_body_commute assms)

lemma build_relics_commute:
  assumes "model_blind u" and "\<And>s. raw_relic_lists (u s) = raw_relic_lists s"
  shows "build_relics hs (u s) = apsnd u (build_relics hs s)"
  using relic_loop_commute [OF assms(1), of hs _ "s\<lparr>relics := []\<rparr>"]
  by (simp add: build_relics_def assms(2) model_blindD [OF assms(1)])

lemma build_cities_commute:
  assumes "model_blind u" and "\<And>s. raw_playerdto (u s) = raw_playerdto s"
  shows "build_cities (u s) = apsnd u (build_cities s)"
proof -
  note mb = model_blindD [OF assms(1)]
  have "attempt r
       (\<lambda>unlocked_cities. for_in unlocked_cities
          (\<lambda>c. attempt (as_dict c) (\<lambda>f s. (None, s\<lparr>cities := cities s @ [city_entry f]\<rparr>))))
          (u t) = apsnd u (attempt r
       (\<lambda>unlocked_cities. for_in unlocked_cities
          (\<lambda>c. attempt (as_dict c) (\<lambda>f s. (None, s\<lparr>cities := cities s @ [city_entry f]\<rparr>))))
          t)" for r t
    by (intro attempt_commute for_in_commute) (simp add: mb)
  from this [of _ "s\<lparr>cities := []\<rparr>"] show ?thesis
    by (simp add: build_cities_def assms(2) mb)
qed

lemma build_alliance_members_commute:
  assumes "model_blind u" and "\<And>s. raw_alliance_members (u s) = raw_alliance_members s"
  shows "build_alliance_members (u s) = apsnd u (build_alliance_members s)"
proof -
  note mb = model_blindD [OF assms(1)]
  have "attempt r
          (\<lambda>members. for_in members
             (\<lambda>m. attempt (as_dict m)
                (\<lambda>f s. (None, s\<lparr>alliance_members := alliance_members s @ [member_entry f]\<rparr>))))
          (u t) = apsnd u (attempt r
          (\<lambda>members. for_in members
             (\<lambda>m. attempt (as_dict m)
                (\<lambda>f s. (None, s\<lparr>alliance_members := alliance_members s @ [member_entry f]\<rparr>))))
          t)" for r t
    by (intro attempt_commute for_in_commute) (simp add: mb)
  from this [of _ "s\<lparr>alliance_members := []\<rparr>"] show ?thesis
    by (simp add: build_alliance_members_def assms(2) mb)
qed

lemma build_alliance_cities_commute:
  assumes "model_blind u" and "\<And>s. raw_alliance_cities (u s) = raw_alliance_cities s"
  shows "build_alliance_cities (u s) = apsnd u (build_alliance_cities s)"
proof -
  note mb = model_blindD [OF assms(1)]
  have "for_each
       (\<lambda>ac. attempt (as_dict ac)
          (\<lambda>f s. (None, s\<lparr>alliance_cities := alliance_cities s @ [alliance_city_entry f]\<rparr>)))
       xs (u t) = apsnd u (for_each
       (\<lambda>ac. attempt (as_dict ac)
          (\<lambda>f s. (None, s\<lparr>alliance_cities := alliance_cities s @ [alliance_city_entry f]\<rparr>)))
       xs t)" for xs t
    by (intro for_each_commute attempt_commute) (simp add: mb)
  from this [of _ "s\<lparr>alliance_cities := []\<rparr>"] show ?thesis
    by (simp add: build_alliance_cities_def assms(2) mb)
qed

lemma build_master_tables_commute:
  assumes mb: "model_blind u"
    and "\<And>s. raw_playerdto (u s) = raw_playerdto s"
    and "\<And>s. raw_heropush (u s) = raw_heropush s"
    and "\<And>s. raw_alliance_members (u s) = raw_alliance_members s"
    and "\<And>s. raw_alliance_cities (u s) = raw_alliance_cities s"
    and eq: "\<And>hs s. build_equipment hs (u s) = apsnd u (build_equipment hs s)"
    and re: "\<And>hs s. build_relics hs (u s) = apsnd u (build_relics hs s)"
  shows "build_master_tables (u s) = apsnd u (build_master_tables s)"
proof -
  have tail: "seq build_decks
                  (seq (build_equipment hero_set)
                     (seq (build_relics hero_set)
                        (seq build_cities
                           (seq build_alliance_members build_alliance_cities)))) (u t)
     = apsnd u (seq build_decks
                  (seq (build_equipment hero_set)
                     (seq (build_relics hero_set)
                        (seq build_cities
                           (seq build_alliance_members build_alliance_cities)))) t)" for hero_set t
    by (intro seq_commute build_decks_commute eq re build_cities_commute
          build_alliance_members_commute build_alliance_cities_commute assms)
  have mid: "attempt (hero_set_of (heroes (u t)))
             (\<lambda>hero_set.
                seq build_decks
                  (seq (build_equipment hero_set)
                     (seq (build_relics hero_set)
                        (seq build_cities
                           (seq build_alliance_members build_alliance_cities))))) (u t)
     = apsnd u (attempt (hero_set_of (heroes t))
             (\<lambda>hero_set.
                seq build_decks
                  (seq (build_equipment hero_set)
                     (seq (build_relics hero_set)
                        (seq build_cities
                           (seq build_alliance_members build_alliance_cities))))) t)" for t
    unfolding model_blindD(2) [OF mb]
    by (intro attempt_commute tail)
  show ?thesis
    unfolding build_master_tables_def
    by (intro seq_commute build_profile_commute build_heroes_commute mid assms)
qed

section \<open>C4: the cities come from the Player record only\<close>

lemma model_blind_raw_cities: "model_blind (\<lambda>s. s\<lparr>raw_cities := cs\<rparr>)"
  by (simp add: model_blind_def entity_model_def)

lemma seq_invariant:
  assumes "\<And>t. I t \<Longrightarrow> I (snd (f t))" and "\<And>t. I t \<Longrightarrow> I (snd (g t))" and "I s"
  shows "I (snd (seq f g s))"
proof (cases "f s")
  case (Pair r t)
  with assms(1) [OF assms(3)] have t: "I t" by simp
  show ?thesis
  proof (cases r)
    case None
    with Pair assms(2) [OF t] show ?thesis by (simp add: seq_def)
  next
    case (Some e)
    with Pair t show ?thesis by (simp add: seq_def)
  qed
qed

lemma attempt_invariant:
  assumes "\<And>v t. I t \<Longrightarrow> I (snd (k v t))" and "I s"
  shows "I (snd (attempt r k s))"
  using assms by (cases r) (simp_all add: attempt_def)

lemma build_cities_empty:
  assumes "\<not> truthy (raw_playerdto s) \<or> elements (field (raw_playerdto s) ''unlockedCities'') = []"
  shows "cities (snd (build_cities s)) = []"
proof -
  let ?r = "if truthy (raw_playerdto s) then py_get (raw_playerdto s) ''unlockedCities'' (JArr [])
        else Inr (JArr [])"
  let ?body = "\<lambda>c. attempt (as_dict c) (\<lambda>f s. (None, s\<lparr>cities := cities s @ [city_entry f]\<rparr>))"
  show ?thesis
  proof (cases ?r)
    case (Inl e)
    then show ?thesis by (simp add: build_cities_def attempt_Inl)
  next
    case (Inr u)
    show ?thesis
    proof (cases "py_iter u")
      case i: (Inl e)
      with Inr show ?thesis by (simp add: build_cities_def attempt_Inr for_in_def)
    next
      case i: (Inr xs)
      have "xs = []"
      proof (cases "truthy (raw_playerdto s)")
        case True
        with Inr have "py_get (raw_playerdto s) ''unlockedCities'' (JArr []) = Inr u" by simp
        from listed_field [OF this i] assms True show ?thesis by simp
      next
        case False
        with Inr i show ?thesis by (auto simp: py_iter_def)
      qed
      with Inr i show ?thesis by (simp add: build_cities_def attempt_Inr for_in_def)
    qed
  qed
qed

lemma cities_empty_whatever_the_outcome:
  assumes c: "cities s = []"
    and p: "\<not> truthy (raw_playerdto s) \<or> elements (field (raw_playerdto s) ''unlockedCities'') = []"
  shows "cities (snd (build_master_tables s)) = []"
proof -
  let ?I = "\<lambda>t. cities t = [] \<and> raw_playerdto t = raw_playerdto s"
  let ?g = "\<lambda>t. (cities t, raw_playerdto t)"
  have f1: "?I t \<Longrightarrow> ?I (snd (build_profile t))" for t
    using build_profile_frame [of ?g t] by simp
  have f2: "?I t \<Longrightarrow> ?I (snd (build_heroes t))" for t
    using build_heroes_frame [of ?g t] by simp
  have f3: "?I t \<Longrightarrow> ?I (snd (build_decks t))" for t
    using build_decks_frame [of ?g t] by simp
  have f4: "?I t \<Longrightarrow> ?I (snd (build_equipment hs t))" for hs t
    using build_equipment_frame [of ?g hs t] by simp
  have f5: "?I t \<Longrightarrow> ?I (snd (build_relics hs t))" for hs t
    using build_relics_frame [of ?g hs t] by simp
  have f6: "?I t \<Longrightarrow> ?I (snd (build_cities t))" for t
    using build_cities_frame [of raw_playerdto t] build_cities_empty [of t] p by simp
  have f7: "?I t \<Longrightarrow> ?I (snd (build_alliance_members t))" for t
    using build_alliance_members_frame [of ?g t] by simp
  have f8: "?I t \<Longrightarrow> ?I (snd (build_alliance_cities t))" for t
    using build_alliance_cities_frame [of ?g t] by simp
  have "?I (snd (build_master_tables s))"
    unfolding build_master_tables_def
    apply (rule seq_invariant [where I = ?I, OF f1])
      apply assumption
     apply (rule seq_invariant [where I = ?I, OF f2])
       apply assumption
      apply (rule attempt_invariant [where I = ?I])
       apply (rule seq_invariant [where I = ?I, OF f3])
         apply assumption
        apply (rule seq_invariant [where I = ?I, OF f4])
          apply assumption
         apply (rule seq_invariant [where I = ?I, OF f5])
           apply assumption
          apply (rule seq_invariant [where I = ?I, OF f6])
            apply assumption
           apply (rule seq_invariant [where I = ?I, OF f7])
             apply assumption
            apply (erule f8)
           apply assumption+
    apply (simp add: c)
    done
  then show ?thesis by simp
qed

text \<open>
  Claim C4: the cities of the model come from the \<^verbatim>\<open>unlockedCities\<close> list of the
  Player singleton and from nothing else. When the builder returns on a bucket set, it
  returns on every bucket set that differs from it in the \<^verbatim>\<open>CityDTO\<close> bucket only, and
  the cities are the entries of that list, one for each element, none when the Player
  singleton is absent. And when the Player singleton is absent or the list is absent or
  empty, the cities are empty after the call, whatever the \<^verbatim>\<open>CityDTO\<close> bucket holds
  and whether the builder returns or raises, on an object whose cities were empty before
  the call, as \<^verbatim>\<open>__init__\<close> leaves them.
\<close>

theorem cities_only_from_player:
  "(build_master_tables s = (None, s') \<longrightarrow>
      (\<forall>cs. \<exists>t. build_master_tables (s\<lparr>raw_cities := cs\<rparr>) = (None, t) \<and>
         cities t = map (\<lambda>c. city_entry (fields_of c))
           (if truthy (raw_playerdto s) then elements (field (raw_playerdto s) ''unlockedCities'')
            else []))) \<and>
   (cities s = [] \<and>
    (\<not> truthy (raw_playerdto s) \<or> elements (field (raw_playerdto s) ''unlockedCities'') = []) \<longrightarrow>
      (\<forall>cs. cities (snd (build_master_tables (s\<lparr>raw_cities := cs\<rparr>))) = []))"
proof -
  have u: "build_master_tables (s\<lparr>raw_cities := cs\<rparr>)
      = apsnd (\<lambda>s. s\<lparr>raw_cities := cs\<rparr>) (build_master_tables s)" for cs
    by (intro build_master_tables_commute build_equipment_commute build_relics_commute
          model_blind_raw_cities) simp_all
  have 1: "\<exists>t. build_master_tables (s\<lparr>raw_cities := cs\<rparr>) = (None, t) \<and>
         cities t = map (\<lambda>c. city_entry (fields_of c))
           (if truthy (raw_playerdto s) then elements (field (raw_playerdto s) ''unlockedCities'')
            else [])"
    if b: "build_master_tables s = (None, s')" for cs
  proof -
    from u [of cs] b
    have "build_master_tables (s\<lparr>raw_cities := cs\<rparr>) = (None, s'\<lparr>raw_cities := cs\<rparr>)" by simp
    moreover from build_success(7) [OF b]
    have "cities (s'\<lparr>raw_cities := cs\<rparr>) = map (\<lambda>c. city_entry (fields_of c))
        (if truthy (raw_playerdto s) then elements (field (raw_playerdto s) ''unlockedCities'') else [])"
      by simp
    ultimately show ?thesis by blast
  qed
  have 2: "cities (snd (build_master_tables (s\<lparr>raw_cities := cs\<rparr>))) = []"
    if "cities s = []"
      and "\<not> truthy (raw_playerdto s) \<or> elements (field (raw_playerdto s) ''unlockedCities'') = []"
    for cs
    using cities_empty_whatever_the_outcome [OF that] u [of cs]
    by (cases "build_master_tables s") simp
  from 1 2 show ?thesis by blast
qed

theorem cities_only_from_player_witness:
  "build_master_tables city_isolation_buckets = (None, snd (build_master_tables city_isolation_buckets)) \<and>
   length (raw_cities city_isolation_buckets) = 2 \<and>
   cities city_isolation_buckets = [] \<and>
   truthy (raw_playerdto city_isolation_buckets) \<and>
   elements (field (raw_playerdto city_isolation_buckets) ''unlockedCities'') = [] \<and>
   cities (snd (build_master_tables
     (city_isolation_buckets\<lparr>raw_cities := raw_cities city_isolation_buckets\<rparr>))) = [] \<and>
   cities (snd (build_master_tables (city_isolation_buckets\<lparr>raw_cities := []\<rparr>))) = []"
proof -
  have "fst (build_master_tables city_isolation_buckets) = None" by code_simp
  then have p: "build_master_tables city_isolation_buckets =
      (None, snd (build_master_tables city_isolation_buckets))"
    by (simp add: prod_eq_iff)
  have l: "length (raw_cities city_isolation_buckets) = 2" by code_simp
  have c: "cities city_isolation_buckets = []" by code_simp
  have t: "truthy (raw_playerdto city_isolation_buckets)" by code_simp
  have e: "elements (field (raw_playerdto city_isolation_buckets) ''unlockedCities'') = []"
    by code_simp
  from cities_only_from_player [of city_isolation_buckets] c e
  have a: "\<forall>cs. cities (snd (build_master_tables (city_isolation_buckets\<lparr>raw_cities := cs\<rparr>))) = []"
    by blast
  from a have 1: "cities (snd (build_master_tables
     (city_isolation_buckets\<lparr>raw_cities := raw_cities city_isolation_buckets\<rparr>))) = []"
    by (rule spec)
  from a have 2: "cities (snd (build_master_tables (city_isolation_buckets\<lparr>raw_cities := []\<rparr>))) = []"
    by (rule spec)
  from p l c t e 1 2 show ?thesis by blast
qed

section \<open>C10: entries without hero reference\<close>

lemma model_blind_equipment_lists:
  "model_blind (\<lambda>t. if raw_equipment_lists t = B then t\<lparr>raw_equipment_lists := A\<rparr> else t)"
  by (simp add: model_blind_def entity_model_def)

lemma model_blind_relic_lists:
  "model_blind (\<lambda>t. if raw_relic_lists t = B then t\<lparr>raw_relic_lists := A\<rparr> else t)"
  by (simp add: model_blind_def entity_model_def)

lemma equipment_lists_exchange:
  assumes x: "\<And>hs t. for_each (\<lambda>g. for_in g (equipment_body hs)) A t
                    = for_each (\<lambda>g. for_in g (equipment_body hs)) B t"
  shows "fst (build_master_tables (s\<lparr>raw_equipment_lists := A\<rparr>))
           = fst (build_master_tables (s\<lparr>raw_equipment_lists := B\<rparr>)) \<and>
         entity_model (snd (build_master_tables (s\<lparr>raw_equipment_lists := A\<rparr>)))
           = entity_model (snd (build_master_tables (s\<lparr>raw_equipment_lists := B\<rparr>)))"
proof -
  let ?u = "\<lambda>t. if raw_equipment_lists t = B then t\<lparr>raw_equipment_lists := A\<rparr> else t"
  let ?a = "\<lambda>t. t\<lparr>raw_equipment_lists := A\<rparr>"
  have mb: "model_blind ?u" by (rule model_blind_equipment_lists)
  have ma: "model_blind ?a" by (simp add: model_blind_def entity_model_def)
  have eq: "build_equipment hs (?u t) = apsnd ?u (build_equipment hs t)" for hs t
  proof (cases "raw_equipment_lists t = B")
    case True
    have "build_equipment hs (?u t)
        = for_each (\<lambda>g. for_in g (equipment_body hs)) A (?a (t\<lparr>equipment := []\<rparr>))"
      using True by (simp add: build_equipment_def model_blindD [OF ma])
    also have "\<dots> = apsnd ?a (for_each (\<lambda>g. for_in g (equipment_body hs)) A (t\<lparr>equipment := []\<rparr>))"
      by (rule equipment_groups_commute [OF ma])
    also have "\<dots> = apsnd ?a (build_equipment hs t)"
      using True by (simp add: build_equipment_def x)
    also have "\<dots> = apsnd ?u (build_equipment hs t)"
      using build_equipment_frame [of raw_equipment_lists hs t] True
      by (cases "build_equipment hs t") simp
    finally show ?thesis .
  next
    case False
    with build_equipment_frame [of raw_equipment_lists hs t] show ?thesis
      by (cases "build_equipment hs t") simp
  qed
  have "build_master_tables (?u (s\<lparr>raw_equipment_lists := B\<rparr>))
      = apsnd ?u (build_master_tables (s\<lparr>raw_equipment_lists := B\<rparr>))"
    by (intro build_master_tables_commute build_relics_commute mb eq) simp_all
  moreover have "entity_model (?u t) = entity_model t" for t
    by (simp add: entity_model_def)
  ultimately show ?thesis
    by (cases "build_master_tables (s\<lparr>raw_equipment_lists := B\<rparr>)") simp
qed

lemma relic_lists_exchange:
  assumes x: "\<And>hs t. for_each (relic_body hs) A t = for_each (relic_body hs) B t"
  shows "fst (build_master_tables (s\<lparr>raw_relic_lists := A\<rparr>))
           = fst (build_master_tables (s\<lparr>raw_relic_lists := B\<rparr>)) \<and>
         entity_model (snd (build_master_tables (s\<lparr>raw_relic_lists := A\<rparr>)))
           = entity_model (snd (build_master_tables (s\<lparr>raw_relic_lists := B\<rparr>)))"
proof -
  let ?u = "\<lambda>t. if raw_relic_lists t = B then t\<lparr>raw_relic_lists := A\<rparr> else t"
  let ?a = "\<lambda>t. t\<lparr>raw_relic_lists := A\<rparr>"
  have mb: "model_blind ?u" by (rule model_blind_relic_lists)
  have ma: "model_blind ?a" by (simp add: model_blind_def entity_model_def)
  have re: "build_relics hs (?u t) = apsnd ?u (build_relics hs t)" for hs t
  proof (cases "raw_relic_lists t = B")
    case True
    have "build_relics hs (?u t) = for_each (relic_body hs) A (?a (t\<lparr>relics := []\<rparr>))"
      using True by (simp add: build_relics_def model_blindD [OF ma])
    also have "\<dots> = apsnd ?a (for_each (relic_body hs) A (t\<lparr>relics := []\<rparr>))"
      by (rule relic_loop_commute [OF ma])
    also have "\<dots> = apsnd ?a (build_relics hs t)"
      using True by (simp add: build_relics_def x)
    also have "\<dots> = apsnd ?u (build_relics hs t)"
      using build_relics_frame [of raw_relic_lists hs t] True
      by (cases "build_relics hs t") simp
    finally show ?thesis .
  next
    case False
    with build_relics_frame [of raw_relic_lists hs t] show ?thesis
      by (cases "build_relics hs t") simp
  qed
  have "build_master_tables (?u (s\<lparr>raw_relic_lists := B\<rparr>))
      = apsnd ?u (build_master_tables (s\<lparr>raw_relic_lists := B\<rparr>))"
    by (intro build_master_tables_commute build_equipment_commute mb re) simp_all
  moreover have "entity_model (?u t) = entity_model t" for t
    by (simp add: entity_model_def)
  ultimately show ?thesis
    by (cases "build_master_tables (s\<lparr>raw_relic_lists := B\<rparr>)") simp
qed

lemma equipment_body_null_reference:
  assumes "is_dict e" and "equipped_on e = JNull"
  shows "equipment_body hs e t = (None, t)"
  using assms
  by (auto simp: is_dict_def equipped_on_def field_def equipment_body_def as_dict_def attempt_Inr Let_def
        split: json.splits)

lemma relic_body_null_reference:
  assumes "is_dict r" and "\<not> has_field r ''supportingUnit'' \<or> is_dict (field r ''supportingUnit'')"
    and "supporting_hero r = JNull"
  shows "relic_body hs r t = (None, t)"
proof -
  from assms(1) obtain f where r: "r = JObj f" by (auto simp: is_dict_def split: json.splits)
  show ?thesis
  proof (cases "map_of f ''supportingUnit''")
    case None
    then show ?thesis by (simp add: r relic_body_def as_dict_def attempt_Inr)
  next
    case (Some u)
    with assms(2) obtain g where u: "u = JObj g"
      by (auto simp: r has_field_def is_dict_def field_def dict_get_def split: json.splits)
    from assms(3) Some have "dict_get g ''definitionId'' JNull = JNull"
      by (simp add: r u supporting_hero_def field_def dict_get_def)
    with Some show ?thesis
      by (simp add: r u relic_body_def as_dict_def py_get_def attempt_Inr)
  qed
qed

text \<open>
  Claim C10: an equipment entry whose \<^verbatim>\<open>equippedOnHeroDefinitionId\<close> is absent or null,
  and a relic record whose \<^verbatim>\<open>supportingUnit\<close> is absent, or is a field mapping whose
  \<^verbatim>\<open>definitionId\<close> is absent or null, contribute nothing: wherever the entry stands in
  the equipment lists, or the record in the relic bucket, the builder ends as it ends
  without it (it returns, or raises the same exception) and leaves the same entity model.
  Nothing is assumed about the owned set, which contains \<open>JNull\<close> when a hero has no
  identifier.
\<close>

theorem null_reference_never_attached:
  assumes "is_dict e" and "equipped_on e = JNull"
    and "is_dict r" and "\<not> has_field r ''supportingUnit'' \<or> is_dict (field r ''supportingUnit'')"
    and "supporting_hero r = JNull"
  shows "fst (build_master_tables (s\<lparr>raw_equipment_lists := gs @ JArr (es @ e # es') # gs'\<rparr>))
           = fst (build_master_tables (s\<lparr>raw_equipment_lists := gs @ JArr (es @ es') # gs'\<rparr>)) \<and>
         entity_model (snd (build_master_tables (s\<lparr>raw_equipment_lists := gs @ JArr (es @ e # es') # gs'\<rparr>)))
           = entity_model (snd (build_master_tables (s\<lparr>raw_equipment_lists := gs @ JArr (es @ es') # gs'\<rparr>))) \<and>
         fst (build_master_tables (s\<lparr>raw_relic_lists := rs @ r # rs'\<rparr>))
           = fst (build_master_tables (s\<lparr>raw_relic_lists := rs @ rs'\<rparr>)) \<and>
         entity_model (snd (build_master_tables (s\<lparr>raw_relic_lists := rs @ r # rs'\<rparr>)))
           = entity_model (snd (build_master_tables (s\<lparr>raw_relic_lists := rs @ rs'\<rparr>)))"
proof -
  have g: "for_in (JArr (es @ e # es')) (equipment_body hs) t
         = for_in (JArr (es @ es')) (equipment_body hs) t" for hs t
    by (simp add: for_in_def py_iter_def for_each_append equipment_body_null_reference [OF assms(1,2)]
          split: prod.splits option.splits)
  have "for_each (\<lambda>g. for_in g (equipment_body hs)) (gs @ JArr (es @ e # es') # gs') t
      = for_each (\<lambda>g. for_in g (equipment_body hs)) (gs @ JArr (es @ es') # gs') t" for hs t
    by (simp add: for_each_append g split: prod.splits option.splits)
  note 1 = equipment_lists_exchange [OF this]
  have "for_each (relic_body hs) (rs @ r # rs') t = for_each (relic_body hs) (rs @ rs') t" for hs t
    by (simp add: for_each_append relic_body_null_reference [OF assms(3,4,5)]
          split: prod.splits option.splits)
  note 2 = relic_lists_exchange [OF this]
  from 1 [of s] 2 [of s] show ?thesis by simp
qed

theorem null_reference_never_attached_witness:
  "is_dict unattached_equipment \<and> equipped_on unattached_equipment = JNull \<and>
   is_dict unattached_relic \<and> \<not> has_field unattached_relic ''supportingUnit'' \<and>
   supporting_hero unattached_relic = JNull \<and>
   JNull \<in> set (owned_ids (heroes (snd (build_master_tables null_hero_buckets)))) \<and>
   fst (build_master_tables null_hero_buckets) = None \<and>
   raw_equipment_lists null_hero_buckets = [JArr [unattached_equipment]] \<and>
   raw_relic_lists null_hero_buckets = [unattached_relic] \<and>
   entity_model (snd (build_master_tables
       (null_hero_buckets\<lparr>raw_equipment_lists := [JArr [unattached_equipment]]\<rparr>)))
     = entity_model (snd (build_master_tables (null_hero_buckets\<lparr>raw_equipment_lists := [JArr []]\<rparr>))) \<and>
   entity_model (snd (build_master_tables (null_hero_buckets\<lparr>raw_relic_lists := [unattached_relic]\<rparr>)))
     = entity_model (snd (build_master_tables (null_hero_buckets\<lparr>raw_relic_lists := []\<rparr>)))"
proof -
  have h: "is_dict unattached_equipment" "equipped_on unattached_equipment = JNull"
    "is_dict unattached_relic" "\<not> has_field unattached_relic ''supportingUnit''"
    "supporting_hero unattached_relic = JNull"
    by code_simp+
  from h(4) have d: "\<not> has_field unattached_relic ''supportingUnit''
      \<or> is_dict (field unattached_relic ''supportingUnit'')" by simp
  have o: "JNull \<in> set (owned_ids (heroes (snd (build_master_tables null_hero_buckets))))"
    "fst (build_master_tables null_hero_buckets) = None"
    "raw_equipment_lists null_hero_buckets = [JArr [unattached_equipment]]"
    "raw_relic_lists null_hero_buckets = [unattached_relic]"
    by code_simp+
  from null_reference_never_attached [OF h(1,2,3) d h(5), where s = null_hero_buckets and gs = "[]"
      and es = "[]" and es' = "[]" and gs' = "[]" and rs = "[]" and rs' = "[]"]
    h o show ?thesis by simp
qed

section \<open>C7: singleton buckets keep the last record\<close>

lemma retained_cases:
  assumes "suf \<noteq> []"
  shows "retained suf msgs = JNull \<or>
   (\<exists>kvs. retained suf msgs = JObj kvs \<and> kvs \<noteq> [] \<and> is_kind suf (JObj kvs))"
proof (cases "filter (is_kind suf) msgs = []")
  case True
  then show ?thesis by (simp add: retained_def)
next
  case False
  then have "last (filter (is_kind suf) msgs) \<in> set (filter (is_kind suf) msgs)"
    by (rule last_in_set)
  then have k: "is_kind suf (last (filter (is_kind suf) msgs))" by simp
  then obtain kvs where l: "last (filter (is_kind suf) msgs) = JObj kvs"
    by (auto simp: is_kind_def split: json.splits)
  from k l assms have "kvs \<noteq> []" by (auto simp: is_kind_def dict_get_def)
  with False k l show ?thesis by (simp add: retained_def)
qed

lemma build_profile_classified:
  assumes "raw_playerdto s = JNull \<or> (\<exists>kvs. raw_playerdto s = JObj kvs \<and> kvs \<noteq> [])"
  shows "build_profile s = (None, s\<lparr>player_info := profile_of (raw_playerdto s)\<rparr>)"
  using assms
  by (auto simp: build_profile_def profile_of_def field_def as_dict_def attempt_Inr)






section \<open>C2: the missing HeroPush record\<close>

lemma for_each_error:
  assumes "\<And>x s. fst (body x s) \<noteq> Some NoHeroPush"
  shows "fst (for_each body xs s) \<noteq> Some NoHeroPush"
proof (induction xs arbitrary: s)
  case Nil
  show ?case by simp
next
  case (Cons x xs)
  show ?case
  proof (cases "body x s")
    case (Pair r t)
    with assms [of x s] Cons [of t] show ?thesis by (cases r) auto
  qed
qed

lemma attempt_error:
  assumes "r \<noteq> Inl NoHeroPush" and "\<And>v s. fst (k v s) \<noteq> Some NoHeroPush"
  shows "fst (attempt r k s) \<noteq> Some NoHeroPush"
  using assms by (cases r) (simp_all add: attempt_def)

lemma for_in_error:
  assumes "\<And>x s. fst (body x s) \<noteq> Some NoHeroPush"
  shows "fst (for_in v body s) \<noteq> Some NoHeroPush"
  using for_each_error [of body, OF assms]
  by (cases "py_iter v") (auto simp: for_in_def py_iter_def split: json.splits)

lemma seq_error:
  assumes "\<And>s. fst (f s) \<noteq> Some NoHeroPush" and "\<And>s. fst (g s) \<noteq> Some NoHeroPush"
  shows "fst (seq f g s) \<noteq> Some NoHeroPush"
proof (cases "f s")
  case (Pair r t)
  with assms(1) [of s] assms(2) [of t] show ?thesis by (cases r) (auto simp: seq_def)
qed

lemma type_errors:
  "as_dict v \<noteq> Inl NoHeroPush"
  "py_get v k d \<noteq> Inl NoHeroPush"
  "py_getitem v k \<noteq> Inl NoHeroPush"
  "py_in v xs \<noteq> Inl NoHeroPush"
  "py_replace v old new \<noteq> Inl NoHeroPush"
  by (auto simp: as_dict_def py_get_def py_getitem_def py_in_def py_replace_def
        split: json.splits option.splits)

lemma replace_each_error: "replace_each hids \<noteq> Inl NoHeroPush"
  by (induction hids) (auto simp: py_replace_def split: sum.splits json.splits)

lemma hero_set_of_error: "hero_set_of hs \<noteq> Inl NoHeroPush"
  by (induction hs) (auto simp: py_getitem_def split: sum.splits json.splits option.splits)

lemma hero_entry_error: "hero_entry h \<noteq> Inl NoHeroPush"
  by (auto simp: hero_entry_def as_dict_def py_replace_def Let_def split: sum.splits json.splits)

lemma deck_entry_error: "deck_entry d \<noteq> Inl NoHeroPush"
  using replace_each_error
  by (auto simp: deck_entry_def as_dict_def py_iter_def split: sum.splits json.splits)

lemma build_profile_error: "fst (build_profile s) \<noteq> Some NoHeroPush"
  by (simp add: build_profile_def attempt_error type_errors)

lemma build_decks_error: "fst (build_decks s) \<noteq> Some NoHeroPush"
  unfolding build_decks_def
  by (intro attempt_error for_in_error type_errors deck_entry_error) simp

lemma equipment_body_error: "fst (equipment_body hs e s) \<noteq> Some NoHeroPush"
  unfolding equipment_body_def
  by (intro attempt_error type_errors) (simp add: Let_def attempt_error type_errors)

lemma build_equipment_error: "fst (build_equipment hs s) \<noteq> Some NoHeroPush"
  unfolding build_equipment_def
  by (intro for_each_error for_in_error equipment_body_error)

lemma relic_body_error: "fst (relic_body hs r s) \<noteq> Some NoHeroPush"
  unfolding relic_body_def
  apply (intro attempt_error type_errors)
   apply (simp add: type_errors split: option.splits)
  apply (simp add: attempt_error type_errors)
  done

lemma build_relics_error: "fst (build_relics hs s) \<noteq> Some NoHeroPush"
  unfolding build_relics_def
  by (intro for_each_error relic_body_error)

lemma build_cities_error: "fst (build_cities s) \<noteq> Some NoHeroPush"
  unfolding build_cities_def
  by (intro attempt_error for_in_error type_errors) (simp_all add: type_errors)

lemma build_alliance_members_error: "fst (build_alliance_members s) \<noteq> Some NoHeroPush"
  unfolding build_alliance_members_def
  by (simp add: attempt_error for_in_error type_errors)

lemma build_alliance_cities_error: "fst (build_alliance_cities s) \<noteq> Some NoHeroPush"
  unfolding build_alliance_cities_def
  by (intro for_each_error attempt_error type_errors) simp

lemma after_heroes_error:
  "fst (attempt (hero_set_of (heroes s))
             (\<lambda>hero_set.
                seq build_decks
                  (seq (build_equipment hero_set)
                     (seq (build_relics hero_set)
                        (seq build_cities
                           (seq build_alliance_members build_alliance_cities))))) s) \<noteq> Some NoHeroPush"
  by (intro attempt_error seq_error hero_set_of_error build_decks_error build_equipment_error
        build_relics_error build_cities_error build_alliance_members_error
        build_alliance_cities_error)

lemma build_heroes_error:
  assumes "truthy (raw_heropush s)"
  shows "fst (build_heroes s) \<noteq> Some NoHeroPush"
proof -
  have "fst (attempt r
          (\<lambda>unlocked. for_in unlocked
             (\<lambda>h. attempt (hero_entry h) (\<lambda>e s. (None, s\<lparr>heroes := heroes s @ [e]\<rparr>))))
          t) \<noteq> Some NoHeroPush" if "r \<noteq> Inl NoHeroPush" for r t
    by (intro attempt_error for_in_error hero_entry_error that) simp
  from this [OF type_errors(2)] assms show ?thesis by (simp add: build_heroes_def)
qed

lemma build_heroes_missing:
  assumes "\<not> truthy (raw_heropush s)"
  shows "build_heroes s = (Some NoHeroPush, s)"
  using assms by (simp add: build_heroes_def)

lemma build_master_tables_heropush:
  assumes "truthy (raw_heropush s)"
  shows "fst (build_master_tables s) \<noteq> Some NoHeroPush"
proof (cases "build_profile s")
  case (Pair r t)
  have t: "raw_heropush t = raw_heropush s"
    using build_profile_frame [of raw_heropush s] Pair by simp
  show ?thesis
  proof (cases r)
    case (Some e)
    with Pair build_profile_error [of s] show ?thesis
      by (simp add: build_master_tables_def seq_def)
  next
    case None
    show ?thesis
    proof (cases "build_heroes t")
      case h: (Pair r' t')
      show ?thesis
      proof (cases r')
        case (Some e)
        with h build_heroes_error [of t] t assms Pair None show ?thesis
          by (simp add: build_master_tables_def seq_def)
      next
        case n: None
        with h Pair None after_heroes_error [of t'] show ?thesis
          by (simp add: build_master_tables_def seq_def)
      qed
    qed
  qed
qed

lemma build_master_tables_missing:
  assumes "\<not> truthy (raw_heropush s)"
    and "raw_playerdto s = JNull \<or> (\<exists>kvs. raw_playerdto s = JObj kvs \<and> kvs \<noteq> [])"
  shows "build_master_tables s = (Some NoHeroPush, s\<lparr>player_info := profile_of (raw_playerdto s)\<rparr>)"
  using assms(1)
  by (simp add: build_master_tables_def seq_def build_profile_classified [OF assms(2)]
        build_heroes_missing)

lemma retained_truthy:
  assumes "suf \<noteq> []"
  shows "truthy (retained suf msgs) \<longleftrightarrow> filter (is_kind suf) msgs \<noteq> []"
proof (cases "filter (is_kind suf) msgs = []")
  case True
  then show ?thesis by (simp add: retained_def)
next
  case False
  then have "last (filter (is_kind suf) msgs) \<in> set (filter (is_kind suf) msgs)"
    by (rule last_in_set)
  then have "is_kind suf (retained suf msgs)" using False by (simp add: retained_def)
  with retained_cases [OF assms, of msgs] False show ?thesis
    by (auto simp: is_kind_def)
qed

text \<open>
  Claim C2, amended: on the buckets of a stream of well-formed records,
  \<^verbatim>\<open>build_master_tables\<close> raises its exception for the missing HeroPush record if and
  only if the stream holds no HeroPush record; and when it does, the profile has been
  assigned from the Player singleton (all four fields null when there is none) and every
  other field of the object, so every other table of the model, is as it was before the
  call. With a HeroPush record the builder can still raise, but only another exception.
\<close>

theorem missing_heropush_aborts_after_profile:
  assumes "list_all is_record (messages s0)"
  shows "\<exists>s. classify_startup_messages s0 = (None, s) \<and>
     (fst (build_master_tables s) = Some NoHeroPush \<longleftrightarrow>
        filter (is_kind ''HeroPush'') (messages s0) = []) \<and>
     (filter (is_kind ''HeroPush'') (messages s0) = [] \<longrightarrow>
        build_master_tables s =
          (Some NoHeroPush, s\<lparr>player_info := profile_of (retained ''PlayerDTO'' (messages s0))\<rparr>))"
proof -
  let ?s = "snd (classify_startup_messages s0)"
  note c = classify_startup_messages_records [OF assms]
  have p: "raw_playerdto ?s = retained ''PlayerDTO'' (messages s0)"
    and h: "raw_heropush ?s = retained ''HeroPush'' (messages s0)" by (simp_all add: c)
  from retained_cases [of "''PlayerDTO''" "messages s0"]
  have pc: "raw_playerdto ?s = JNull \<or> (\<exists>kvs. raw_playerdto ?s = JObj kvs \<and> kvs \<noteq> [])"
    unfolding p by auto
  have t: "truthy (raw_heropush ?s) \<longleftrightarrow> filter (is_kind ''HeroPush'') (messages s0) \<noteq> []"
    unfolding h by (rule retained_truthy) simp
  have 1: "fst (build_master_tables ?s) \<noteq> Some NoHeroPush"
    if "filter (is_kind ''HeroPush'') (messages s0) \<noteq> []"
    using that t build_master_tables_heropush [of ?s] by simp
  have 2: "build_master_tables ?s =
          (Some NoHeroPush, ?s\<lparr>player_info := profile_of (retained ''PlayerDTO'' (messages s0))\<rparr>)"
    if "filter (is_kind ''HeroPush'') (messages s0) = []"
    using that t build_master_tables_missing [OF _ pc] p by simp
  have "classify_startup_messages s0 = (None, ?s)" by (simp add: c)
  with 1 2 show ?thesis by (intro exI [of _ ?s]) auto
qed

theorem missing_heropush_aborts_after_profile_witness:
  "list_all is_record no_heropush_stream \<and>
   filter (is_kind ''HeroPush'') no_heropush_stream = [] \<and>
   build_master_tables no_heropush_buckets =
     (Some NoHeroPush,
      no_heropush_buckets\<lparr>player_info :=
        JObj [(''id'', JInt 42), (''displayName'', JStr ''Bea''), (''username'', JNull),
              (''allianceId'', JNull)]\<rparr>)"
proof -
  have r: "list_all is_record no_heropush_stream" by code_simp
  then have "list_all is_record (messages (init_analyzer no_heropush_stream))"
    by (simp add: init_analyzer_def)
  from missing_heropush_aborts_after_profile [OF this]
  have 1: "filter (is_kind ''HeroPush'') no_heropush_stream = [] \<longrightarrow>
      build_master_tables no_heropush_buckets =
        (Some NoHeroPush,
         no_heropush_buckets\<lparr>player_info := profile_of (retained ''PlayerDTO'' no_heropush_stream)\<rparr>)"
    by (auto simp: no_heropush_buckets_def init_analyzer_def)
  have f: "filter (is_kind ''HeroPush'') no_heropush_stream = []" by code_simp
  have e: "profile_of (retained ''PlayerDTO'' no_heropush_stream) =
      JObj [(''id'', JInt 42), (''displayName'', JStr ''Bea''), (''username'', JNull),
              (''allianceId'', JNull)]" by code_simp
  from 1 f e r show ?thesis by simp
qed

text \<open>
  Claim C2 as stated fails twice. On a stream with a Player record and no HeroPush record
  the builder raises after it has assigned the profile: the model is not as before the
  call. On a stream with a HeroPush record whose \<^verbatim>\<open>unlocked\<close> field is null the
  builder raises \<^verbatim>\<open>TypeError\<close>, although the HeroPush singleton is present.
\<close>

theorem profile_assigned_before_abort_counterexample:
  "filter (is_kind ''HeroPush'') no_heropush_stream = [] \<and>
   fst (build_master_tables no_heropush_buckets) = Some NoHeroPush \<and>
   player_info no_heropush_buckets = JObj [] \<and>
   player_info (snd (build_master_tables no_heropush_buckets)) =
     JObj [(''id'', JInt 42), (''displayName'', JStr ''Bea''), (''username'', JNull),
           (''allianceId'', JNull)] \<and>
   entity_model (snd (build_master_tables no_heropush_buckets)) \<noteq> entity_model no_heropush_buckets \<and>
   filter (is_kind ''HeroPush'') null_unlocked_stream \<noteq> [] \<and>
   fst (build_master_tables null_unlocked_buckets) = Some TypeError"
  by code_simp

section \<open>C9: when nothing is raised\<close>

lemma one_bucket_if:
  assumes "changed_buckets t (snd a) \<le> 1" and "changed_buckets t (snd b) \<le> 1"
  shows "changed_buckets t (snd (if c then a else b)) \<le> 1"
  using assms by simp

lemma one_bucket_option:
  assumes "\<And>v. changed_buckets t (snd (f v)) \<le> 1" and "changed_buckets t (snd g) \<le> 1"
  shows "changed_buckets t (snd (case x of Some v \<Rightarrow> f v | None \<Rightarrow> g)) \<le> 1"
  using assms by (cases x) simp_all

lemma classify_message_one_bucket:
  "changed_buckets t (snd (classify_message msg t)) \<le> 1"
proof (cases msg)
  case (JObj kvs)
  show ?thesis
  proof (cases "dict_get kvs ''@type'' (JStr [])")
    case (JStr dto_type)
    show ?thesis
      unfolding classify_message_def JObj
      apply (simp only: JStr json.case)
      apply (intro one_bucket_if one_bucket_option)
              apply (simp_all add: changed_buckets_def)
      done
  qed (simp_all add: classify_message_def JObj changed_buckets_def)
qed (simp_all add: classify_message_def changed_buckets_def)

lemma for_each_ok:
  assumes "\<And>x s. x \<in> set xs \<Longrightarrow> fst (body x s) = None"
  shows "fst (for_each body xs s) = None"
  using assms
proof (induction xs arbitrary: s)
  case Nil
  show ?case by simp
next
  case (Cons x xs)
  from Cons.prems [of x s] have "fst (body x s) = None" by simp
  then obtain t where "body x s = (None, t)" by (cases "body x s") auto
  with Cons.IH [of t] Cons.prems show ?case by simp
qed

lemma list_field_iter:
  assumes "is_dict v" and "list_field P v k"
  shows "\<exists>xs. py_get v k (JArr []) = Inr (JArr xs) \<and> list_all P xs"
proof -
  from assms(1) obtain f where v: "v = JObj f" by (auto simp: is_dict_def split: json.splits)
  show ?thesis
  proof (cases "map_of f k")
    case None
    then show ?thesis by (simp add: v py_get_def as_dict_def dict_get_def)
  next
    case (Some u)
    with assms(2) obtain xs where "u = JArr xs" and "list_all P xs"
      by (auto simp: v list_field_def has_field_def field_def dict_get_def split: json.splits)
    with Some show ?thesis by (simp add: v py_get_def as_dict_def dict_get_def)
  qed
qed

lemma collect_ok:
  assumes "\<forall>x \<in> set xs. \<exists>e. f x = Inr e"
  shows "fst (attempt (Inr (JArr xs))
           (\<lambda>u. for_in u (\<lambda>x. attempt (f x) (\<lambda>e s. (None, put e s)))) s) = None"
proof -
  have "fst (for_each (\<lambda>x. attempt (f x) (\<lambda>e s. (None, put e s))) xs s) = None"
    using assms by (intro for_each_ok) (auto simp: attempt_Inr)
  then show ?thesis by (simp add: attempt_Inr for_in_def py_iter_def)
qed

lemma hero_entry_ok: "hero_shaped h \<Longrightarrow> \<exists>e. hero_entry h = Inr e"
  by (auto simp: hero_shaped_def is_dict_def is_str_or_null_def field_def hero_entry_def as_dict_def
        py_replace_def Let_def split: json.splits)

lemma replace_each_ok: "list_all is_str hids \<Longrightarrow> \<exists>names. replace_each hids = Inr names"
  by (induction hids) (auto simp: is_str_def py_replace_def split: json.splits)

lemma deck_entry_ok:
  assumes "deck_shaped d"
  shows "\<exists>e. deck_entry d = Inr e"
proof -
  from assms have d: "is_dict d" and l: "list_field is_str d ''heroDefinitionId''"
    by (simp_all add: deck_shaped_def)
  from d obtain f where f: "d = JObj f" by (auto simp: is_dict_def split: json.splits)
  from list_field_iter [OF d l] obtain xs where
    "dict_get f ''heroDefinitionId'' (JArr []) = JArr xs" and "list_all is_str xs"
    by (auto simp: f py_get_def as_dict_def)
  with replace_each_ok [of xs] show ?thesis
    by (auto simp: deck_entry_def f as_dict_def py_iter_def)
qed

lemma as_dict_ok: "is_dict v \<Longrightarrow> \<exists>f. as_dict v = Inr f"
  by (auto simp: is_dict_def as_dict_def split: json.splits)

lemma equipment_body_ok:
  assumes "equipment_shaped e"
  shows "fst (equipment_body hs e s) = None"
proof -
  from assms obtain f where e: "e = JObj f"
    by (auto simp: equipment_shaped_def is_dict_def split: json.splits)
  from assms have "is_str_or_null (dict_get f ''equippedOnHeroDefinitionId'' JNull)"
    by (simp add: equipment_shaped_def equipped_on_def field_def e)
  then show ?thesis
    by (cases "dict_get f ''equippedOnHeroDefinitionId'' JNull")
       (simp_all add: is_str_or_null_def equipment_body_def e as_dict_def attempt_Inr Let_def
          py_in_def py_replace_def)
qed

lemma relic_body_ok:
  assumes "relic_shaped r"
  shows "fst (relic_body hs r s) = None"
proof -
  from assms obtain f where r: "r = JObj f"
    by (auto simp: relic_shaped_def is_dict_def split: json.splits)
  from assms have u: "map_of f ''supportingUnit'' = Some v \<Longrightarrow> is_dict v" for v
    by (auto simp: relic_shaped_def has_field_def field_def dict_get_def r)
  from assms have n: "is_str_or_null (supporting_hero (JObj f))"
    by (simp add: relic_shaped_def r)
  show ?thesis
  proof (cases "map_of f ''supportingUnit''")
    case None
    then show ?thesis by (simp add: relic_body_def r as_dict_def attempt_Inr)
  next
    case (Some v)
    from u [OF Some] obtain g where v: "v = JObj g" by (auto simp: is_dict_def split: json.splits)
    from n Some have "is_str_or_null (dict_get g ''definitionId'' JNull)"
      by (simp add: supporting_hero_def field_def dict_get_def v)
    then show ?thesis
      by (cases "dict_get g ''definitionId'' JNull")
         (simp_all add: is_str_or_null_def relic_body_def r v Some as_dict_def py_get_def attempt_Inr
            py_in_def py_replace_def)
  qed
qed

lemma list_field_elements:
  assumes "list_field P v k"
  shows "list_all P (elements (field v k))"
proof (cases "has_field v k")
  case True
  with assms show ?thesis
    by (auto simp: list_field_def elements_def py_iter_def split: json.splits)
next
  case False
  then have "field v k = JNull"
    by (auto simp: has_field_def field_def dict_get_def split: json.splits)
  then show ?thesis by (simp add: elements_def py_iter_def)
qed

lemma hero_set_of_ok:
  assumes "map hero_entry hs = map Inr es" and "list_all hero_shaped hs"
  shows "hero_set_of es = Inr (owned_ids hs)"
  using assms
proof (induction hs arbitrary: es)
  case Nil
  then show ?case by (simp add: owned_ids_def)
next
  case (Cons h hs)
  from Cons.prems(1) obtain e es' where es: "es = e # es'" and e: "hero_entry h = Inr e"
    and r: "map hero_entry hs = map Inr es'" by (cases es) auto
  from Cons.prems(2) have "hero_shaped h" and l: "list_all hero_shaped hs" by simp_all
  then have "is_str_or_null (field h ''heroDefinitionId'')" by (simp add: hero_shaped_def)
  then have "hashable (field h ''heroDefinitionId'')"
    by (cases "field h ''heroDefinitionId''") (simp_all add: is_str_or_null_def)
  with Cons.IH [OF r l] hero_entry_Inr(2) [OF e] show ?case
    by (simp add: es owned_ids_def)
qed

lemma build_profile_ok:
  assumes "well_shaped s"
  shows "fst (build_profile s) = None"
proof (cases "truthy (raw_playerdto s)")
  case True
  with assms have "is_dict (raw_playerdto s)" by (simp add: well_shaped_def)
  with as_dict_ok obtain f where "as_dict (raw_playerdto s) = Inr f" by blast
  with True show ?thesis by (simp add: build_profile_def attempt_Inr)
next
  case False
  then show ?thesis by (simp add: build_profile_def)
qed

lemma build_heroes_ok:
  assumes "well_shaped s" and "truthy (raw_heropush s)"
  shows "fst (build_heroes s) = None"
proof -
  from assms(1) have "is_dict (raw_heropush s)" "list_field hero_shaped (raw_heropush s) ''unlocked''"
    by (simp_all add: well_shaped_def)
  from list_field_iter [OF this] obtain xs where
    g: "py_get (raw_heropush s) ''unlocked'' (JArr []) = Inr (JArr xs)" and "list_all hero_shaped xs"
    by blast
  then have "\<forall>x \<in> set xs. \<exists>e. hero_entry x = Inr e"
    by (auto simp: list_all_iff intro: hero_entry_ok)
  from collect_ok [of xs hero_entry, OF this] assms(2) g show ?thesis
    by (simp add: build_heroes_def)
qed

lemma build_decks_ok:
  assumes "well_shaped s"
  shows "fst (build_decks s) = None"
proof -
  from assms(1) have "is_dict (raw_heropush s)" "list_field deck_shaped (raw_heropush s) ''deck''"
    by (simp_all add: well_shaped_def)
  from list_field_iter [OF this] obtain xs where
    g: "py_get (raw_heropush s) ''deck'' (JArr []) = Inr (JArr xs)" and "list_all deck_shaped xs"
    by blast
  then have "\<forall>x \<in> set xs. \<exists>e. deck_entry x = Inr e"
    by (auto simp: list_all_iff intro: deck_entry_ok)
  from collect_ok [of xs deck_entry, OF this] g show ?thesis
    by (simp add: build_decks_def)
qed

lemma build_equipment_ok:
  assumes "well_shaped s"
  shows "fst (build_equipment hs s) = None"
proof -
  have "fst (for_in g (equipment_body hs) t) = None" if "g \<in> set (raw_equipment_lists s)" for g t
  proof -
    from assms that have "case g of JArr es \<Rightarrow> list_all equipment_shaped es | _ \<Rightarrow> False"
      by (simp add: well_shaped_def list_all_iff)
    then obtain es where g: "g = JArr es" and "list_all equipment_shaped es"
      by (cases g) simp_all
    then have "fst (for_each (equipment_body hs) es t) = None"
      by (intro for_each_ok equipment_body_ok) (simp add: list_all_iff)
    then show ?thesis by (simp add: g for_in_def py_iter_def)
  qed
  then show ?thesis
    unfolding build_equipment_def by (intro for_each_ok)
qed

lemma build_relics_ok:
  assumes "well_shaped s"
  shows "fst (build_relics hs s) = None"
  unfolding build_relics_def
  using assms by (intro for_each_ok relic_body_ok) (simp add: well_shaped_def list_all_iff)

lemma build_cities_ok:
  assumes "well_shaped s"
  shows "fst (build_cities s) = None"
proof (cases "truthy (raw_playerdto s)")
  case True
  with assms have "is_dict (raw_playerdto s)" "list_field is_dict (raw_playerdto s) ''unlockedCities''"
    by (simp_all add: well_shaped_def)
  from list_field_iter [OF this] obtain xs where
    g: "py_get (raw_playerdto s) ''unlockedCities'' (JArr []) = Inr (JArr xs)" and "list_all is_dict xs"
    by blast
  then have "\<forall>x \<in> set xs. \<exists>e. as_dict x = Inr e"
    by (auto simp: list_all_iff intro: as_dict_ok)
  from collect_ok [of xs as_dict "\<lambda>f s. s\<lparr>cities := cities s @ [city_entry f]\<rparr>", OF this] g True
  show ?thesis by (simp add: build_cities_def)
next
  case False
  then show ?thesis by (simp add: build_cities_def attempt_Inr for_in_def py_iter_def)
qed

lemma build_alliance_members_ok:
  assumes "well_shaped s"
  shows "fst (build_alliance_members s) = None"
proof (cases "truthy (raw_alliance_members s)")
  case True
  with assms have "is_dict (raw_alliance_members s)"
    "list_field is_dict (raw_alliance_members s) ''members''"
    by (simp_all add: well_shaped_def)
  from list_field_iter [OF this] obtain xs where
    g: "py_get (raw_alliance_members s) ''members'' (JArr []) = Inr (JArr xs)" and "list_all is_dict xs"
    by blast
  then have "\<forall>x \<in> set xs. \<exists>e. as_dict x = Inr e"
    by (auto simp: list_all_iff intro: as_dict_ok)
  from collect_ok [of xs as_dict
      "\<lambda>f s. s\<lparr>alliance_members := alliance_members s @ [member_entry f]\<rparr>", OF this] g True
  show ?thesis by (simp add: build_alliance_members_def)
next
  case False
  then show ?thesis by (simp add: build_alliance_members_def)
qed

lemma build_alliance_cities_ok:
  assumes "well_shaped s"
  shows "fst (build_alliance_cities s) = None"
proof -
  have "fst (attempt (as_dict ac)
          (\<lambda>f s. (None, s\<lparr>alliance_cities := alliance_cities s @ [alliance_city_entry f]\<rparr>)) t) = None"
    if "ac \<in> set (raw_alliance_cities s)" for ac t
  proof -
    from assms that have "is_dict ac" by (simp add: well_shaped_def list_all_iff)
    with as_dict_ok obtain f where "as_dict ac = Inr f" by blast
    then show ?thesis by (simp add: attempt_Inr)
  qed
  then show ?thesis
    unfolding build_alliance_cities_def by (intro for_each_ok)
qed

lemma build_master_tables_ok:
  assumes w: "well_shaped s" and t: "truthy (raw_heropush s)"
  shows "fst (build_master_tables s) = None"
proof -
  let ?W = "\<lambda>s. well_shaped s \<and> truthy (raw_heropush s)"
  have W0: "?W s" using w t by simp
  obtain s1 where st1: "build_profile s = (None, s1)"
    using build_profile_ok [OF w] by (cases "build_profile s") auto
  have W1: "?W s1" using build_profile_frame [of ?W s] st1 W0 by (simp add: well_shaped_def)
  obtain s2 where st2: "build_heroes s1 = (None, s2)"
    using build_heroes_ok [of s1] W1 by (cases "build_heroes s1") auto
  have W2: "?W s2" using build_heroes_frame [of ?W s1] st2 W1 by (simp add: well_shaped_def)
  have r2: "raw_heropush s2 = raw_heropush s1"
    using build_heroes_frame [of raw_heropush s1] st2 by simp
  from build_heroes_None(2) [OF st2]
  have he: "map hero_entry (elements (field (raw_heropush s1) ''unlocked'')) = map Inr (heroes s2)" .
  from W1 have "list_all hero_shaped (elements (field (raw_heropush s1) ''unlocked''))"
    by (intro list_field_elements) (simp add: well_shaped_def)
  from hero_set_of_ok [OF he this] obtain hs where hs: "hero_set_of (heroes s2) = Inr hs" by blast
  obtain s3 where st3: "build_decks s2 = (None, s3)"
    using build_decks_ok [of s2] W2 by (cases "build_decks s2") auto
  have W3: "?W s3" using build_decks_frame [of ?W s2] st3 W2 by (simp add: well_shaped_def)
  obtain s4 where st4: "build_equipment hs s3 = (None, s4)"
    using build_equipment_ok [of s3 hs] W3 by (cases "build_equipment hs s3") auto
  have W4: "?W s4" using build_equipment_frame [of ?W hs s3] st4 W3 by (simp add: well_shaped_def)
  obtain s5 where st5: "build_relics hs s4 = (None, s5)"
    using build_relics_ok [of s4 hs] W4 by (cases "build_relics hs s4") auto
  have W5: "?W s5" using build_relics_frame [of ?W hs s4] st5 W4 by (simp add: well_shaped_def)
  obtain s6 where st6: "build_cities s5 = (None, s6)"
    using build_cities_ok [of s5] W5 by (cases "build_cities s5") auto
  have W6: "?W s6" using build_cities_frame [of ?W s5] st6 W5 by (simp add: well_shaped_def)
  obtain s7 where st7: "build_alliance_members s6 = (None, s7)"
    using build_alliance_members_ok [of s6] W6 by (cases "build_alliance_members s6") auto
  have W7: "?W s7"
    using build_alliance_members_frame [of ?W s6] st7 W6 by (simp add: well_shaped_def)
  from build_alliance_cities_ok [of s7] W7 have "fst (build_alliance_cities s7) = None" by simp
  with st1 st2 hs st3 st4 st5 st6 st7 show ?thesis
    by (simp add: build_master_tables_def seq_def attempt_Inr)
qed

lemma classify_message_ill_formed:
  assumes "\<not> is_record msg"
  shows "classify_message msg s = (Some AttributeError, s)"
proof (cases msg)
  case (JObj kvs)
  with assms show ?thesis
    by (cases "dict_get kvs ''@type'' (JStr [])") (simp_all add: is_record_def classify_message_def)
qed (simp_all add: classify_message_def)

lemma classify_loop_returns_iff:
  "fst (for_each classify_message msgs s) = None \<longleftrightarrow> list_all is_record msgs"
proof (induction msgs arbitrary: s)
  case Nil
  show ?case by simp
next
  case (Cons m ms)
  show ?case
  proof (cases "is_record m")
    case True
    from classify_message_record [OF True, of s] obtain t where "classify_message m s = (None, t)"
      by blast
    with Cons [of t] True show ?thesis by simp
  next
    case False
    with classify_message_ill_formed [OF False, of s] show ?thesis by simp
  qed
qed

lemma classify_returns_iff:
  "fst (classify_startup_messages s) = None \<longleftrightarrow> list_all is_record (messages s)"
  by (simp add: classify_startup_messages_def classify_loop_returns_iff)

lemma entries_of:
  "equipment_item (fields_of e) = equipment_of e"
  "relic_item (fields_of e) = relic_of e"
  "city_entry (fields_of e) = city_of e"
  "member_entry (fields_of e) = member_of e"
  "alliance_city_entry (fields_of e) = alliance_city_of e"
proof -
  note d = fields_of_def field_def field_or_def dict_get_def
  show "equipment_item (fields_of e) = equipment_of e"
    by (cases e) (simp_all add: d equipment_item_def equipment_of_def)
  show "relic_item (fields_of e) = relic_of e"
    by (cases e) (simp_all add: d relic_item_def relic_of_def)
  show "city_entry (fields_of e) = city_of e"
    by (cases e) (simp_all add: d city_entry_def city_of_def)
  show "member_entry (fields_of e) = member_of e"
    by (cases e) (simp_all add: d member_entry_def member_of_def)
  show "alliance_city_entry (fields_of e) = alliance_city_of e"
    by (cases e) (simp_all add: d alliance_city_entry_def alliance_city_of_def)
qed

lemma hero_entry_of:
  assumes "hero_entry h = Inr e"
  shows "e = hero_of h"
proof -
  from assms obtain f where h: "h = JObj f"
    by (auto simp: hero_entry_def as_dict_def split: json.splits)
  show ?thesis
    using assms
    by (cases "dict_get f ''heroDefinitionId'' JNull")
       (auto simp: hero_entry_def h as_dict_def Let_def py_replace_def hero_of_def field_def
          display_id_def split: if_splits)
qed

lemma hero_entries_of: "map hero_entry hs = map Inr es \<Longrightarrow> es = map hero_of hs"
proof (induction hs arbitrary: es)
  case Nil
  then show ?case by simp
next
  case (Cons h hs)
  from Cons.prems obtain e es' where es: "es = e # es'" and e: "hero_entry h = Inr e"
    and r: "map hero_entry hs = map Inr es'" by (cases es) auto
  from Cons.IH [OF r] hero_entry_of [OF e] es show ?case by simp
qed

lemma deck_entries_of: "map deck_entry ds = map Inr es \<Longrightarrow> es = map deck_of ds"
proof (induction ds arbitrary: es)
  case Nil
  then show ?case by simp
next
  case (Cons d ds)
  from Cons.prems obtain e es' where es: "es = e # es'" and e: "deck_entry d = Inr e"
    and r: "map deck_entry ds = map Inr es'" by (cases es) auto
  from Cons.IH [OF r] deck_entry_Inr [OF e] es show ?case by (simp add: deck_of_def)
qed

lemma build_profile_None:
  assumes "build_profile s = (None, s')"
  shows "player_info s' = profile_of (raw_playerdto s)"
proof (cases "truthy (raw_playerdto s)")
  case True
  with assms obtain p where "as_dict (raw_playerdto s) = Inr p"
    by (auto simp: build_profile_def attempt_None)
  then have "raw_playerdto s = JObj p" by (auto simp: as_dict_def split: json.splits)
  with assms True show ?thesis
    by (auto simp: build_profile_def as_dict_def attempt_Inr profile_of_def field_def)
next
  case False
  then have "field (raw_playerdto s) k = JNull" for k
    by (cases "raw_playerdto s") (simp_all add: field_def dict_get_def)
  with assms False show ?thesis by (auto simp: build_profile_def profile_of_def)
qed

lemma build_alliance_members_None:
  assumes "build_alliance_members s = (None, s')"
  shows "alliance_members s' = map member_of
           (if truthy (raw_alliance_members s) then elements (field (raw_alliance_members s) ''members'')
            else [])"
proof (cases "truthy (raw_alliance_members s)")
  case False
  with assms show ?thesis by (auto simp: build_alliance_members_def)
next
  case True
  with assms obtain u xs where u: "py_get (raw_alliance_members s) ''members'' (JArr []) = Inr u"
    and x: "py_iter u = Inr xs"
    and l: "for_each (\<lambda>m. attempt (as_dict m)
                (\<lambda>f s. (None, s\<lparr>alliance_members := alliance_members s @ [member_entry f]\<rparr>))) xs
              (s\<lparr>alliance_members := []\<rparr>) = (None, s')"
    by (auto simp: build_alliance_members_def attempt_None for_in_None)
  from collect_loop [of alliance_members
      "\<lambda>f s. s\<lparr>alliance_members := alliance_members s @ [member_entry f]\<rparr>" member_entry, OF _ l]
  obtain es where es: "map as_dict xs = map Inr es" and c: "alliance_members s' = map member_entry es"
    by auto
  from as_dict_fields [OF es] c listed_field [OF u x] True show ?thesis
    by (simp add: entries_of comp_def)
qed

lemma build_alliance_cities_None:
  assumes "build_alliance_cities s = (None, s')"
  shows "alliance_cities s' = map alliance_city_of (raw_alliance_cities s)"
proof -
  from assms have l: "for_each
       (\<lambda>ac. attempt (as_dict ac)
          (\<lambda>f s. (None, s\<lparr>alliance_cities := alliance_cities s @ [alliance_city_entry f]\<rparr>)))
       (raw_alliance_cities s) (s\<lparr>alliance_cities := []\<rparr>) = (None, s')"
    by (simp add: build_alliance_cities_def)
  from collect_loop [of alliance_cities
      "\<lambda>f s. s\<lparr>alliance_cities := alliance_cities s @ [alliance_city_entry f]\<rparr>"
      alliance_city_entry, OF _ l]
  obtain es where es: "map as_dict (raw_alliance_cities s) = map Inr es"
    and c: "alliance_cities s' = map alliance_city_entry es"
    by auto
  from as_dict_fields [OF es] c show ?thesis by (simp add: entries_of comp_def)
qed

lemma build_success_rest:
  assumes "build_master_tables s = (None, s')"
  shows "player_info s' = profile_of (raw_playerdto s)"
    and "alliance_members s' = map member_of
           (if truthy (raw_alliance_members s) then elements (field (raw_alliance_members s) ''members'')
            else [])"
    and "alliance_cities s' = map alliance_city_of (raw_alliance_cities s)"
proof -
  from assms obtain s1 s2 hero_set s3 s4 s5 s6 s7 where
    st1: "build_profile s = (None, s1)" and st2: "build_heroes s1 = (None, s2)" and
    hs: "hero_set_of (heroes s2) = Inr hero_set" and st3: "build_decks s2 = (None, s3)" and
    st4: "build_equipment hero_set s3 = (None, s4)" and st5: "build_relics hero_set s4 = (None, s5)" and
    st6: "build_cities s5 = (None, s6)" and st7: "build_alliance_members s6 = (None, s7)" and
    st8: "build_alliance_cities s7 = (None, s')"
    by (rule build_master_tables_None)
  let ?g = "\<lambda>t. (raw_alliance_members t, raw_alliance_cities t)"
  have r1: "?g s1 = ?g s" using build_profile_frame [of ?g s] st1 by simp
  have r2: "?g s2 = ?g s1" using build_heroes_frame [of ?g s1] st2 by simp
  have r3: "?g s3 = ?g s2" using build_decks_frame [of ?g s2] st3 by simp
  have r4: "?g s4 = ?g s3" using build_equipment_frame [of ?g hero_set s3] st4 by simp
  have r5: "?g s5 = ?g s4" using build_relics_frame [of ?g hero_set s4] st5 by simp
  have r6: "?g s6 = ?g s5" using build_cities_frame [of ?g s5] st6 by simp
  have r7: "?g s7 = ?g s6" using build_alliance_members_frame [of ?g s6] st7 by simp
  have p2: "player_info s2 = player_info s1" using build_heroes_frame [of player_info s1] st2 by simp
  have p3: "player_info s3 = player_info s2" using build_decks_frame [of player_info s2] st3 by simp
  have p4: "player_info s4 = player_info s3"
    using build_equipment_frame [of player_info hero_set s3] st4 by simp
  have p5: "player_info s5 = player_info s4"
    using build_relics_frame [of player_info hero_set s4] st5 by simp
  have p6: "player_info s6 = player_info s5" using build_cities_frame [of player_info s5] st6 by simp
  have p7: "player_info s7 = player_info s6"
    using build_alliance_members_frame [of player_info s6] st7 by simp
  have p8: "player_info s' = player_info s7"
    using build_alliance_cities_frame [of player_info s7] st8 by simp
  from build_profile_None [OF st1] p2 p3 p4 p5 p6 p7 p8
  show "player_info s' = profile_of (raw_playerdto s)" by simp
  have m8: "alliance_members s' = alliance_members s7"
    using build_alliance_cities_frame [of alliance_members s7] st8 by simp
  from build_alliance_members_None [OF st7] m8 r1 r2 r3 r4 r5 r6
  show "alliance_members s' = map member_of
           (if truthy (raw_alliance_members s) then elements (field (raw_alliance_members s) ''members'')
            else [])" by simp
  from build_alliance_cities_None [OF st8] r1 r2 r3 r4 r5 r6 r7
  show "alliance_cities s' = map alliance_city_of (raw_alliance_cities s)" by simp
qed

text \<open>
  Claim C9, amended: the classifier returns exactly on the streams of well-formed records
  (field mappings whose discriminator, when present, is a string), and whatever the
  record, it changes at most one bucket; a well-formed record of none of the seven kinds
  changes nothing. The builder never raises on a bucket set that contains a HeroPush
  singleton and whose fields are well shaped: every field the builder iterates is absent
  or a list of field mappings (of strings, for the hero identifiers of a deck), every hero
  identifier it reads from a hero, an equipment entry or a supporting unit is absent, null
  or a string, and a \<^verbatim>\<open>supportingUnit\<close> is absent or a field mapping. And whenever the
  builder returns, it leaves the raw buckets as they are and every table is made of the
  entries \<open>profile_of\<close>, \<open>hero_of\<close>, \<open>deck_of\<close>, \<open>equipment_of\<close>, \<open>relic_of\<close>,
  \<open>city_of\<close>, \<open>member_of\<close> and \<open>alliance_city_of\<close> of the raw elements: an absent field
  is null in the entry (the empty list for \<^verbatim>\<open>subAttributes\<close>, the empty mapping for
  \<^verbatim>\<open>placedBuildingAmounts\<close> and \<^verbatim>\<open>buildingLimits\<close>), and an absent list gives no
  entries. Nothing is claimed for a field that is present with another shape.
\<close>

theorem no_exception_on_well_shaped_input:
  "(fst (classify_startup_messages s0) = None \<longleftrightarrow> list_all is_record (messages s0)) \<and>
   changed_buckets t (snd (classify_message msg t)) \<le> 1 \<and>
   (is_record msg \<and>
    \<not> list_ex (\<lambda>k. is_kind k msg)
        [''PlayerDTO'', ''HeroPush'', ''AllEquipmentUnitDataDTO'', ''RelicUnitDataDTO'',
         ''CityDTO'', ''AllianceMembersResponse'', ''AllianceCityDTO'']
      \<longrightarrow> classify_message msg t = (None, t)) \<and>
   (truthy (raw_heropush s) \<and> well_shaped s \<longrightarrow> fst (build_master_tables s) = None) \<and>
   (\<not> has_field v k \<longrightarrow> field v k = JNull \<and> field_or v k d = d \<and> elements (field v k) = []) \<and>
   (build_master_tables s = (None, s') \<longrightarrow>
      raws s' = raws s \<and>
      player_info s' = profile_of (raw_playerdto s) \<and>
      heroes s' = map hero_of (elements (field (raw_heropush s) ''unlocked'')) \<and>
      decks s' = map deck_of (elements (field (raw_heropush s) ''deck'')) \<and>
      map_of (equipment s') =
        grouped (map (\<lambda>e. (display_id (equipped_on e), equipment_of e))
          (filter (\<lambda>e. truthy (equipped_on e) \<and> equipped_on e \<in> set (owned_ids (heroes s')))
             (concat (map elements (raw_equipment_lists s))))) \<and>
      map_of (relics s') =
        grouped (map (\<lambda>e. (display_id (supporting_hero e), relic_of e))
          (filter (\<lambda>e. truthy (supporting_hero e) \<and> supporting_hero e \<in> set (owned_ids (heroes s')))
             (raw_relic_lists s))) \<and>
      cities s' = map city_of
        (if truthy (raw_playerdto s) then elements (field (raw_playerdto s) ''unlockedCities'')
         else []) \<and>
      alliance_members s' = map member_of
        (if truthy (raw_alliance_members s) then elements (field (raw_alliance_members s) ''members'')
         else []) \<and>
      alliance_cities s' = map alliance_city_of (raw_alliance_cities s))"
proof -
  have 1: "classify_message msg t = (None, t)"
    if "is_record msg" and "\<not> list_ex (\<lambda>k. is_kind k msg)
        [''PlayerDTO'', ''HeroPush'', ''AllEquipmentUnitDataDTO'', ''RelicUnitDataDTO'',
         ''CityDTO'', ''AllianceMembersResponse'', ''AllianceCityDTO'']"
    using that(2) by (simp add: classify_message_record [OF that(1)])
  have 2: "field v k = JNull \<and> field_or v k d = d \<and> elements (field v k) = []"
    if "\<not> has_field v k"
    using that
    by (cases v) (auto simp: has_field_def field_def field_or_def dict_get_def elements_def py_iter_def)
  have 3: "raws s' = raws s \<and>
      player_info s' = profile_of (raw_playerdto s) \<and>
      heroes s' = map hero_of (elements (field (raw_heropush s) ''unlocked'')) \<and>
      decks s' = map deck_of (elements (field (raw_heropush s) ''deck'')) \<and>
      map_of (equipment s') =
        grouped (map (\<lambda>e. (display_id (equipped_on e), equipment_of e))
          (filter (\<lambda>e. truthy (equipped_on e) \<and> equipped_on e \<in> set (owned_ids (heroes s')))
             (concat (map elements (raw_equipment_lists s))))) \<and>
      map_of (relics s') =
        grouped (map (\<lambda>e. (display_id (supporting_hero e), relic_of e))
          (filter (\<lambda>e. truthy (supporting_hero e) \<and> supporting_hero e \<in> set (owned_ids (heroes s')))
             (raw_relic_lists s))) \<and>
      cities s' = map city_of
        (if truthy (raw_playerdto s) then elements (field (raw_playerdto s) ''unlockedCities'')
         else []) \<and>
      alliance_members s' = map member_of
        (if truthy (raw_alliance_members s) then elements (field (raw_alliance_members s) ''members'')
         else []) \<and>
      alliance_cities s' = map alliance_city_of (raw_alliance_cities s)"
    if b: "build_master_tables s = (None, s')"
  proof -
    note a = build_success [OF b] and r = build_success_rest [OF b]
    from hero_entries_of [OF a(3)]
    have h: "heroes s' = map hero_of (elements (field (raw_heropush s) ''unlocked''))" .
    from deck_entries_of [OF a(4)]
    have k: "decks s' = map deck_of (elements (field (raw_heropush s) ''deck''))" .
    from a(5) have e: "map_of (equipment s') =
        grouped (map (\<lambda>e. (display_id (equipped_on e), equipment_of e))
          (filter (\<lambda>e. truthy (equipped_on e) \<and> equipped_on e \<in> set (owned_ids (heroes s')))
             (concat (map elements (raw_equipment_lists s)))))"
      by (simp only: entries_of)
    from a(6) have l: "map_of (relics s') =
        grouped (map (\<lambda>e. (display_id (supporting_hero e), relic_of e))
          (filter (\<lambda>e. truthy (supporting_hero e) \<and> supporting_hero e \<in> set (owned_ids (heroes s')))
             (raw_relic_lists s)))"
      by (simp only: entries_of)
    from a(7) have c: "cities s' = map city_of
        (if truthy (raw_playerdto s) then elements (field (raw_playerdto s) ''unlockedCities'')
         else [])"
      by (simp only: entries_of)
    from a(1) r h k e l c show ?thesis by blast
  qed
  from 1 2 3 classify_returns_iff [of s0] classify_message_one_bucket [of t msg]
    build_master_tables_ok [of s]
  show ?thesis by blast
qed

theorem no_exception_on_well_shaped_input_witness:
  "list_all is_record bare_stream \<and> truthy (raw_heropush bare_buckets) \<and>
   well_shaped bare_buckets \<and>
   fst (classify_startup_messages (init_analyzer bare_stream)) = None \<and>
   build_master_tables bare_buckets = (None, snd (build_master_tables bare_buckets)) \<and>
   is_record (JObj [(''@type'', JStr ''type.googleapis.com/QuestDTO'')]) \<and>
   classify_message (JObj [(''@type'', JStr ''type.googleapis.com/QuestDTO'')]) bare_buckets
     = (None, bare_buckets) \<and>
   \<not> has_field (raw_playerdto bare_buckets) ''id'' \<and>
   field (raw_playerdto bare_buckets) ''id'' = JNull \<and>
   player_info (snd (build_master_tables bare_buckets)) =
     JObj [(''id'', JNull), (''displayName'', JNull), (''username'', JNull), (''allianceId'', JNull)] \<and>
   heroes (snd (build_master_tables bare_buckets)) =
     [JObj [(''heroDefinitionId'', JStr ''hero.Boudica''), (''name'', JStr ''Boudica''),
            (''level'', JNull), (''ascensionLevel'', JNull), (''abilityLevel'', JNull),
            (''awakeningLevel'', JNull), (''abilityMasteryPoints'', JNull), (''unlockedAt'', JNull)]] \<and>
   decks (snd (build_master_tables bare_buckets)) =
     [JObj [(''definitionId'', JNull), (''heroes'', JArr [])]] \<and>
   map_of (equipment (snd (build_master_tables bare_buckets))) ''Boudica'' =
     Some [JObj [(''id'', JNull), (''slot'', JNull), (''set'', JNull), (''rarity'', JNull),
                 (''level'', JNull), (''mainAttribute'', JNull), (''subAttributes'', JArr [])]] \<and>
   map_of (relics (snd (build_master_tables bare_buckets))) ''Boudica'' =
     Some [JObj [(''relicDefinitionId'', JNull), (''level'', JNull), (''age'', JNull)]] \<and>
   cities (snd (build_master_tables bare_buckets)) =
     [JObj [(''id'', JInt 100), (''definitionId'', JNull), (''placedBuildingAmounts'', JObj []),
            (''buildingLimits'', JObj [])]] \<and>
   alliance_members (snd (build_master_tables bare_buckets)) =
     [JObj [(''id'', JNull), (''name'', JNull), (''level'', JNull), (''power'', JNull),
            (''age'', JNull)]] \<and>
   alliance_cities (snd (build_master_tables bare_buckets)) = []"
proof -
  let ?q = "JObj [(''@type'', JStr ''type.googleapis.com/QuestDTO'')]"
  let ?s' = "snd (build_master_tables bare_buckets)"
  note inst = no_exception_on_well_shaped_input
    [where ?s0.0 = "init_analyzer bare_stream" and s = bare_buckets and t = bare_buckets
       and msg = ?q and s' = ?s' and v = "raw_playerdto bare_buckets" and k = "''id''" and d = JNull]
  have q: "is_record ?q"
    "\<not> list_ex (\<lambda>k. is_kind k ?q)
        [''PlayerDTO'', ''HeroPush'', ''AllEquipmentUnitDataDTO'', ''RelicUnitDataDTO'',
         ''CityDTO'', ''AllianceMembersResponse'', ''AllianceCityDTO'']"
    by code_simp+
  have r: "list_all is_record bare_stream" by code_simp
  then have r': "list_all is_record (messages (init_analyzer bare_stream))"
    by (simp add: init_analyzer_def)
  have t: "truthy (raw_heropush bare_buckets)" by code_simp
  have w: "well_shaped bare_buckets" by code_simp
  have n: "\<not> has_field (raw_playerdto bare_buckets) ''id''" by code_simp
  from inst r' have c: "fst (classify_startup_messages (init_analyzer bare_stream)) = None" by blast
  from inst q have m: "classify_message ?q bare_buckets = (None, bare_buckets)" by blast
  from inst n have f: "field (raw_playerdto bare_buckets) ''id'' = JNull" by blast
  from inst t w have "fst (build_master_tables bare_buckets) = None" by blast
  then have p: "build_master_tables bare_buckets = (None, ?s')" by (simp add: prod_eq_iff)
  have own: "owned_ids (heroes ?s') = [JStr ''hero.Boudica'']" by code_simp
  from inst p have
    1: "player_info ?s' = profile_of (raw_playerdto bare_buckets)" and
    2: "heroes ?s' = map hero_of (elements (field (raw_heropush bare_buckets) ''unlocked''))" and
    3: "decks ?s' = map deck_of (elements (field (raw_heropush bare_buckets) ''deck''))" and
    4: "map_of (equipment ?s') =
        grouped (map (\<lambda>e. (display_id (equipped_on e), equipment_of e))
          (filter (\<lambda>e. truthy (equipped_on e) \<and> equipped_on e \<in> set (owned_ids (heroes ?s')))
             (concat (map elements (raw_equipment_lists bare_buckets)))))" and
    5: "map_of (relics ?s') =
        grouped (map (\<lambda>e. (display_id (supporting_hero e), relic_of e))
          (filter (\<lambda>e. truthy (supporting_hero e) \<and> supporting_hero e \<in> set (owned_ids (heroes ?s')))
             (raw_relic_lists bare_buckets)))" and
    6: "cities ?s' = map city_of
        (if truthy (raw_playerdto bare_buckets)
         then elements (field (raw_playerdto bare_buckets) ''unlockedCities'') else [])" and
    7: "alliance_members ?s' = map member_of
        (if truthy (raw_alliance_members bare_buckets)
         then elements (field (raw_alliance_members bare_buckets) ''members'') else [])" and
    8: "alliance_cities ?s' = map alliance_city_of (raw_alliance_cities bare_buckets)"
    by blast+
  have e1: "profile_of (raw_playerdto bare_buckets) =
     JObj [(''id'', JNull), (''displayName'', JNull), (''username'', JNull), (''allianceId'', JNull)]"
    by code_simp
  have e2: "map hero_of (elements (field (raw_heropush bare_buckets) ''unlocked'')) =
     [JObj [(''heroDefinitionId'', JStr ''hero.Boudica''), (''name'', JStr ''Boudica''),
            (''level'', JNull), (''ascensionLevel'', JNull), (''abilityLevel'', JNull),
            (''awakeningLevel'', JNull), (''abilityMasteryPoints'', JNull), (''unlockedAt'', JNull)]]"
    by code_simp
  have e3: "map deck_of (elements (field (raw_heropush bare_buckets) ''deck'')) =
     [JObj [(''definitionId'', JNull), (''heroes'', JArr [])]]"
    by code_simp
  have e4: "grouped (map (\<lambda>e. (display_id (equipped_on e), equipment_of e))
          (filter (\<lambda>e. truthy (equipped_on e) \<and> equipped_on e \<in> set [JStr ''hero.Boudica''])
             (concat (map elements (raw_equipment_lists bare_buckets))))) ''Boudica'' =
     Some [JObj [(''id'', JNull), (''slot'', JNull), (''set'', JNull), (''rarity'', JNull),
                 (''level'', JNull), (''mainAttribute'', JNull), (''subAttributes'', JArr [])]]"
    by code_simp
  have e5: "grouped (map (\<lambda>e. (display_id (supporting_hero e), relic_of e))
          (filter (\<lambda>e. truthy (supporting_hero e) \<and> supporting_hero e \<in> set [JStr ''hero.Boudica''])
             (raw_relic_lists bare_buckets))) ''Boudica'' =
     Some [JObj [(''relicDefinitionId'', JNull), (''level'', JNull), (''age'', JNull)]]"
    by code_simp
  have e6: "map city_of
        (if truthy (raw_playerdto bare_buckets)
         then elements (field (raw_playerdto bare_buckets) ''unlockedCities'') else []) =
     [JObj [(''id'', JInt 100), (''definitionId'', JNull), (''placedBuildingAmounts'', JObj []),
            (''buildingLimits'', JObj [])]]"
    by code_simp
  have e7: "map member_of
        (if truthy (raw_alliance_members bare_buckets)
         then elements (field (raw_alliance_members bare_buckets) ''members'') else []) =
     [JObj [(''id'', JNull), (''name'', JNull), (''level'', JNull), (''power'', JNull),
            (''age'', JNull)]]"
    by code_simp
  have e8: "map alliance_city_of (raw_alliance_cities bare_buckets) = []" by code_simp
  from 4 e4 have g4: "map_of (equipment ?s') ''Boudica'' =
     Some [JObj [(''id'', JNull), (''slot'', JNull), (''set'', JNull), (''rarity'', JNull),
                 (''level'', JNull), (''mainAttribute'', JNull), (''subAttributes'', JArr [])]]"
    by (simp only: own)
  from 5 e5 have g5: "map_of (relics ?s') ''Boudica'' =
     Some [JObj [(''relicDefinitionId'', JNull), (''level'', JNull), (''age'', JNull)]]"
    by (simp only: own)
  from r t w c p q(1) m n f 1 2 3 g4 g5 6 7 8 show ?thesis
    by (simp only: e1 e2 e3 e6 e7 e8 simp_thms)
qed

text \<open>
  Claim C9 as stated fails: a relic record whose \<^verbatim>\<open>supportingUnit\<close> is null makes the
  builder raise \<^verbatim>\<open>AttributeError\<close> although the HeroPush singleton is present, and a
  record whose discriminator is null makes the classifier raise.
\<close>

theorem null_field_raises_counterexample:
  "list_all is_record null_unit_stream \<and>
   fst (classify_startup_messages (init_analyzer null_unit_stream)) = None \<and>
   truthy (raw_heropush null_unit_buckets) \<and>
   fst (build_master_tables null_unit_buckets) = Some AttributeError \<and>
   fst (classify_startup_messages (init_analyzer [JObj [(''@type'', JNull)]])) = Some AttributeError"
  by code_simp

end
